theory Spec2Isabelle
  imports Main
begin

section \<open>Python values used by the stat pipeline\<close>

text \<open>
  Python integers are unbounded and are modelled by \<^typ>\<open>int\<close>; an \<open>Optional[int]\<close> is an
  \<^typ>\<open>int option\<close>. Strings are lists of characters whose code points lie below 256.
  The interpreter's optional limit on the number of digits of an integer literal is not
  part of the model.
\<close>

datatype error = ValueError | IndexError | StorageError | FetchError

subsection \<open>\<open>str.strip\<close>, \<open>int(str)\<close> and \<open>str(int)\<close>\<close>

definition str_isspace :: "char \<Rightarrow> bool" where
  \<comment> \<open>the characters \<open>str.strip()\<close> removes\<close>
  "str_isspace c = (c \<in> set [CHR 0x09, CHR 0x0A, CHR 0x0B, CHR 0x0C, CHR 0x0D,
                               CHR 0x1C, CHR 0x1D, CHR 0x1E, CHR 0x1F, CHR 0x20,
                               CHR 0x85, CHR 0xA0])"

definition strip :: "string \<Rightarrow> string" where
  "strip s = rev (dropWhile str_isspace (rev (dropWhile str_isspace s)))"

definition int_isspace :: "char \<Rightarrow> bool" where
  \<comment> \<open>the characters \<open>int()\<close> skips around a literal\<close>
  "int_isspace c = (c \<in> set [CHR 0x09, CHR 0x0A, CHR 0x0B, CHR 0x0C, CHR 0x0D, CHR 0x20,
                               CHR 0x85, CHR 0xA0])"

definition is_digit :: "char \<Rightarrow> bool" where
  "is_digit c = (c \<in> set ''0123456789'')"

definition digit_val :: "char \<Rightarrow> nat" where
  "digit_val c = of_char c - 48"

fun digits_ok :: "string \<Rightarrow> bool" where
  \<comment> \<open>decimal digits, single underscores allowed between two digits\<close>
  "digits_ok [] = False"
| "digits_ok [c] = is_digit c"
| "digits_ok (c # d # cs) =
     (is_digit c \<and> (if d = CHR ''_'' then cs \<noteq> [] \<and> digits_ok cs else digits_ok (d # cs)))"

definition nat_of_digits :: "string \<Rightarrow> nat" where
  "nat_of_digits ds = foldl (\<lambda>a c. 10 * a + digit_val c) 0 (filter (\<lambda>c. c \<noteq> CHR ''_'') ds)"

definition py_int :: "string \<Rightarrow> int option" where
  \<comment> \<open>\<open>int(s)\<close> for a string; \<open>None\<close> stands for the \<open>ValueError\<close>\<close>
  "py_int s =
     (let t = rev (dropWhile int_isspace (rev (dropWhile int_isspace s))) in
      case t of
        [] \<Rightarrow> None
      | c # r \<Rightarrow>
          if c = CHR ''-'' then (if digits_ok r then Some (- int (nat_of_digits r)) else None)
          else if c = CHR ''+'' then (if digits_ok r then Some (int (nat_of_digits r)) else None)
          else (if digits_ok t then Some (int (nat_of_digits t)) else None))"

fun str_nat :: "nat \<Rightarrow> string" where
  "str_nat n =
     (if n < 10 then [''0123456789'' ! n]
      else str_nat (n div 10) @ [''0123456789'' ! (n mod 10)])"

declare str_nat.simps [simp del]

definition str_int :: "int \<Rightarrow> string" where
  \<comment> \<open>\<open>str(n)\<close>, also the rendering of \<open>{n}\<close> in an f-string\<close>
  "str_int n = (if n < 0 then CHR ''-'' # str_nat (nat (- n)) else str_nat (nat n))"

section \<open>Helpers of \<open>database_connector.py\<close>\<close>

text \<open>
  \<open>_to_int\<close> first tries \<open>int(v)\<close> and then \<open>int(float(str(v).replace(",", "")))\<close>.
  The second attempt goes through binary floating point; it is taken as a parameter
  \<open>fl\<close>, which maps the comma-free string to the truncated value, or to \<open>None\<close> when the
  conversion raises. Every result below holds for every such \<open>fl\<close>.
  On a value that already is an integer \<open>_to_int\<close> returns it unchanged, and on \<open>None\<close> it
  returns \<open>None\<close>: on an \<^typ>\<open>int option\<close> it is the identity.
\<close>

definition to_int :: "(string \<Rightarrow> int option) \<Rightarrow> string \<Rightarrow> int option" where
  "to_int fl v =
     (case py_int v of
        Some n \<Rightarrow> Some n
      | None \<Rightarrow> fl (filter (\<lambda>c. c \<noteq> CHR '','') v))"

definition int_or_zero :: "int option \<Rightarrow> int" where
  "int_or_zero v = (case v of None \<Rightarrow> 0 | Some n \<Rightarrow> n)"

definition or_zero :: "int option \<Rightarrow> int" where
  \<comment> \<open>Python's \<open>x or 0\<close> on an optional integer\<close>
  "or_zero v = (case v of None \<Rightarrow> 0 | Some n \<Rightarrow> (if n = 0 then 0 else n))"

definition to_pair :: "(string \<Rightarrow> int option) \<Rightarrow> string option \<Rightarrow> int option \<times> int option" where
  "to_pair fl s =
     (case s of
        None \<Rightarrow> (None, None)
      | Some s0 \<Rightarrow>
          (let s1 = strip s0 in
           if CHR ''/'' \<in> set s1 then
             (to_int fl (takeWhile (\<lambda>c. c \<noteq> CHR ''/'') s1),
              to_int fl (tl (dropWhile (\<lambda>c. c \<noteq> CHR ''/'') s1)))
           else (to_int fl s1, None)))"

definition merge_completions ::
  "(string \<Rightarrow> int option) \<Rightarrow> string option \<Rightarrow> string option \<Rightarrow> string option" where
  "merge_completions fl existing incoming =
     (let (e_left, e_right) = to_pair fl existing;
          (i_left, i_right) = to_pair fl incoming in
      if e_left = None \<and> e_right = None \<and> i_left = None \<and> i_right = None then None
      else
        (let left_sum = or_zero e_left + or_zero i_left in
         if e_right \<noteq> None \<or> i_right \<noteq> None then
           (let right_sum = or_zero e_right + or_zero i_right in
            Some (str_int left_sum @ ''/'' @ str_int right_sum))
         else Some (str_int left_sum)))"

section \<open>Records of \<open>espn_schedule_scraper.py\<close> and the stored rows\<close>

text \<open>
  The six dataclasses share their first five fields. A stored row has the columns of the
  dataclass of its table (the surrogate key and the two timestamps are never read back
  by the pipeline and are left out), so a row is a value of the same record type.
  Field names that occur in two dataclasses carry a suffix in the later one.
\<close>

record identity =
  team_id :: "int option"
  team_name :: "string option"
  player_id :: "int option"
  player_name :: "string option"
  player_headshot_url :: "string option"

record PassingStats = identity +
  completions_attempts :: "string option"
  passing_yards :: "int option"
  passing_touchdowns :: "int option"
  interceptions :: "int option"
  sacks :: "int option"

record RushingStats = identity +
  rushing_attempts :: "int option"
  rushing_yards :: "int option"
  rushing_touchdowns :: "int option"
  longest_run :: "int option"

record ReceivingStats = identity +
  receptions :: "int option"
  receiving_yards :: "int option"
  receiving_touchdowns :: "int option"
  longest_reception :: "int option"
  targets :: "int option"

record FumblesStats = identity +
  fumbles :: "int option"
  fumbles_lost :: "int option"
  fumbles_recovered :: "int option"

record DefensiveStats = identity +
  total_tackles :: "int option"
  solo_tackles :: "int option"
  sacks_d :: "int option"
  tackles_for_loss :: "int option"
  passes_defended :: "int option"
  qb_hits :: "int option"
  defensive_touchdowns :: "int option"

record InterceptionsStats = identity +
  interceptions_i :: "int option"
  interception_yards :: "int option"
  interception_touchdowns :: "int option"

section \<open>The storage\<close>

text \<open>
  Every statement of the pipeline addresses a table by \<open>player_id\<close>, so a table is a map
  from player ids to rows. The connection is opened with \<open>autocommit=False\<close>: every
  UPDATE, INSERT and DELETE statement changes the \<open>working\<close> tables of the open
  transaction at once, \<open>commit\<close> makes them the \<open>committed\<close> ones and \<open>rollback\<close> puts the
  committed tables back in their place. \<open>ops\<close> counts the statements and commits sent so
  far; a failure schedule \<open>fault\<close> says which of them raise. A rollback always takes
  effect (a lost connection discards the open transaction as well).
\<close>

record tables =
  passing_stats :: "int \<rightharpoonup> PassingStats"
  rushing_stats :: "int \<rightharpoonup> RushingStats"
  receiving_stats :: "int \<rightharpoonup> ReceivingStats"
  fumbles_stats :: "int \<rightharpoonup> FumblesStats"
  defensive_stats :: "int \<rightharpoonup> DefensiveStats"
  interceptions_stats :: "int \<rightharpoonup> InterceptionsStats"

record db =
  committed :: tables
  working :: tables
  ops :: nat

definition commit :: "db \<Rightarrow> db" where
  "commit d = d\<lparr>committed := working d\<rparr>"

definition rollback :: "db \<Rightarrow> db" where
  "rollback d = d\<lparr>working := committed d\<rparr>"

subsection \<open>The loop shared by the six \<open>insert_*_stats\<close> functions\<close>

text \<open>
  The six functions run the same loop and differ in the table and its columns only:
  \<open>get\<close> and \<open>put\<close> read and replace the table among the six, \<open>ins\<close> builds the row of
  the INSERT statement and \<open>upd\<close> the row left by the UPDATE statement. For each record
  with a player id the loop sends a SELECT and then an UPDATE or an INSERT, which
  writes the working table; whichever raises ends the loop with the writes made so far
  still pending.
\<close>

fun upsert_rows ::
  "(nat \<Rightarrow> bool) \<Rightarrow> (tables \<Rightarrow> (int \<rightharpoonup> 'r)) \<Rightarrow> ((int \<rightharpoonup> 'r) \<Rightarrow> tables \<Rightarrow> tables) \<Rightarrow>
   ('r \<Rightarrow> int option) \<Rightarrow> ('r \<Rightarrow> 'r) \<Rightarrow> ('r \<Rightarrow> 'r \<Rightarrow> 'r) \<Rightarrow>
   'r list \<Rightarrow> db \<Rightarrow> nat \<Rightarrow> (error + nat) \<times> db" where
  "upsert_rows fault get put pid ins upd [] d processed = (Inr processed, d)"
| "upsert_rows fault get put pid ins upd (s # ss) d processed =
     (case pid s of
        None \<Rightarrow> upsert_rows fault get put pid ins upd ss d processed
      | Some p \<Rightarrow>
          if fault (ops d) then (Inl StorageError, d\<lparr>ops := Suc (ops d)\<rparr>)
          else if fault (Suc (ops d)) then (Inl StorageError, d\<lparr>ops := Suc (Suc (ops d))\<rparr>)
          else upsert_rows fault get put pid ins upd ss
                 (d\<lparr>working :=
                      put ((get (working d))
                             (p \<mapsto> (case get (working d) p of
                                      Some row \<Rightarrow> upd row s
                                    | None \<Rightarrow> ins s)))
                          (working d),
                    ops := Suc (Suc (ops d))\<rparr>)
                 (Suc processed))"

definition finish_batch :: "(nat \<Rightarrow> bool) \<Rightarrow> (error + nat) \<times> db \<Rightarrow> (error + nat) \<times> db" where
  \<comment> \<open>\<open>commit(); return processed\<close>, and \<open>except Exception: rollback(); raise\<close>\<close>
  "finish_batch fault r =
     (case r of
        (Inr processed, d) \<Rightarrow>
          if fault (ops d) then (Inl StorageError, rollback (d\<lparr>ops := Suc (ops d)\<rparr>))
          else (Inr processed, commit (d\<lparr>ops := Suc (ops d)\<rparr>))
      | (Inl e, d) \<Rightarrow> (Inl e, rollback d))"

subsection \<open>Passing\<close>

definition passing_insert_row :: "PassingStats \<Rightarrow> PassingStats" where
  "passing_insert_row s =
     \<lparr>team_id = team_id s, team_name = team_name s, player_id = player_id s,
      player_name = player_name s, player_headshot_url = player_headshot_url s,
      completions_attempts = completions_attempts s,
      passing_yards = Some (int_or_zero (passing_yards s)),
      passing_touchdowns = Some (int_or_zero (passing_touchdowns s)),
      interceptions = Some (int_or_zero (interceptions s)),
      sacks = Some (int_or_zero (sacks s))\<rparr>"

definition passing_update_row ::
  "(string \<Rightarrow> int option) \<Rightarrow> PassingStats \<Rightarrow> PassingStats \<Rightarrow> PassingStats" where
  "passing_update_row fl row s =
     \<lparr>team_id = team_id s, team_name = team_name s, player_id = player_id row,
      player_name = player_name s, player_headshot_url = player_headshot_url s,
      completions_attempts =
        merge_completions fl (completions_attempts row) (completions_attempts s),
      passing_yards = Some (int_or_zero (passing_yards row) + int_or_zero (passing_yards s)),
      passing_touchdowns =
        Some (int_or_zero (passing_touchdowns row) + int_or_zero (passing_touchdowns s)),
      interceptions = Some (int_or_zero (interceptions row) + int_or_zero (interceptions s)),
      sacks = Some (int_or_zero (sacks row) + int_or_zero (sacks s))\<rparr>"

definition insert_passing_stats ::
  "(nat \<Rightarrow> bool) \<Rightarrow> (string \<Rightarrow> int option) \<Rightarrow> db \<Rightarrow> PassingStats list \<Rightarrow> (error + nat) \<times> db" where
  "insert_passing_stats fault fl d passing_stats_list =
     (if passing_stats_list = [] then (Inr 0, d)
      else finish_batch fault
             (upsert_rows fault passing_stats (\<lambda>T t. t\<lparr>passing_stats := T\<rparr>) player_id
                passing_insert_row (passing_update_row fl)
                passing_stats_list d 0))"

subsection \<open>Rushing\<close>

definition rushing_insert_row :: "RushingStats \<Rightarrow> RushingStats" where
  "rushing_insert_row s =
     \<lparr>team_id = team_id s, team_name = team_name s, player_id = player_id s,
      player_name = player_name s, player_headshot_url = player_headshot_url s,
      rushing_attempts = Some (int_or_zero (rushing_attempts s)),
      rushing_yards = Some (int_or_zero (rushing_yards s)),
      rushing_touchdowns = Some (int_or_zero (rushing_touchdowns s)),
      longest_run = longest_run s\<rparr>"

definition rushing_update_row :: "RushingStats \<Rightarrow> RushingStats \<Rightarrow> RushingStats" where
  "rushing_update_row row s =
     \<lparr>team_id = team_id s, team_name = team_name s, player_id = player_id row,
      player_name = player_name s, player_headshot_url = player_headshot_url s,
      rushing_attempts =
        Some (int_or_zero (rushing_attempts row) + int_or_zero (rushing_attempts s)),
      rushing_yards = Some (int_or_zero (rushing_yards row) + int_or_zero (rushing_yards s)),
      rushing_touchdowns =
        Some (int_or_zero (rushing_touchdowns row) + int_or_zero (rushing_touchdowns s)),
      longest_run = Some (max (or_zero (longest_run row)) (or_zero (longest_run s)))\<rparr>"

definition insert_rushing_stats ::
  "(nat \<Rightarrow> bool) \<Rightarrow> db \<Rightarrow> RushingStats list \<Rightarrow> (error + nat) \<times> db" where
  "insert_rushing_stats fault d rushing_stats_list =
     (if rushing_stats_list = [] then (Inr 0, d)
      else finish_batch fault
             (upsert_rows fault rushing_stats (\<lambda>T t. t\<lparr>rushing_stats := T\<rparr>) player_id
                rushing_insert_row rushing_update_row
                rushing_stats_list d 0))"

subsection \<open>Receiving\<close>

definition receiving_insert_row :: "ReceivingStats \<Rightarrow> ReceivingStats" where
  "receiving_insert_row s =
     \<lparr>team_id = team_id s, team_name = team_name s, player_id = player_id s,
      player_name = player_name s, player_headshot_url = player_headshot_url s,
      receptions = Some (int_or_zero (receptions s)),
      receiving_yards = Some (int_or_zero (receiving_yards s)),
      receiving_touchdowns = Some (int_or_zero (receiving_touchdowns s)),
      longest_reception = longest_reception s,
      targets = Some (int_or_zero (targets s))\<rparr>"

definition receiving_update_row :: "ReceivingStats \<Rightarrow> ReceivingStats \<Rightarrow> ReceivingStats" where
  "receiving_update_row row s =
     \<lparr>team_id = team_id s, team_name = team_name s, player_id = player_id row,
      player_name = player_name s, player_headshot_url = player_headshot_url s,
      receptions = Some (int_or_zero (receptions row) + int_or_zero (receptions s)),
      receiving_yards =
        Some (int_or_zero (receiving_yards row) + int_or_zero (receiving_yards s)),
      receiving_touchdowns =
        Some (int_or_zero (receiving_touchdowns row) + int_or_zero (receiving_touchdowns s)),
      longest_reception =
        Some (max (or_zero (longest_reception row)) (or_zero (longest_reception s))),
      targets = Some (int_or_zero (targets row) + int_or_zero (targets s))\<rparr>"

definition insert_receiving_stats ::
  "(nat \<Rightarrow> bool) \<Rightarrow> db \<Rightarrow> ReceivingStats list \<Rightarrow> (error + nat) \<times> db" where
  "insert_receiving_stats fault d receiving_stats_list =
     (if receiving_stats_list = [] then (Inr 0, d)
      else finish_batch fault
             (upsert_rows fault receiving_stats (\<lambda>T t. t\<lparr>receiving_stats := T\<rparr>) player_id
                receiving_insert_row receiving_update_row
                receiving_stats_list d 0))"

subsection \<open>Fumbles\<close>

definition fumbles_insert_row :: "FumblesStats \<Rightarrow> FumblesStats" where
  "fumbles_insert_row s =
     \<lparr>team_id = team_id s, team_name = team_name s, player_id = player_id s,
      player_name = player_name s, player_headshot_url = player_headshot_url s,
      fumbles = Some (int_or_zero (fumbles s)),
      fumbles_lost = Some (int_or_zero (fumbles_lost s)),
      fumbles_recovered = Some (int_or_zero (fumbles_recovered s))\<rparr>"

definition fumbles_update_row :: "FumblesStats \<Rightarrow> FumblesStats \<Rightarrow> FumblesStats" where
  "fumbles_update_row row s =
     \<lparr>team_id = team_id s, team_name = team_name s, player_id = player_id row,
      player_name = player_name s, player_headshot_url = player_headshot_url s,
      fumbles = Some (int_or_zero (fumbles row) + int_or_zero (fumbles s)),
      fumbles_lost = Some (int_or_zero (fumbles_lost row) + int_or_zero (fumbles_lost s)),
      fumbles_recovered =
        Some (int_or_zero (fumbles_recovered row) + int_or_zero (fumbles_recovered s))\<rparr>"

definition insert_fumbles_stats ::
  "(nat \<Rightarrow> bool) \<Rightarrow> db \<Rightarrow> FumblesStats list \<Rightarrow> (error + nat) \<times> db" where
  "insert_fumbles_stats fault d fumbles_stats_list =
     (if fumbles_stats_list = [] then (Inr 0, d)
      else finish_batch fault
             (upsert_rows fault fumbles_stats (\<lambda>T t. t\<lparr>fumbles_stats := T\<rparr>) player_id
                fumbles_insert_row fumbles_update_row
                fumbles_stats_list d 0))"

subsection \<open>Defensive\<close>

definition defensive_insert_row :: "DefensiveStats \<Rightarrow> DefensiveStats" where
  "defensive_insert_row s =
     \<lparr>team_id = team_id s, team_name = team_name s, player_id = player_id s,
      player_name = player_name s, player_headshot_url = player_headshot_url s,
      total_tackles = Some (int_or_zero (total_tackles s)),
      solo_tackles = Some (int_or_zero (solo_tackles s)),
      sacks_d = Some (int_or_zero (sacks_d s)),
      tackles_for_loss = Some (int_or_zero (tackles_for_loss s)),
      passes_defended = Some (int_or_zero (passes_defended s)),
      qb_hits = Some (int_or_zero (qb_hits s)),
      defensive_touchdowns = Some (int_or_zero (defensive_touchdowns s))\<rparr>"

definition defensive_update_row :: "DefensiveStats \<Rightarrow> DefensiveStats \<Rightarrow> DefensiveStats" where
  "defensive_update_row row s =
     \<lparr>team_id = team_id s, team_name = team_name s, player_id = player_id row,
      player_name = player_name s, player_headshot_url = player_headshot_url s,
      total_tackles = Some (int_or_zero (total_tackles row) + int_or_zero (total_tackles s)),
      solo_tackles = Some (int_or_zero (solo_tackles row) + int_or_zero (solo_tackles s)),
      sacks_d = Some (int_or_zero (sacks_d row) + int_or_zero (sacks_d s)),
      tackles_for_loss =
        Some (int_or_zero (tackles_for_loss row) + int_or_zero (tackles_for_loss s)),
      passes_defended =
        Some (int_or_zero (passes_defended row) + int_or_zero (passes_defended s)),
      qb_hits = Some (int_or_zero (qb_hits row) + int_or_zero (qb_hits s)),
      defensive_touchdowns =
        Some (int_or_zero (defensive_touchdowns row) + int_or_zero (defensive_touchdowns s))\<rparr>"

definition insert_defensive_stats ::
  "(nat \<Rightarrow> bool) \<Rightarrow> db \<Rightarrow> DefensiveStats list \<Rightarrow> (error + nat) \<times> db" where
  "insert_defensive_stats fault d defensive_stats_list =
     (if defensive_stats_list = [] then (Inr 0, d)
      else finish_batch fault
             (upsert_rows fault defensive_stats (\<lambda>T t. t\<lparr>defensive_stats := T\<rparr>) player_id
                defensive_insert_row defensive_update_row
                defensive_stats_list d 0))"

subsection \<open>Interceptions\<close>

definition interceptions_insert_row :: "InterceptionsStats \<Rightarrow> InterceptionsStats" where
  "interceptions_insert_row s =
     \<lparr>team_id = team_id s, team_name = team_name s, player_id = player_id s,
      player_name = player_name s, player_headshot_url = player_headshot_url s,
      interceptions_i = Some (int_or_zero (interceptions_i s)),
      interception_yards = Some (int_or_zero (interception_yards s)),
      interception_touchdowns = Some (int_or_zero (interception_touchdowns s))\<rparr>"

definition interceptions_update_row ::
  "InterceptionsStats \<Rightarrow> InterceptionsStats \<Rightarrow> InterceptionsStats" where
  "interceptions_update_row row s =
     \<lparr>team_id = team_id s, team_name = team_name s, player_id = player_id row,
      player_name = player_name s, player_headshot_url = player_headshot_url s,
      interceptions_i = Some (int_or_zero (interceptions_i row) + int_or_zero (interceptions_i s)),
      interception_yards =
        Some (int_or_zero (interception_yards row) + int_or_zero (interception_yards s)),
      interception_touchdowns =
        Some (int_or_zero (interception_touchdowns row)
              + int_or_zero (interception_touchdowns s))\<rparr>"

definition insert_interceptions_stats ::
  "(nat \<Rightarrow> bool) \<Rightarrow> db \<Rightarrow> InterceptionsStats list \<Rightarrow> (error + nat) \<times> db" where
  "insert_interceptions_stats fault d interceptions_stats_list =
     (if interceptions_stats_list = [] then (Inr 0, d)
      else finish_batch fault
             (upsert_rows fault interceptions_stats (\<lambda>T t. t\<lparr>interceptions_stats := T\<rparr>) player_id
                interceptions_insert_row interceptions_update_row
                interceptions_stats_list d 0))"

subsection \<open>\<open>insert_all_player_stats\<close> and \<open>wipe_all_stats_tables\<close>\<close>

text \<open>
  \<open>get_player_stats\<close> returns a list of six lists, one per category, in a fixed order; the
  model gives each its own field. The dictionary of counts becomes a record.
\<close>

record player_stats =
  ps_passing :: "PassingStats list"
  ps_rushing :: "RushingStats list"
  ps_receiving :: "ReceivingStats list"
  ps_fumbles :: "FumblesStats list"
  ps_defensive :: "DefensiveStats list"
  ps_interceptions :: "InterceptionsStats list"

record results =
  n_passing :: nat
  n_rushing :: nat
  n_receiving :: nat
  n_fumbles :: nat
  n_defensive :: nat
  n_interceptions :: nat

definition insert_all_player_stats ::
  "(nat \<Rightarrow> bool) \<Rightarrow> (string \<Rightarrow> int option) \<Rightarrow> db \<Rightarrow> player_stats \<Rightarrow> (error + results) \<times> db" where
  "insert_all_player_stats fault fl d ps =
     (case insert_passing_stats fault fl d (ps_passing ps) of
        (Inl e, d1) \<Rightarrow> (Inl e, rollback d1)
      | (Inr n1, d1) \<Rightarrow>
     (case insert_rushing_stats fault d1 (ps_rushing ps) of
        (Inl e, d2) \<Rightarrow> (Inl e, rollback d2)
      | (Inr n2, d2) \<Rightarrow>
     (case insert_receiving_stats fault d2 (ps_receiving ps) of
        (Inl e, d3) \<Rightarrow> (Inl e, rollback d3)
      | (Inr n3, d3) \<Rightarrow>
     (case insert_fumbles_stats fault d3 (ps_fumbles ps) of
        (Inl e, d4) \<Rightarrow> (Inl e, rollback d4)
      | (Inr n4, d4) \<Rightarrow>
     (case insert_defensive_stats fault d4 (ps_defensive ps) of
        (Inl e, d5) \<Rightarrow> (Inl e, rollback d5)
      | (Inr n5, d5) \<Rightarrow>
     (case insert_interceptions_stats fault d5 (ps_interceptions ps) of
        (Inl e, d6) \<Rightarrow> (Inl e, rollback d6)
      | (Inr n6, d6) \<Rightarrow>
          (Inr \<lparr>n_passing = n1, n_rushing = n2, n_receiving = n3, n_fumbles = n4,
                n_defensive = n5, n_interceptions = n6\<rparr>, d6)))))))"

fun delete_from ::
  "(nat \<Rightarrow> bool) \<Rightarrow> (tables \<Rightarrow> tables) list \<Rightarrow> db \<Rightarrow> (error + unit) \<times> db" where
  "delete_from fault [] d = (Inr (), d)"
| "delete_from fault (clear # rest) d =
     (if fault (ops d) then (Inl StorageError, d\<lparr>ops := Suc (ops d)\<rparr>)
      else delete_from fault rest (d\<lparr>working := clear (working d), ops := Suc (ops d)\<rparr>))"

definition wipe_all_stats_tables :: "(nat \<Rightarrow> bool) \<Rightarrow> db \<Rightarrow> (error + unit) \<times> db" where
  "wipe_all_stats_tables fault d =
     (case delete_from fault
             [\<lambda>t. t\<lparr>passing_stats := Map.empty\<rparr>,
              \<lambda>t. t\<lparr>rushing_stats := Map.empty\<rparr>,
              \<lambda>t. t\<lparr>receiving_stats := Map.empty\<rparr>,
              \<lambda>t. t\<lparr>fumbles_stats := Map.empty\<rparr>,
              \<lambda>t. t\<lparr>defensive_stats := Map.empty\<rparr>,
              \<lambda>t. t\<lparr>interceptions_stats := Map.empty\<rparr>]
             d of
        (Inr u, d1) \<Rightarrow>
          if fault (ops d1) then (Inl StorageError, rollback (d1\<lparr>ops := Suc (ops d1)\<rparr>))
          else (Inr (), commit (d1\<lparr>ops := Suc (ops d1)\<rparr>))
      | (Inl e, d1) \<Rightarrow> (Inl e, rollback d1))"

section \<open>\<open>espn_schedule_scraper.py\<close>\<close>

subsection \<open>The completions/attempts token of \<open>get_player_stats\<close>\<close>

text \<open>
  An element of an athlete's \<open>stats\<close> array is a JSON null, a string or a whole number.
  \<open>athlete.get("stats", [None])[0]\<close> reads its first element: a missing array gives \<open>None\<close>,
  an empty one raises \<open>IndexError\<close>.
\<close>

datatype token = TNull | TStr string | TInt int

definition first_token :: "token list option \<Rightarrow> error + token" where
  "first_token stats =
     (case stats of
        None \<Rightarrow> Inr TNull
      | Some [] \<Rightarrow> Inl IndexError
      | Some (t # ts) \<Rightarrow> Inr t)"

definition completions_attempts_str :: "token \<Rightarrow> string option" where
  "completions_attempts_str tok =
     (if (case tok of TStr s \<Rightarrow> CHR ''-'' \<in> set s | _ \<Rightarrow> False)
      then (case tok of TStr s \<Rightarrow> Some s | _ \<Rightarrow> None)
      else (case tok of
              TNull \<Rightarrow> None
            | TStr s \<Rightarrow> Some s
            | TInt n \<Rightarrow> Some (str_int n)))"

subsection \<open>\<open>compile_season_stats\<close>\<close>

text \<open>
  The remote source is a parameter: \<open>get_game_ids\<close> answers a schedule request with the
  game ids of a week or an error, and \<open>get_player_stats\<close> answers a summary request with
  the six lists of a game or an error. The world of a run is the storage, the requests
  sent so far and the warnings printed so far, each warning with its game id and week.
\<close>

record feed =
  get_game_ids :: "int \<Rightarrow> int \<Rightarrow> int \<Rightarrow> error + string list"
  get_player_stats :: "int \<Rightarrow> error + player_stats"

datatype request = Schedule int int int | Summary int

record world =
  store :: db
  requests :: "request list"
  warnings :: "(string \<times> int) list"

definition try_game ::
  "(nat \<Rightarrow> bool) \<Rightarrow> (string \<Rightarrow> int option) \<Rightarrow> feed \<Rightarrow> string \<Rightarrow> world \<Rightarrow> (error + results) \<times> world" where
  \<comment> \<open>the body of the \<open>try\<close> block\<close>
  "try_game fault fl src game_id w =
     (case py_int game_id of
        None \<Rightarrow> (Inl ValueError, w)
      | Some g \<Rightarrow>
          (let w1 = w\<lparr>requests := requests w @ [Summary g]\<rparr> in
           case get_player_stats src g of
             Inl e \<Rightarrow> (Inl e, w1)
           | Inr stats \<Rightarrow>
               (case insert_all_player_stats fault fl (store w1) stats of
                  (Inl e, d) \<Rightarrow> (Inl e, w1\<lparr>store := d\<rparr>)
                | (Inr inserted, d) \<Rightarrow> (Inr inserted, w1\<lparr>store := d\<rparr>))))"

fun process_games ::
  "(nat \<Rightarrow> bool) \<Rightarrow> (string \<Rightarrow> int option) \<Rightarrow> feed \<Rightarrow> int \<Rightarrow> string list \<Rightarrow> world \<Rightarrow> world" where
  "process_games fault fl src week [] w = w"
| "process_games fault fl src week (game_id # rest) w =
     process_games fault fl src week rest
       (case try_game fault fl src game_id w of
          (Inl e, w1) \<Rightarrow> w1\<lparr>warnings := warnings w1 @ [(game_id, week)]\<rparr>
        | (Inr inserted, w1) \<Rightarrow> w1)"

fun process_weeks ::
  "(nat \<Rightarrow> bool) \<Rightarrow> (string \<Rightarrow> int option) \<Rightarrow> feed \<Rightarrow> int \<Rightarrow> int \<Rightarrow> int list \<Rightarrow> world \<Rightarrow>
   (error + unit) \<times> world" where
  "process_weeks fault fl src season season_type [] w = (Inr (), w)"
| "process_weeks fault fl src season season_type (week # weeks) w =
     (let w1 = w\<lparr>requests := requests w @ [Schedule season week season_type]\<rparr> in
      case get_game_ids src season week season_type of
        Inl e \<Rightarrow> (Inl e, w1)
      | Inr game_ids \<Rightarrow>
          process_weeks fault fl src season season_type weeks
            (process_games fault fl src week game_ids w1))"

definition compile_season_stats ::
  "(nat \<Rightarrow> bool) \<Rightarrow> (string \<Rightarrow> int option) \<Rightarrow> feed \<Rightarrow> int \<Rightarrow> int \<Rightarrow> int \<Rightarrow> world \<Rightarrow>
   (error + unit) \<times> world" where
  "compile_season_stats fault fl src season end_week season_type w =
     (if end_week < 1 then (Inl ValueError, w)
      else if season_type \<notin> set [1, 2, 3] then (Inl ValueError, w)
      else if season_type = 1 \<and> end_week > 4 then (Inl ValueError, w)
      else if season_type = 2 \<and> end_week > 18 then (Inl ValueError, w)
      else if season_type = 3 \<and> end_week > 4 then (Inl ValueError, w)
      else
        (case wipe_all_stats_tables fault (store w) of
           (Inl e, d) \<Rightarrow> (Inl e, w\<lparr>store := d\<rparr>)
         | (Inr u, d) \<Rightarrow>
             process_weeks fault fl src season season_type [1..end_week] (w\<lparr>store := d\<rparr>)))"

section \<open>The row of one player\<close>

text \<open>
  Two notions used to state and prove the properties of the loop. \<open>merge_rows\<close> folds the
  records of one player into that player's row, the way successive iterations of the loop
  do; \<open>row_of\<close> is the table this gives for every player at once.
\<close>

fun merge_rows :: "('r \<Rightarrow> 'r) \<Rightarrow> ('r \<Rightarrow> 'r \<Rightarrow> 'r) \<Rightarrow> 'r option \<Rightarrow> 'r list \<Rightarrow> 'r option" where
  "merge_rows ins upd cur [] = cur"
| "merge_rows ins upd cur (s # ss) =
     merge_rows ins upd (Some (case cur of Some row \<Rightarrow> upd row s | None \<Rightarrow> ins s)) ss"

definition row_of ::
  "('r \<Rightarrow> int option) \<Rightarrow> ('r \<Rightarrow> 'r) \<Rightarrow> ('r \<Rightarrow> 'r \<Rightarrow> 'r) \<Rightarrow> (int \<rightharpoonup> 'r) \<Rightarrow> 'r list \<Rightarrow> (int \<rightharpoonup> 'r)" where
  "row_of pid ins upd T ss = (\<lambda>p. merge_rows ins upd (T p) (filter (\<lambda>s. pid s = Some p) ss))"

section \<open>Example data\<close>

text \<open>
  Concrete inputs for the examples below: a storage that never fails and two whose
  statement number 3 or 8 fails, a float conversion that rejects its argument (as \<open>float()\<close>
  does on the strings of the examples, none of which is a number), two games with
  records of player 7 in every category, a source with one game in every week, one with three games of which the second
  cannot be fetched, and one that fails at discovery.
\<close>

definition no_fault :: "nat \<Rightarrow> bool" where
  "no_fault n = False"

definition fault_at_8 :: "nat \<Rightarrow> bool" where
  "fault_at_8 n = (n = 8)"

definition fault_at_3 :: "nat \<Rightarrow> bool" where
  "fault_at_3 n = (n = 3)"

definition no_float :: "string \<Rightarrow> int option" where
  "no_float v = None"

definition empty_tables :: tables where
  "empty_tables =
     \<lparr>passing_stats = Map.empty, rushing_stats = Map.empty, receiving_stats = Map.empty,
      fumbles_stats = Map.empty, defensive_stats = Map.empty,
      interceptions_stats = Map.empty\<rparr>"

definition ex_db :: db where
  "ex_db = \<lparr>committed = empty_tables, working = empty_tables, ops = 0\<rparr>"

definition pass_a :: PassingStats where
  "pass_a =
     \<lparr>team_id = Some 20, team_name = Some ''Jets'', player_id = Some 7,
      player_name = Some ''A. Passer'', player_headshot_url = Some ''a.png'',
      completions_attempts = Some ''10/15'', passing_yards = Some 200,
      passing_touchdowns = Some 2, interceptions = None, sacks = Some 1\<rparr>"

definition pass_b :: PassingStats where
  "pass_b =
     \<lparr>team_id = Some 2, team_name = Some ''Bills'', player_id = Some 7,
      player_name = Some ''Al Passer'', player_headshot_url = None,
      completions_attempts = Some ''5/8'', passing_yards = Some 50,
      passing_touchdowns = None, interceptions = Some 1, sacks = Some 0\<rparr>"

definition pass_dash_a :: PassingStats where
  "pass_dash_a = pass_a\<lparr>completions_attempts := completions_attempts_str (TStr ''10-15'')\<rparr>"

definition pass_dash_b :: PassingStats where
  "pass_dash_b = pass_b\<lparr>completions_attempts := completions_attempts_str (TStr ''5-8'')\<rparr>"

definition pass_anon :: PassingStats where
  "pass_anon = pass_a\<lparr>player_id := None\<rparr>"

definition rush_a :: RushingStats where
  "rush_a =
     \<lparr>team_id = Some 20, team_name = Some ''Jets'', player_id = Some 7,
      player_name = Some ''A. Passer'', player_headshot_url = Some ''a.png'',
      rushing_attempts = Some 3, rushing_yards = Some (- 4), rushing_touchdowns = Some 0,
      longest_run = None\<rparr>"

definition rush_b :: RushingStats where
  "rush_b =
     \<lparr>team_id = Some 2, team_name = Some ''Bills'', player_id = Some 7,
      player_name = Some ''Al Passer'', player_headshot_url = None,
      rushing_attempts = Some 1, rushing_yards = None, rushing_touchdowns = None,
      longest_run = None\<rparr>"

definition recv_a :: ReceivingStats where
  "recv_a =
     \<lparr>team_id = Some 20, team_name = Some ''Jets'', player_id = Some 7,
      player_name = Some ''A. Passer'', player_headshot_url = Some ''a.png'',
      receptions = Some 1, receiving_yards = Some 12, receiving_touchdowns = Some 0,
      longest_reception = Some 12, targets = Some 2\<rparr>"

definition recv_b :: ReceivingStats where
  "recv_b =
     \<lparr>team_id = Some 2, team_name = Some ''Bills'', player_id = Some 7,
      player_name = Some ''Al Passer'', player_headshot_url = None,
      receptions = Some 2, receiving_yards = Some 39, receiving_touchdowns = Some 1,
      longest_reception = Some 30, targets = None\<rparr>"

definition fum_a :: FumblesStats where
  "fum_a =
     \<lparr>team_id = Some 20, team_name = Some ''Jets'', player_id = Some 7,
      player_name = Some ''A. Passer'', player_headshot_url = Some ''a.png'',
      fumbles = Some 1, fumbles_lost = Some 1, fumbles_recovered = None\<rparr>"

definition fum_b :: FumblesStats where
  "fum_b =
     \<lparr>team_id = Some 2, team_name = Some ''Bills'', player_id = Some 7,
      player_name = Some ''Al Passer'', player_headshot_url = None,
      fumbles = Some 2, fumbles_lost = Some 0, fumbles_recovered = Some 1\<rparr>"

definition def_a :: DefensiveStats where
  "def_a =
     \<lparr>team_id = Some 20, team_name = Some ''Jets'', player_id = Some 7,
      player_name = Some ''A. Passer'', player_headshot_url = Some ''a.png'',
      total_tackles = Some 5, solo_tackles = Some 3, sacks_d = Some 1,
      tackles_for_loss = Some 1, passes_defended = None, qb_hits = Some 2,
      defensive_touchdowns = Some 0\<rparr>"

definition def_b :: DefensiveStats where
  "def_b =
     \<lparr>team_id = Some 2, team_name = Some ''Bills'', player_id = Some 7,
      player_name = Some ''Al Passer'', player_headshot_url = None,
      total_tackles = Some 4, solo_tackles = Some 4, sacks_d = None,
      tackles_for_loss = Some 2, passes_defended = Some 1, qb_hits = Some 1,
      defensive_touchdowns = Some 1\<rparr>"

definition int_a :: InterceptionsStats where
  "int_a =
     \<lparr>team_id = Some 20, team_name = Some ''Jets'', player_id = Some 7,
      player_name = Some ''A. Passer'', player_headshot_url = Some ''a.png'',
      interceptions_i = Some 1, interception_yards = Some 25,
      interception_touchdowns = None\<rparr>"

definition int_b :: InterceptionsStats where
  "int_b =
     \<lparr>team_id = Some 2, team_name = Some ''Bills'', player_id = Some 7,
      player_name = Some ''Al Passer'', player_headshot_url = None,
      interceptions_i = Some 2, interception_yards = Some 0,
      interception_touchdowns = Some 1\<rparr>"

definition game_a :: player_stats where
  "game_a =
     \<lparr>ps_passing = [pass_a], ps_rushing = [rush_a], ps_receiving = [recv_a],
      ps_fumbles = [fum_a], ps_defensive = [def_a], ps_interceptions = [int_a]\<rparr>"

definition game_b :: player_stats where
  "game_b =
     \<lparr>ps_passing = [pass_b], ps_rushing = [rush_b], ps_receiving = [recv_b],
      ps_fumbles = [fum_b], ps_defensive = [def_b], ps_interceptions = [int_b]\<rparr>"

definition one_game_feed :: feed where
  "one_game_feed =
     \<lparr>get_game_ids = (\<lambda>season week season_type. Inr [''401'']),
      get_player_stats = (\<lambda>g. Inr game_a)\<rparr>"

definition three_game_feed :: feed where
  "three_game_feed =
     \<lparr>get_game_ids = (\<lambda>season week season_type. Inr [''401'', ''402'', ''403'']),
      get_player_stats = (\<lambda>g. if g = 401 then Inr game_a
                                else if g = 403 then Inr game_b else Inl FetchError)\<rparr>"

definition dead_feed :: feed where
  "dead_feed =
     \<lparr>get_game_ids = (\<lambda>season week season_type. Inl FetchError),
      get_player_stats = (\<lambda>g. Inl FetchError)\<rparr>"

definition ex_world :: world where
  "ex_world = \<lparr>store = ex_db, requests = [], warnings = []\<rparr>"

section \<open>Decimal rendering and parsing agree\<close>

lemma digit_nth: "k < 10 \<Longrightarrow> is_digit (''0123456789'' ! k) \<and> digit_val (''0123456789'' ! k) = k"
proof -
  assume "k < 10"
  then have "k \<in> {0,1,2,3,4,5,6,7,8,9}" by auto
  then show ?thesis by (auto simp: is_digit_def digit_val_def)
qed

lemma str_nat_digits: "\<forall>c \<in> set (str_nat n). is_digit c"
proof (induction n rule: str_nat.induct)
  case (1 n)
  show ?case
  proof (cases "n < 10")
    case True
    then show ?thesis by (subst str_nat.simps) (simp add: digit_nth)
  next
    case False
    with 1 show ?thesis by (subst str_nat.simps) (simp add: digit_nth)
  qed
qed

lemma str_nat_nonempty: "str_nat n \<noteq> []"
  by (subst str_nat.simps) simp

lemma digits_ok_all: "ds \<noteq> [] \<Longrightarrow> \<forall>c \<in> set ds. is_digit c \<Longrightarrow> digits_ok ds"
proof (induction ds rule: digits_ok.induct)
  case (3 c d cs)
  have "d \<noteq> CHR ''_''" using "3.prems" by (auto simp: is_digit_def)
  with 3 show ?case by simp
qed simp_all

lemma nat_of_digits_snoc:
  "is_digit c \<Longrightarrow> nat_of_digits (ds @ [c]) = 10 * nat_of_digits ds + digit_val c"
  by (auto simp: nat_of_digits_def is_digit_def)

lemma nat_of_digits_str_nat: "nat_of_digits (str_nat n) = n"
proof (induction n rule: str_nat.induct)
  case (1 n)
  show ?case
  proof (cases "n < 10")
    case True
    then have "nat_of_digits ([] @ [''0123456789'' ! n]) = n"
      by (subst nat_of_digits_snoc) (simp_all add: digit_nth nat_of_digits_def)
    with True show ?thesis
      by (subst str_nat.simps) simp
  next
    case False
    with 1 show ?thesis
      by (subst str_nat.simps) (simp add: nat_of_digits_snoc digit_nth)
  qed
qed


lemma is_digit_not_space:
  "is_digit c \<Longrightarrow> \<not> int_isspace c" "is_digit c \<Longrightarrow> \<not> str_isspace c"
  "is_digit c \<Longrightarrow> c \<noteq> CHR ''/''" "is_digit c \<Longrightarrow> c \<noteq> CHR ''-''" "is_digit c \<Longrightarrow> c \<noteq> CHR ''+''"
  by (auto simp: is_digit_def int_isspace_def str_isspace_def)

lemma dropWhile_hd: "xs \<noteq> [] \<Longrightarrow> \<not> P (hd xs) \<Longrightarrow> dropWhile P xs = xs"
  by (cases xs) auto

lemma dropWhile_ends:
  assumes "s \<noteq> []" "\<not> P (hd s)" "\<not> P (last s)"
  shows "rev (dropWhile P (rev (dropWhile P s))) = s"
proof -
  have "dropWhile P (rev s) = rev s"
    using assms by (intro dropWhile_hd) (simp_all add: hd_rev)
  then show ?thesis using assms by (simp add: dropWhile_hd)
qed

lemma str_nat_hd_last: "is_digit (hd (str_nat n))" "is_digit (last (str_nat n))"
proof -
  have "hd (str_nat n) \<in> set (str_nat n)" "last (str_nat n) \<in> set (str_nat n)"
    using str_nat_nonempty [of n] by simp_all
  then show "is_digit (hd (str_nat n))" "is_digit (last (str_nat n))"
    using str_nat_digits [of n] by blast+
qed

lemma py_int_str_int: "py_int (str_int n) = Some n"
proof (cases "n < 0")
  case True
  let ?r = "str_nat (nat (- n))"
  have "\<not> int_isspace (CHR ''-'')" by (simp add: int_isspace_def)
  moreover have "\<not> int_isspace (last ?r)" by (simp add: is_digit_not_space str_nat_hd_last)
  ultimately have e: "rev (dropWhile int_isspace (rev (dropWhile int_isspace (CHR ''-'' # ?r)))) = CHR ''-'' # ?r"
    using str_nat_nonempty [of "nat (- n)"] by (intro dropWhile_ends) simp_all
  have "digits_ok ?r" by (simp add: digits_ok_all str_nat_digits str_nat_nonempty)
  with True e show ?thesis
    by (simp add: py_int_def str_int_def nat_of_digits_str_nat)
next
  case False
  let ?t = "str_nat (nat n)"
  have e: "rev (dropWhile int_isspace (rev (dropWhile int_isspace ?t))) = ?t"
    by (intro dropWhile_ends) (simp_all add: is_digit_not_space str_nat_hd_last str_nat_nonempty)
  have d: "digits_ok ?t" by (simp add: digits_ok_all str_nat_digits str_nat_nonempty)
  obtain c r where cr: "?t = c # r" using str_nat_nonempty [of "nat n"] by (cases ?t) auto
  then have "is_digit c" using str_nat_digits [of "nat n"] by simp
  then have "c \<noteq> CHR ''-''" "c \<noteq> CHR ''+''" by (simp_all add: is_digit_not_space)
  with False e d cr show ?thesis
    using nat_of_digits_str_nat [of "nat n"]
    by (simp add: py_int_def str_int_def)
qed

lemma to_int_str_int: "to_int fl (str_int n) = Some n"
  by (simp add: to_int_def py_int_str_int)

lemma str_int_nonempty: "str_int n \<noteq> []"
  by (simp add: str_int_def str_nat_nonempty)

lemma str_int_no_slash: "CHR ''/'' \<notin> set (str_int n)"
  using str_nat_digits is_digit_not_space(3) by (auto simp: str_int_def)

lemma str_int_ends: "\<not> str_isspace (hd (str_int n))" "\<not> str_isspace (last (str_int n))"
  by (simp_all add: str_int_def str_nat_nonempty is_digit_not_space str_nat_hd_last)
     (simp add: str_isspace_def)

lemma strip_str_int: "strip (str_int n) = str_int n"
  unfolding strip_def by (intro dropWhile_ends) (simp_all add: str_int_nonempty str_int_ends)

lemma to_pair_bare: "to_pair fl (Some (str_int n)) = (Some n, None)"
  by (simp add: to_pair_def strip_str_int str_int_no_slash to_int_str_int)

lemma to_pair_slash: "to_pair fl (Some (str_int m @ ''/'' @ str_int n)) = (Some m, Some n)"
proof -
  let ?s = "str_int m @ ''/'' @ str_int n"
  have "strip ?s = ?s"
    unfolding strip_def
    by (intro dropWhile_ends) (simp_all add: str_int_nonempty str_int_ends)
  moreover have "takeWhile (\<lambda>c. c \<noteq> CHR ''/'') ?s = str_int m"
    using str_int_no_slash [of m] by (simp add: takeWhile_append)
  moreover have "dropWhile (\<lambda>c. c \<noteq> CHR ''/'') ?s = ''/'' @ str_int n"
    using str_int_no_slash [of m] by (simp add: dropWhile_append)
  ultimately show ?thesis by (simp add: to_pair_def to_int_str_int)
qed

section \<open>The completions/attempts merge\<close>

lemma merge_none: "to_pair fl existing = (None, None) \<Longrightarrow> to_pair fl incoming = (None, None) \<Longrightarrow>
    merge_completions fl existing incoming = None"
  by (simp add: merge_completions_def)

lemma merge_some:
  "to_pair fl existing = (e_left, e_right) \<Longrightarrow> to_pair fl incoming = (i_left, i_right) \<Longrightarrow>
   \<not> (e_left = None \<and> e_right = None \<and> i_left = None \<and> i_right = None) \<Longrightarrow>
   merge_completions fl existing incoming =
     (if e_right \<noteq> None \<or> i_right \<noteq> None
      then Some (str_int (or_zero e_left + or_zero i_left) @ ''/'' @
                 str_int (or_zero e_right + or_zero i_right))
      else Some (str_int (or_zero e_left + or_zero i_left)))"
  by (auto simp: merge_completions_def Let_def)

lemma to_pair_split:
  "to_pair fl (Some s) =
     (if CHR ''/'' \<in> set (strip s)
      then (to_int fl (takeWhile (\<lambda>c. c \<noteq> CHR ''/'') (strip s)),
            to_int fl (tl (dropWhile (\<lambda>c. c \<noteq> CHR ''/'') (strip s))))
      else (to_int fl (strip s), None))"
  by (simp add: to_pair_def Let_def)

lemma or_zero_eq: "or_zero v = (case v of None \<Rightarrow> 0 | Some n \<Rightarrow> n)"
  by (simp add: or_zero_def split: option.splits)

text \<open>
  Claim C2. Each side of \<open>_merge_completions\<close> decomposes into a pair: \<open>None\<close> gives
  \<open>(None, None)\<close>, a string with a slash is split at the first slash and both halves are
  parsed as integers, any other string gives its parsed value and \<open>None\<close>; in particular
  the rendering of \<open>m/n\<close> gives \<open>(m, n)\<close> and the rendering of a bare number \<open>n\<close> gives
  \<open>(n, None)\<close>. If both pairs are empty the result is \<open>None\<close>. Otherwise the left sum adds
  the left components with a missing one counted as 0, and the result is
  \<open>left/right\<close> with the right components summed in the same way when either side has
  a right component, and the plain left sum when neither has. The five cases of the
  truth table hold.
\<close>

theorem merge_completions_rule:
  "to_pair fl None = (None, None)
   \<and> to_pair fl (Some s) =
       (if CHR ''/'' \<in> set (strip s)
        then (to_int fl (takeWhile (\<lambda>c. c \<noteq> CHR ''/'') (strip s)),
              to_int fl (tl (dropWhile (\<lambda>c. c \<noteq> CHR ''/'') (strip s))))
        else (to_int fl (strip s), None))
   \<and> to_pair fl (Some (str_int m @ ''/'' @ str_int n)) = (Some m, Some n)
   \<and> to_pair fl (Some (str_int n)) = (Some n, None)
   \<and> (to_pair fl existing = (None, None) \<and> to_pair fl incoming = (None, None)
        \<longrightarrow> merge_completions fl existing incoming = None)
   \<and> (to_pair fl existing = (e_left, e_right) \<and> to_pair fl incoming = (i_left, i_right)
        \<and> \<not> (e_left = None \<and> e_right = None \<and> i_left = None \<and> i_right = None)
        \<longrightarrow> merge_completions fl existing incoming =
             (if e_right \<noteq> None \<or> i_right \<noteq> None
              then Some (str_int ((case e_left of None \<Rightarrow> 0 | Some a \<Rightarrow> a)
                                  + (case i_left of None \<Rightarrow> 0 | Some a \<Rightarrow> a))
                         @ ''/'' @
                         str_int ((case e_right of None \<Rightarrow> 0 | Some a \<Rightarrow> a)
                                  + (case i_right of None \<Rightarrow> 0 | Some a \<Rightarrow> a)))
              else Some (str_int ((case e_left of None \<Rightarrow> 0 | Some a \<Rightarrow> a)
                                  + (case i_left of None \<Rightarrow> 0 | Some a \<Rightarrow> a)))))
   \<and> merge_completions fl None (Some ''7/9'') = Some ''7/9''
   \<and> merge_completions fl (Some ''7'') (Some ''3'') = Some ''10''
   \<and> merge_completions fl (Some ''10/15'') (Some ''5/8'') = Some ''15/23''
   \<and> merge_completions fl (Some ''10/15'') (Some ''7'') = Some ''17/15''
   \<and> merge_completions fl None None = None"
proof -
  have t1: "merge_completions fl None (Some ''7/9'') = Some ''7/9''" by code_simp
  have t2: "merge_completions fl (Some ''7'') (Some ''3'') = Some ''10''" by code_simp
  have t3: "merge_completions fl (Some ''10/15'') (Some ''5/8'') = Some ''15/23''" by code_simp
  have t4: "merge_completions fl (Some ''10/15'') (Some ''7'') = Some ''17/15''" by code_simp
  have t5: "merge_completions fl None None = None" by code_simp
  have p0: "to_pair fl None = (None, None)" by (simp add: to_pair_def)
  show ?thesis
    using t1 t2 t3 t4 t5 p0 to_pair_split [of fl s] to_pair_slash [of fl m n]
      to_pair_bare [of fl n] merge_none [of fl existing incoming]
      merge_some [of fl existing e_left e_right incoming i_left i_right]
    unfolding or_zero_eq by blast
qed

theorem merge_completions_rule_witness:
  "to_pair (\<lambda>v. None) (Some ''10/15'') = (Some 10, Some 15)
   \<and> to_pair (\<lambda>v. None) (Some ''7'') = (Some 7, None)
   \<and> merge_completions (\<lambda>v. None) (Some ''10/15'') (Some ''7'')
       = Some (str_int 17 @ ''/'' @ str_int 15)
   \<and> to_pair (\<lambda>v. None) (Some ''n/a'') = (None, None)
   \<and> merge_completions (\<lambda>v. None) (Some ''n/a'') (Some ''n/a'') = None"
proof -
  have a: "to_pair (\<lambda>v. None) (Some ''10/15'') = (Some 10, Some 15)" by code_simp
  have b: "to_pair (\<lambda>v. None) (Some ''7'') = (Some 7, None)" by code_simp
  have c: "to_pair (\<lambda>v. None) (Some ''n/a'') = (None, None)" by code_simp
  show ?thesis
    using a b c
      merge_completions_rule [of "\<lambda>v. None" _ _ _ "Some ''10/15''" "Some ''7''" "Some 10" "Some 15" "Some 7" None]
      merge_completions_rule [of "\<lambda>v. None" _ _ _ "Some ''n/a''" "Some ''n/a''"]
    by simp
qed

section \<open>A batch in which no statement fails\<close>

lemma merge_rows_append:
  "merge_rows ins upd cur (xs @ ys) = merge_rows ins upd (merge_rows ins upd cur xs) ys"
  by (induction xs arbitrary: cur) simp_all

lemma row_of_Nil: "row_of pid ins upd T [] = T"
  by (simp add: row_of_def)

lemma row_of_append: "row_of pid ins upd T (xs @ ys) = row_of pid ins upd (row_of pid ins upd T xs) ys"
  by (simp add: row_of_def merge_rows_append)

lemma row_of_Cons_None: "pid s = None \<Longrightarrow> row_of pid ins upd T (s # ss) = row_of pid ins upd T ss"
  by (simp add: row_of_def)

lemma row_of_Cons_Some:
  "pid s = Some p \<Longrightarrow>
   row_of pid ins upd T (s # ss) =
   row_of pid ins upd (T(p \<mapsto> (case T p of Some row \<Rightarrow> upd row s | None \<Rightarrow> ins s))) ss"
  by (rule ext) (simp add: row_of_def)

lemma upsert_rows_nofault:
  assumes gp: "\<And>T t. get (put T t) = T" and pp: "\<And>T T' t. put T (put T' t) = put T t"
    and pg: "\<And>t. put (get t) t = t" and nf: "\<forall>n. \<not> fault n"
  shows "upsert_rows fault get put pid ins upd ss d c =
     (Inr (c + length (filter (\<lambda>s. pid s \<noteq> None) ss)),
      d\<lparr>working := put (row_of pid ins upd (get (working d)) ss) (working d),
        ops := ops d + 2 * length (filter (\<lambda>s. pid s \<noteq> None) ss)\<rparr>)"
proof (induction ss arbitrary: d c)
  case Nil
  then show ?case by (simp add: row_of_Nil pg)
next
  case (Cons s ss)
  show ?case
  proof (cases "pid s")
    case None
    with Cons show ?thesis by (simp add: row_of_Cons_None)
  next
    case (Some p)
    with Cons nf show ?thesis by (simp add: row_of_Cons_Some gp pp del: fun_upd_apply)
  qed
qed

lemma finish_batch_nofault:
  "\<forall>n. \<not> fault n \<Longrightarrow>
   finish_batch fault (Inr c, d) = (Inr c, commit (d\<lparr>ops := Suc (ops d)\<rparr>))"
  by (simp add: finish_batch_def)

lemma insert_passing_nofault:
  assumes "\<forall>n. \<not> fault n" and "working d = committed d"
  shows "\<exists>n d'. insert_passing_stats fault fl d xs = (Inr n, d') \<and> working d' = committed d' \<and>
           committed d' = (committed d)\<lparr>passing_stats :=
             row_of player_id passing_insert_row (passing_update_row fl) (passing_stats (committed d)) xs\<rparr>"
proof (cases "xs = []")
  case True
  with assms show ?thesis by (simp add: insert_passing_stats_def row_of_Nil)
next
  case False
  have "upsert_rows fault passing_stats (\<lambda>T t. t\<lparr>passing_stats := T\<rparr>) player_id
          passing_insert_row (passing_update_row fl) xs d 0 =
        (Inr (0 + length (filter (\<lambda>s. player_id s \<noteq> None) xs)),
         d\<lparr>working := (working d)\<lparr>passing_stats :=
              row_of player_id passing_insert_row (passing_update_row fl) (passing_stats (working d)) xs\<rparr>,
           ops := ops d + 2 * length (filter (\<lambda>s. player_id s \<noteq> None) xs)\<rparr>)"
    by (rule upsert_rows_nofault) (simp_all add: assms)
  with False assms show ?thesis
    by (simp add: insert_passing_stats_def finish_batch_nofault commit_def)
qed

lemma insert_rushing_nofault:
  assumes "\<forall>n. \<not> fault n" and "working d = committed d"
  shows "\<exists>n d'. insert_rushing_stats fault d xs = (Inr n, d') \<and> working d' = committed d' \<and>
           committed d' = (committed d)\<lparr>rushing_stats :=
             row_of player_id rushing_insert_row rushing_update_row (rushing_stats (committed d)) xs\<rparr>"
proof (cases "xs = []")
  case True
  with assms show ?thesis by (simp add: insert_rushing_stats_def row_of_Nil)
next
  case False
  have "upsert_rows fault rushing_stats (\<lambda>T t. t\<lparr>rushing_stats := T\<rparr>) player_id
          rushing_insert_row rushing_update_row xs d 0 =
        (Inr (0 + length (filter (\<lambda>s. player_id s \<noteq> None) xs)),
         d\<lparr>working := (working d)\<lparr>rushing_stats :=
              row_of player_id rushing_insert_row rushing_update_row (rushing_stats (working d)) xs\<rparr>,
           ops := ops d + 2 * length (filter (\<lambda>s. player_id s \<noteq> None) xs)\<rparr>)"
    by (rule upsert_rows_nofault) (simp_all add: assms)
  with False assms show ?thesis
    by (simp add: insert_rushing_stats_def finish_batch_nofault commit_def)
qed

lemma insert_receiving_nofault:
  assumes "\<forall>n. \<not> fault n" and "working d = committed d"
  shows "\<exists>n d'. insert_receiving_stats fault d xs = (Inr n, d') \<and> working d' = committed d' \<and>
           committed d' = (committed d)\<lparr>receiving_stats :=
             row_of player_id receiving_insert_row receiving_update_row (receiving_stats (committed d)) xs\<rparr>"
proof (cases "xs = []")
  case True
  with assms show ?thesis by (simp add: insert_receiving_stats_def row_of_Nil)
next
  case False
  have "upsert_rows fault receiving_stats (\<lambda>T t. t\<lparr>receiving_stats := T\<rparr>) player_id
          receiving_insert_row receiving_update_row xs d 0 =
        (Inr (0 + length (filter (\<lambda>s. player_id s \<noteq> None) xs)),
         d\<lparr>working := (working d)\<lparr>receiving_stats :=
              row_of player_id receiving_insert_row receiving_update_row (receiving_stats (working d)) xs\<rparr>,
           ops := ops d + 2 * length (filter (\<lambda>s. player_id s \<noteq> None) xs)\<rparr>)"
    by (rule upsert_rows_nofault) (simp_all add: assms)
  with False assms show ?thesis
    by (simp add: insert_receiving_stats_def finish_batch_nofault commit_def)
qed

lemma insert_fumbles_nofault:
  assumes "\<forall>n. \<not> fault n" and "working d = committed d"
  shows "\<exists>n d'. insert_fumbles_stats fault d xs = (Inr n, d') \<and> working d' = committed d' \<and>
           committed d' = (committed d)\<lparr>fumbles_stats :=
             row_of player_id fumbles_insert_row fumbles_update_row (fumbles_stats (committed d)) xs\<rparr>"
proof (cases "xs = []")
  case True
  with assms show ?thesis by (simp add: insert_fumbles_stats_def row_of_Nil)
next
  case False
  have "upsert_rows fault fumbles_stats (\<lambda>T t. t\<lparr>fumbles_stats := T\<rparr>) player_id
          fumbles_insert_row fumbles_update_row xs d 0 =
        (Inr (0 + length (filter (\<lambda>s. player_id s \<noteq> None) xs)),
         d\<lparr>working := (working d)\<lparr>fumbles_stats :=
              row_of player_id fumbles_insert_row fumbles_update_row (fumbles_stats (working d)) xs\<rparr>,
           ops := ops d + 2 * length (filter (\<lambda>s. player_id s \<noteq> None) xs)\<rparr>)"
    by (rule upsert_rows_nofault) (simp_all add: assms)
  with False assms show ?thesis
    by (simp add: insert_fumbles_stats_def finish_batch_nofault commit_def)
qed

lemma insert_defensive_nofault:
  assumes "\<forall>n. \<not> fault n" and "working d = committed d"
  shows "\<exists>n d'. insert_defensive_stats fault d xs = (Inr n, d') \<and> working d' = committed d' \<and>
           committed d' = (committed d)\<lparr>defensive_stats :=
             row_of player_id defensive_insert_row defensive_update_row (defensive_stats (committed d)) xs\<rparr>"
proof (cases "xs = []")
  case True
  with assms show ?thesis by (simp add: insert_defensive_stats_def row_of_Nil)
next
  case False
  have "upsert_rows fault defensive_stats (\<lambda>T t. t\<lparr>defensive_stats := T\<rparr>) player_id
          defensive_insert_row defensive_update_row xs d 0 =
        (Inr (0 + length (filter (\<lambda>s. player_id s \<noteq> None) xs)),
         d\<lparr>working := (working d)\<lparr>defensive_stats :=
              row_of player_id defensive_insert_row defensive_update_row (defensive_stats (working d)) xs\<rparr>,
           ops := ops d + 2 * length (filter (\<lambda>s. player_id s \<noteq> None) xs)\<rparr>)"
    by (rule upsert_rows_nofault) (simp_all add: assms)
  with False assms show ?thesis
    by (simp add: insert_defensive_stats_def finish_batch_nofault commit_def)
qed

lemma insert_interceptions_nofault:
  assumes "\<forall>n. \<not> fault n" and "working d = committed d"
  shows "\<exists>n d'. insert_interceptions_stats fault d xs = (Inr n, d') \<and> working d' = committed d' \<and>
           committed d' = (committed d)\<lparr>interceptions_stats :=
             row_of player_id interceptions_insert_row interceptions_update_row (interceptions_stats (committed d)) xs\<rparr>"
proof (cases "xs = []")
  case True
  with assms show ?thesis by (simp add: insert_interceptions_stats_def row_of_Nil)
next
  case False
  have "upsert_rows fault interceptions_stats (\<lambda>T t. t\<lparr>interceptions_stats := T\<rparr>) player_id
          interceptions_insert_row interceptions_update_row xs d 0 =
        (Inr (0 + length (filter (\<lambda>s. player_id s \<noteq> None) xs)),
         d\<lparr>working := (working d)\<lparr>interceptions_stats :=
              row_of player_id interceptions_insert_row interceptions_update_row (interceptions_stats (working d)) xs\<rparr>,
           ops := ops d + 2 * length (filter (\<lambda>s. player_id s \<noteq> None) xs)\<rparr>)"
    by (rule upsert_rows_nofault) (simp_all add: assms)
  with False assms show ?thesis
    by (simp add: insert_interceptions_stats_def finish_batch_nofault commit_def)
qed

lemma insert_all_nofault:
  assumes nf: "\<forall>n. \<not> fault n" and cl: "working d = committed d"
  shows "\<exists>res d'. insert_all_player_stats fault fl d ps = (Inr res, d') \<and>
           working d' = committed d' \<and>
           committed d' =
             \<lparr>passing_stats = row_of player_id passing_insert_row (passing_update_row fl)
                                (passing_stats (committed d)) (ps_passing ps),
              rushing_stats = row_of player_id rushing_insert_row rushing_update_row
                                (rushing_stats (committed d)) (ps_rushing ps),
              receiving_stats = row_of player_id receiving_insert_row receiving_update_row
                                (receiving_stats (committed d)) (ps_receiving ps),
              fumbles_stats = row_of player_id fumbles_insert_row fumbles_update_row
                                (fumbles_stats (committed d)) (ps_fumbles ps),
              defensive_stats = row_of player_id defensive_insert_row defensive_update_row
                                (defensive_stats (committed d)) (ps_defensive ps),
              interceptions_stats = row_of player_id interceptions_insert_row interceptions_update_row
                                (interceptions_stats (committed d)) (ps_interceptions ps)\<rparr>"
proof -
  obtain n1 d1 where 1: "insert_passing_stats fault fl d (ps_passing ps) = (Inr n1, d1)"
      "working d1 = committed d1"
      "committed d1 = (committed d)\<lparr>passing_stats :=
         row_of player_id passing_insert_row (passing_update_row fl) (passing_stats (committed d)) (ps_passing ps)\<rparr>"
    using insert_passing_nofault [OF nf cl] by blast
  obtain n2 d2 where 2: "insert_rushing_stats fault d1 (ps_rushing ps) = (Inr n2, d2)"
      "working d2 = committed d2"
      "committed d2 = (committed d1)\<lparr>rushing_stats :=
         row_of player_id rushing_insert_row rushing_update_row (rushing_stats (committed d1)) (ps_rushing ps)\<rparr>"
    using insert_rushing_nofault [OF nf 1(2)] by blast
  obtain n3 d3 where 3: "insert_receiving_stats fault d2 (ps_receiving ps) = (Inr n3, d3)"
      "working d3 = committed d3"
      "committed d3 = (committed d2)\<lparr>receiving_stats :=
         row_of player_id receiving_insert_row receiving_update_row (receiving_stats (committed d2)) (ps_receiving ps)\<rparr>"
    using insert_receiving_nofault [OF nf 2(2)] by blast
  obtain n4 d4 where 4: "insert_fumbles_stats fault d3 (ps_fumbles ps) = (Inr n4, d4)"
      "working d4 = committed d4"
      "committed d4 = (committed d3)\<lparr>fumbles_stats :=
         row_of player_id fumbles_insert_row fumbles_update_row (fumbles_stats (committed d3)) (ps_fumbles ps)\<rparr>"
    using insert_fumbles_nofault [OF nf 3(2)] by blast
  obtain n5 d5 where 5: "insert_defensive_stats fault d4 (ps_defensive ps) = (Inr n5, d5)"
      "working d5 = committed d5"
      "committed d5 = (committed d4)\<lparr>defensive_stats :=
         row_of player_id defensive_insert_row defensive_update_row (defensive_stats (committed d4)) (ps_defensive ps)\<rparr>"
    using insert_defensive_nofault [OF nf 4(2)] by blast
  obtain n6 d6 where 6: "insert_interceptions_stats fault d5 (ps_interceptions ps) = (Inr n6, d6)"
      "working d6 = committed d6"
      "committed d6 = (committed d5)\<lparr>interceptions_stats :=
         row_of player_id interceptions_insert_row interceptions_update_row (interceptions_stats (committed d5)) (ps_interceptions ps)\<rparr>"
    using insert_interceptions_nofault [OF nf 5(2)] by blast
  have "insert_all_player_stats fault fl d ps =
          (Inr \<lparr>n_passing = n1, n_rushing = n2, n_receiving = n3, n_fumbles = n4,
                n_defensive = n5, n_interceptions = n6\<rparr>, d6)"
    by (simp add: insert_all_player_stats_def 1(1) 2(1) 3(1) 4(1) 5(1) 6(1))
  moreover have "committed d6 =
             \<lparr>passing_stats = row_of player_id passing_insert_row (passing_update_row fl)
                                (passing_stats (committed d)) (ps_passing ps),
              rushing_stats = row_of player_id rushing_insert_row rushing_update_row
                                (rushing_stats (committed d)) (ps_rushing ps),
              receiving_stats = row_of player_id receiving_insert_row receiving_update_row
                                (receiving_stats (committed d)) (ps_receiving ps),
              fumbles_stats = row_of player_id fumbles_insert_row fumbles_update_row
                                (fumbles_stats (committed d)) (ps_fumbles ps),
              defensive_stats = row_of player_id defensive_insert_row defensive_update_row
                                (defensive_stats (committed d)) (ps_defensive ps),
              interceptions_stats = row_of player_id interceptions_insert_row interceptions_update_row
                                (interceptions_stats (committed d)) (ps_interceptions ps)\<rparr>"
    by (simp add: 1(3) 2(3) 3(3) 4(3) 5(3) 6(3))
  ultimately show ?thesis using 6(2) by blast
qed

lemma merge_rows_Some: "ss \<noteq> [] \<Longrightarrow> \<exists>row. merge_rows ins upd cur ss = Some row"
proof (induction ss arbitrary: cur)
  case Nil
  then show ?case by simp
next
  case (Cons s ss)
  then show ?case by (cases "ss = []") simp_all
qed

lemma merge_rows_sum:
  assumes i: "\<And>s. g (ins s) = Some (int_or_zero (g s))"
    and u: "\<And>row s. g (upd row s) = Some (int_or_zero (g row) + int_or_zero (g s))"
  shows "ss \<noteq> [] \<Longrightarrow> merge_rows ins upd cur ss = Some row \<Longrightarrow>
         g row = Some ((case cur of None \<Rightarrow> 0 | Some r \<Rightarrow> int_or_zero (g r))
                       + sum_list (map (\<lambda>s. int_or_zero (g s)) ss))"
proof (induction ss arbitrary: cur)
  case Nil
  then show ?case by simp
next
  case (Cons s ss)
  show ?case
  proof (cases "ss = []")
    case True
    with Cons.prems show ?thesis by (auto simp: i u split: option.splits)
  next
    case False
    from Cons.IH [OF False, of "Some (case cur of Some row \<Rightarrow> upd row s | None \<Rightarrow> ins s)"] Cons.prems
    show ?thesis by (simp add: i u int_or_zero_def split: option.splits)
  qed
qed

lemma merge_rows_last:
  assumes i: "\<And>s. g (ins s) = g s" and u: "\<And>row s. g (upd row s) = g s"
  shows "ss \<noteq> [] \<Longrightarrow> merge_rows ins upd cur ss = Some row \<Longrightarrow> g row = g (last ss)"
proof (induction ss arbitrary: cur)
  case Nil
  then show ?case by simp
next
  case (Cons s ss)
  show ?case
  proof (cases "ss = []")
    case True
    with Cons.prems show ?thesis by (auto simp: i u split: option.splits)
  next
    case False
    from Cons.IH [OF False, of "Some (case cur of Some row \<Rightarrow> upd row s | None \<Rightarrow> ins s)"] Cons.prems False
    show ?thesis by simp
  qed
qed

lemma delete_from_nofault:
  "\<forall>n. \<not> fault n \<Longrightarrow>
   delete_from fault cs d =
     (Inr (), d\<lparr>working := fold (\<lambda>c t. c t) cs (working d), ops := ops d + length cs\<rparr>)"
  by (induction cs arbitrary: d) simp_all

lemma wipe_nofault:
  assumes "\<forall>n. \<not> fault n"
  shows "\<exists>d'. wipe_all_stats_tables fault d = (Inr (), d') \<and> working d' = committed d' \<and>
           committed d' = \<lparr>passing_stats = Map.empty, rushing_stats = Map.empty,
                           receiving_stats = Map.empty, fumbles_stats = Map.empty,
                           defensive_stats = Map.empty, interceptions_stats = Map.empty\<rparr>"
  using assms by (simp add: wipe_all_stats_tables_def delete_from_nofault commit_def)

lemma games_nofault:
  assumes nf: "\<forall>n. \<not> fault n"
  shows "working d = committed d \<Longrightarrow>
     working (foldl (\<lambda>d ps. snd (insert_all_player_stats fault fl d ps)) d games)
       = committed (foldl (\<lambda>d ps. snd (insert_all_player_stats fault fl d ps)) d games) \<and>
     committed (foldl (\<lambda>d ps. snd (insert_all_player_stats fault fl d ps)) d games) =
             \<lparr>passing_stats = row_of player_id passing_insert_row (passing_update_row fl)
                                (passing_stats (committed d)) (concat (map ps_passing games)),
              rushing_stats = row_of player_id rushing_insert_row rushing_update_row
                                (rushing_stats (committed d)) (concat (map ps_rushing games)),
              receiving_stats = row_of player_id receiving_insert_row receiving_update_row
                                (receiving_stats (committed d)) (concat (map ps_receiving games)),
              fumbles_stats = row_of player_id fumbles_insert_row fumbles_update_row
                                (fumbles_stats (committed d)) (concat (map ps_fumbles games)),
              defensive_stats = row_of player_id defensive_insert_row defensive_update_row
                                (defensive_stats (committed d)) (concat (map ps_defensive games)),
              interceptions_stats = row_of player_id interceptions_insert_row interceptions_update_row
                                (interceptions_stats (committed d)) (concat (map ps_interceptions games))\<rparr>"
proof (induction games arbitrary: d)
  case Nil
  then show ?case by (simp add: row_of_Nil)
next
  case (Cons ps games)
  obtain res d1 where 1: "insert_all_player_stats fault fl d ps = (Inr res, d1)"
    "working d1 = committed d1"
    "committed d1 =
             \<lparr>passing_stats = row_of player_id passing_insert_row (passing_update_row fl)
                                (passing_stats (committed d)) (ps_passing ps),
              rushing_stats = row_of player_id rushing_insert_row rushing_update_row
                                (rushing_stats (committed d)) (ps_rushing ps),
              receiving_stats = row_of player_id receiving_insert_row receiving_update_row
                                (receiving_stats (committed d)) (ps_receiving ps),
              fumbles_stats = row_of player_id fumbles_insert_row fumbles_update_row
                                (fumbles_stats (committed d)) (ps_fumbles ps),
              defensive_stats = row_of player_id defensive_insert_row defensive_update_row
                                (defensive_stats (committed d)) (ps_defensive ps),
              interceptions_stats = row_of player_id interceptions_insert_row interceptions_update_row
                                (interceptions_stats (committed d)) (ps_interceptions ps)\<rparr>"
    using insert_all_nofault [OF nf Cons.prems] by blast
  from Cons.IH [OF 1(2)] show ?case
    by (simp add: 1(1) 1(3) row_of_append)
qed

lemma fresh_games:
  assumes nf: "\<forall>n. \<not> fault n"
  shows "committed (foldl (\<lambda>d ps. snd (insert_all_player_stats fault fl d ps))
                     (snd (wipe_all_stats_tables fault d)) games) =
             \<lparr>passing_stats = row_of player_id passing_insert_row (passing_update_row fl)
                                Map.empty (concat (map ps_passing games)),
              rushing_stats = row_of player_id rushing_insert_row rushing_update_row
                                Map.empty (concat (map ps_rushing games)),
              receiving_stats = row_of player_id receiving_insert_row receiving_update_row
                                Map.empty (concat (map ps_receiving games)),
              fumbles_stats = row_of player_id fumbles_insert_row fumbles_update_row
                                Map.empty (concat (map ps_fumbles games)),
              defensive_stats = row_of player_id defensive_insert_row defensive_update_row
                                Map.empty (concat (map ps_defensive games)),
              interceptions_stats = row_of player_id interceptions_insert_row interceptions_update_row
                                Map.empty (concat (map ps_interceptions games))\<rparr>"
proof -
  obtain d0 where 0: "wipe_all_stats_tables fault d = (Inr (), d0)" "working d0 = committed d0"
    "committed d0 = \<lparr>passing_stats = Map.empty, rushing_stats = Map.empty,
                           receiving_stats = Map.empty, fumbles_stats = Map.empty,
                           defensive_stats = Map.empty, interceptions_stats = Map.empty\<rparr>"
    using wipe_nofault [OF nf] by blast
  show ?thesis using games_nofault [OF nf 0(2), of fl games] by (simp add: 0(1) 0(3))
qed

lemma row_of_empty:
  "row_of pid ins upd Map.empty ss p = merge_rows ins upd None (filter (\<lambda>s. pid s = Some p) ss)"
  by (simp add: row_of_def)

lemma passing_sums:
  assumes "rs \<noteq> []"
  shows "\<exists>row. merge_rows passing_insert_row (passing_update_row fl) None rs = Some row \<and>
      passing_yards row = Some (sum_list (map (\<lambda>r. int_or_zero (passing_yards r)) rs)) \<and>
      passing_touchdowns row = Some (sum_list (map (\<lambda>r. int_or_zero (passing_touchdowns r)) rs)) \<and>
      interceptions row = Some (sum_list (map (\<lambda>r. int_or_zero (interceptions r)) rs)) \<and>
      sacks row = Some (sum_list (map (\<lambda>r. int_or_zero (sacks r)) rs))"
proof -
  obtain row where r: "merge_rows passing_insert_row (passing_update_row fl) None rs = Some row"
    using merge_rows_Some [OF assms] by blast
  have "passing_yards row = Some (sum_list (map (\<lambda>r. int_or_zero (passing_yards r)) rs))"
    using merge_rows_sum [where g = passing_yards, OF _ _ assms r]
    by (simp add: passing_insert_row_def passing_update_row_def)
  moreover have "passing_touchdowns row = Some (sum_list (map (\<lambda>r. int_or_zero (passing_touchdowns r)) rs))"
    using merge_rows_sum [where g = passing_touchdowns, OF _ _ assms r]
    by (simp add: passing_insert_row_def passing_update_row_def)
  moreover have "interceptions row = Some (sum_list (map (\<lambda>r. int_or_zero (interceptions r)) rs))"
    using merge_rows_sum [where g = interceptions, OF _ _ assms r]
    by (simp add: passing_insert_row_def passing_update_row_def)
  moreover have "sacks row = Some (sum_list (map (\<lambda>r. int_or_zero (sacks r)) rs))"
    using merge_rows_sum [where g = sacks, OF _ _ assms r]
    by (simp add: passing_insert_row_def passing_update_row_def)
  ultimately show ?thesis using r by blast
qed

lemma rushing_sums:
  assumes "rs \<noteq> []"
  shows "\<exists>row. merge_rows rushing_insert_row rushing_update_row None rs = Some row \<and>
      rushing_attempts row = Some (sum_list (map (\<lambda>r. int_or_zero (rushing_attempts r)) rs)) \<and>
      rushing_yards row = Some (sum_list (map (\<lambda>r. int_or_zero (rushing_yards r)) rs)) \<and>
      rushing_touchdowns row = Some (sum_list (map (\<lambda>r. int_or_zero (rushing_touchdowns r)) rs))"
proof -
  obtain row where r: "merge_rows rushing_insert_row rushing_update_row None rs = Some row"
    using merge_rows_Some [OF assms] by blast
  have f0: "rushing_attempts row = Some (sum_list (map (\<lambda>r. int_or_zero (rushing_attempts r)) rs))"
    using merge_rows_sum [where g = rushing_attempts, OF _ _ assms r]
    by (simp add: rushing_insert_row_def rushing_update_row_def)
  have f1: "rushing_yards row = Some (sum_list (map (\<lambda>r. int_or_zero (rushing_yards r)) rs))"
    using merge_rows_sum [where g = rushing_yards, OF _ _ assms r]
    by (simp add: rushing_insert_row_def rushing_update_row_def)
  have f2: "rushing_touchdowns row = Some (sum_list (map (\<lambda>r. int_or_zero (rushing_touchdowns r)) rs))"
    using merge_rows_sum [where g = rushing_touchdowns, OF _ _ assms r]
    by (simp add: rushing_insert_row_def rushing_update_row_def)
  show ?thesis using r f0 f1 f2 by blast
qed

lemma receiving_sums:
  assumes "rs \<noteq> []"
  shows "\<exists>row. merge_rows receiving_insert_row receiving_update_row None rs = Some row \<and>
      receptions row = Some (sum_list (map (\<lambda>r. int_or_zero (receptions r)) rs)) \<and>
      receiving_yards row = Some (sum_list (map (\<lambda>r. int_or_zero (receiving_yards r)) rs)) \<and>
      receiving_touchdowns row = Some (sum_list (map (\<lambda>r. int_or_zero (receiving_touchdowns r)) rs)) \<and>
      targets row = Some (sum_list (map (\<lambda>r. int_or_zero (targets r)) rs))"
proof -
  obtain row where r: "merge_rows receiving_insert_row receiving_update_row None rs = Some row"
    using merge_rows_Some [OF assms] by blast
  have f0: "receptions row = Some (sum_list (map (\<lambda>r. int_or_zero (receptions r)) rs))"
    using merge_rows_sum [where g = receptions, OF _ _ assms r]
    by (simp add: receiving_insert_row_def receiving_update_row_def)
  have f1: "receiving_yards row = Some (sum_list (map (\<lambda>r. int_or_zero (receiving_yards r)) rs))"
    using merge_rows_sum [where g = receiving_yards, OF _ _ assms r]
    by (simp add: receiving_insert_row_def receiving_update_row_def)
  have f2: "receiving_touchdowns row = Some (sum_list (map (\<lambda>r. int_or_zero (receiving_touchdowns r)) rs))"
    using merge_rows_sum [where g = receiving_touchdowns, OF _ _ assms r]
    by (simp add: receiving_insert_row_def receiving_update_row_def)
  have f3: "targets row = Some (sum_list (map (\<lambda>r. int_or_zero (targets r)) rs))"
    using merge_rows_sum [where g = targets, OF _ _ assms r]
    by (simp add: receiving_insert_row_def receiving_update_row_def)
  show ?thesis using r f0 f1 f2 f3 by blast
qed

lemma fumbles_sums:
  assumes "rs \<noteq> []"
  shows "\<exists>row. merge_rows fumbles_insert_row fumbles_update_row None rs = Some row \<and>
      fumbles row = Some (sum_list (map (\<lambda>r. int_or_zero (fumbles r)) rs)) \<and>
      fumbles_lost row = Some (sum_list (map (\<lambda>r. int_or_zero (fumbles_lost r)) rs)) \<and>
      fumbles_recovered row = Some (sum_list (map (\<lambda>r. int_or_zero (fumbles_recovered r)) rs))"
proof -
  obtain row where r: "merge_rows fumbles_insert_row fumbles_update_row None rs = Some row"
    using merge_rows_Some [OF assms] by blast
  have f0: "fumbles row = Some (sum_list (map (\<lambda>r. int_or_zero (fumbles r)) rs))"
    using merge_rows_sum [where g = fumbles, OF _ _ assms r]
    by (simp add: fumbles_insert_row_def fumbles_update_row_def)
  have f1: "fumbles_lost row = Some (sum_list (map (\<lambda>r. int_or_zero (fumbles_lost r)) rs))"
    using merge_rows_sum [where g = fumbles_lost, OF _ _ assms r]
    by (simp add: fumbles_insert_row_def fumbles_update_row_def)
  have f2: "fumbles_recovered row = Some (sum_list (map (\<lambda>r. int_or_zero (fumbles_recovered r)) rs))"
    using merge_rows_sum [where g = fumbles_recovered, OF _ _ assms r]
    by (simp add: fumbles_insert_row_def fumbles_update_row_def)
  show ?thesis using r f0 f1 f2 by blast
qed

lemma defensive_sums:
  assumes "rs \<noteq> []"
  shows "\<exists>row. merge_rows defensive_insert_row defensive_update_row None rs = Some row \<and>
      total_tackles row = Some (sum_list (map (\<lambda>r. int_or_zero (total_tackles r)) rs)) \<and>
      solo_tackles row = Some (sum_list (map (\<lambda>r. int_or_zero (solo_tackles r)) rs)) \<and>
      sacks_d row = Some (sum_list (map (\<lambda>r. int_or_zero (sacks_d r)) rs)) \<and>
      tackles_for_loss row = Some (sum_list (map (\<lambda>r. int_or_zero (tackles_for_loss r)) rs)) \<and>
      passes_defended row = Some (sum_list (map (\<lambda>r. int_or_zero (passes_defended r)) rs)) \<and>
      qb_hits row = Some (sum_list (map (\<lambda>r. int_or_zero (qb_hits r)) rs)) \<and>
      defensive_touchdowns row = Some (sum_list (map (\<lambda>r. int_or_zero (defensive_touchdowns r)) rs))"
proof -
  obtain row where r: "merge_rows defensive_insert_row defensive_update_row None rs = Some row"
    using merge_rows_Some [OF assms] by blast
  have f0: "total_tackles row = Some (sum_list (map (\<lambda>r. int_or_zero (total_tackles r)) rs))"
    using merge_rows_sum [where g = total_tackles, OF _ _ assms r]
    by (simp add: defensive_insert_row_def defensive_update_row_def)
  have f1: "solo_tackles row = Some (sum_list (map (\<lambda>r. int_or_zero (solo_tackles r)) rs))"
    using merge_rows_sum [where g = solo_tackles, OF _ _ assms r]
    by (simp add: defensive_insert_row_def defensive_update_row_def)
  have f2: "sacks_d row = Some (sum_list (map (\<lambda>r. int_or_zero (sacks_d r)) rs))"
    using merge_rows_sum [where g = sacks_d, OF _ _ assms r]
    by (simp add: defensive_insert_row_def defensive_update_row_def)
  have f3: "tackles_for_loss row = Some (sum_list (map (\<lambda>r. int_or_zero (tackles_for_loss r)) rs))"
    using merge_rows_sum [where g = tackles_for_loss, OF _ _ assms r]
    by (simp add: defensive_insert_row_def defensive_update_row_def)
  have f4: "passes_defended row = Some (sum_list (map (\<lambda>r. int_or_zero (passes_defended r)) rs))"
    using merge_rows_sum [where g = passes_defended, OF _ _ assms r]
    by (simp add: defensive_insert_row_def defensive_update_row_def)
  have f5: "qb_hits row = Some (sum_list (map (\<lambda>r. int_or_zero (qb_hits r)) rs))"
    using merge_rows_sum [where g = qb_hits, OF _ _ assms r]
    by (simp add: defensive_insert_row_def defensive_update_row_def)
  have f6: "defensive_touchdowns row = Some (sum_list (map (\<lambda>r. int_or_zero (defensive_touchdowns r)) rs))"
    using merge_rows_sum [where g = defensive_touchdowns, OF _ _ assms r]
    by (simp add: defensive_insert_row_def defensive_update_row_def)
  show ?thesis using r f0 f1 f2 f3 f4 f5 f6 by blast
qed

lemma interceptions_sums:
  assumes "rs \<noteq> []"
  shows "\<exists>row. merge_rows interceptions_insert_row interceptions_update_row None rs = Some row \<and>
      interceptions_i row = Some (sum_list (map (\<lambda>r. int_or_zero (interceptions_i r)) rs)) \<and>
      interception_yards row = Some (sum_list (map (\<lambda>r. int_or_zero (interception_yards r)) rs)) \<and>
      interception_touchdowns row = Some (sum_list (map (\<lambda>r. int_or_zero (interception_touchdowns r)) rs))"
proof -
  obtain row where r: "merge_rows interceptions_insert_row interceptions_update_row None rs = Some row"
    using merge_rows_Some [OF assms] by blast
  have f0: "interceptions_i row = Some (sum_list (map (\<lambda>r. int_or_zero (interceptions_i r)) rs))"
    using merge_rows_sum [where g = interceptions_i, OF _ _ assms r]
    by (simp add: interceptions_insert_row_def interceptions_update_row_def)
  have f1: "interception_yards row = Some (sum_list (map (\<lambda>r. int_or_zero (interception_yards r)) rs))"
    using merge_rows_sum [where g = interception_yards, OF _ _ assms r]
    by (simp add: interceptions_insert_row_def interceptions_update_row_def)
  have f2: "interception_touchdowns row = Some (sum_list (map (\<lambda>r. int_or_zero (interception_touchdowns r)) rs))"
    using merge_rows_sum [where g = interception_touchdowns, OF _ _ assms r]
    by (simp add: interceptions_insert_row_def interceptions_update_row_def)
  show ?thesis using r f0 f1 f2 by blast
qed

section \<open>Counting fields\<close>

text \<open>
  Claim C1. After a reset and any sequence of games in which no storage statement
  fails, for each of the six categories and each player id that occurs in at least one
  record of the category, the stored row of that player exists and each of its counting
  fields is the sum of that field over all the player's records of the category, in all
  games, a null field counting as 0.
\<close>

theorem counting_fields_additive:
  fixes fault :: "nat \<Rightarrow> bool" and fl :: "string \<Rightarrow> int option" and d :: db
    and games :: "player_stats list" and p :: int
  defines "final \<equiv> committed (foldl (\<lambda>d ps. snd (insert_all_player_stats fault fl d ps))
                     (snd (wipe_all_stats_tables fault d)) games)"
    and "rs_passing \<equiv> filter (\<lambda>r. player_id r = Some p) (concat (map ps_passing games))"
    and "rs_rushing \<equiv> filter (\<lambda>r. player_id r = Some p) (concat (map ps_rushing games))"
    and "rs_receiving \<equiv> filter (\<lambda>r. player_id r = Some p) (concat (map ps_receiving games))"
    and "rs_fumbles \<equiv> filter (\<lambda>r. player_id r = Some p) (concat (map ps_fumbles games))"
    and "rs_defensive \<equiv> filter (\<lambda>r. player_id r = Some p) (concat (map ps_defensive games))"
    and "rs_interceptions \<equiv> filter (\<lambda>r. player_id r = Some p) (concat (map ps_interceptions games))"
  assumes nf: "\<forall>n. \<not> fault n"
  shows "(rs_passing \<noteq> [] \<longrightarrow>
          (\<exists>row. passing_stats final p = Some row \<and>
            passing_yards row = Some (sum_list (map (\<lambda>r. int_or_zero (passing_yards r)) rs_passing)) \<and>
            passing_touchdowns row = Some (sum_list (map (\<lambda>r. int_or_zero (passing_touchdowns r)) rs_passing)) \<and>
            interceptions row = Some (sum_list (map (\<lambda>r. int_or_zero (interceptions r)) rs_passing)) \<and>
            sacks row = Some (sum_list (map (\<lambda>r. int_or_zero (sacks r)) rs_passing))))
       \<and> (rs_rushing \<noteq> [] \<longrightarrow>
          (\<exists>row. rushing_stats final p = Some row \<and>
            rushing_attempts row = Some (sum_list (map (\<lambda>r. int_or_zero (rushing_attempts r)) rs_rushing)) \<and>
            rushing_yards row = Some (sum_list (map (\<lambda>r. int_or_zero (rushing_yards r)) rs_rushing)) \<and>
            rushing_touchdowns row = Some (sum_list (map (\<lambda>r. int_or_zero (rushing_touchdowns r)) rs_rushing))))
       \<and> (rs_receiving \<noteq> [] \<longrightarrow>
          (\<exists>row. receiving_stats final p = Some row \<and>
            receptions row = Some (sum_list (map (\<lambda>r. int_or_zero (receptions r)) rs_receiving)) \<and>
            receiving_yards row = Some (sum_list (map (\<lambda>r. int_or_zero (receiving_yards r)) rs_receiving)) \<and>
            receiving_touchdowns row = Some (sum_list (map (\<lambda>r. int_or_zero (receiving_touchdowns r)) rs_receiving)) \<and>
            targets row = Some (sum_list (map (\<lambda>r. int_or_zero (targets r)) rs_receiving))))
       \<and> (rs_fumbles \<noteq> [] \<longrightarrow>
          (\<exists>row. fumbles_stats final p = Some row \<and>
            fumbles row = Some (sum_list (map (\<lambda>r. int_or_zero (fumbles r)) rs_fumbles)) \<and>
            fumbles_lost row = Some (sum_list (map (\<lambda>r. int_or_zero (fumbles_lost r)) rs_fumbles)) \<and>
            fumbles_recovered row = Some (sum_list (map (\<lambda>r. int_or_zero (fumbles_recovered r)) rs_fumbles))))
       \<and> (rs_defensive \<noteq> [] \<longrightarrow>
          (\<exists>row. defensive_stats final p = Some row \<and>
            total_tackles row = Some (sum_list (map (\<lambda>r. int_or_zero (total_tackles r)) rs_defensive)) \<and>
            solo_tackles row = Some (sum_list (map (\<lambda>r. int_or_zero (solo_tackles r)) rs_defensive)) \<and>
            sacks_d row = Some (sum_list (map (\<lambda>r. int_or_zero (sacks_d r)) rs_defensive)) \<and>
            tackles_for_loss row = Some (sum_list (map (\<lambda>r. int_or_zero (tackles_for_loss r)) rs_defensive)) \<and>
            passes_defended row = Some (sum_list (map (\<lambda>r. int_or_zero (passes_defended r)) rs_defensive)) \<and>
            qb_hits row = Some (sum_list (map (\<lambda>r. int_or_zero (qb_hits r)) rs_defensive)) \<and>
            defensive_touchdowns row = Some (sum_list (map (\<lambda>r. int_or_zero (defensive_touchdowns r)) rs_defensive))))
       \<and> (rs_interceptions \<noteq> [] \<longrightarrow>
          (\<exists>row. interceptions_stats final p = Some row \<and>
            interceptions_i row = Some (sum_list (map (\<lambda>r. int_or_zero (interceptions_i r)) rs_interceptions)) \<and>
            interception_yards row = Some (sum_list (map (\<lambda>r. int_or_zero (interception_yards r)) rs_interceptions)) \<and>
            interception_touchdowns row = Some (sum_list (map (\<lambda>r. int_or_zero (interception_touchdowns r)) rs_interceptions))))"
proof -
  note fin = final_def fresh_games [OF nf, of fl d games]
  have c_passing: "passing_stats final p = merge_rows passing_insert_row (passing_update_row fl) None rs_passing"
    by (simp add: fin rs_passing_def row_of_empty)
  have c_rushing: "rushing_stats final p = merge_rows rushing_insert_row rushing_update_row None rs_rushing"
    by (simp add: fin rs_rushing_def row_of_empty)
  have c_receiving: "receiving_stats final p = merge_rows receiving_insert_row receiving_update_row None rs_receiving"
    by (simp add: fin rs_receiving_def row_of_empty)
  have c_fumbles: "fumbles_stats final p = merge_rows fumbles_insert_row fumbles_update_row None rs_fumbles"
    by (simp add: fin rs_fumbles_def row_of_empty)
  have c_defensive: "defensive_stats final p = merge_rows defensive_insert_row defensive_update_row None rs_defensive"
    by (simp add: fin rs_defensive_def row_of_empty)
  have c_interceptions: "interceptions_stats final p = merge_rows interceptions_insert_row interceptions_update_row None rs_interceptions"
    by (simp add: fin rs_interceptions_def row_of_empty)
  show ?thesis
    using passing_sums [of rs_passing fl] rushing_sums [of rs_rushing] receiving_sums [of rs_receiving] fumbles_sums [of rs_fumbles] defensive_sums [of rs_defensive] interceptions_sums [of rs_interceptions]
    unfolding c_passing c_rushing c_receiving c_fumbles c_defensive c_interceptions by blast
qed

theorem counting_fields_additive_witness:
  "(\<forall>n. \<not> no_fault n)
   \<and> (\<exists>row. passing_stats (committed (foldl (\<lambda>d ps. snd (insert_all_player_stats no_fault no_float d ps))
                     (snd (wipe_all_stats_tables no_fault ex_db)) [game_a, game_b])) 7 = Some row
         \<and> passing_yards row = Some 250 \<and> passing_touchdowns row = Some 2
         \<and> interceptions row = Some 1 \<and> sacks row = Some 1)
   \<and> (\<exists>row. rushing_stats (committed (foldl (\<lambda>d ps. snd (insert_all_player_stats no_fault no_float d ps))
                     (snd (wipe_all_stats_tables no_fault ex_db)) [game_a, game_b])) 7 = Some row
         \<and> rushing_attempts row = Some 4 \<and> rushing_yards row = Some (- 4)
         \<and> rushing_touchdowns row = Some 0)
   \<and> (\<exists>row. receiving_stats (committed (foldl (\<lambda>d ps. snd (insert_all_player_stats no_fault no_float d ps))
                     (snd (wipe_all_stats_tables no_fault ex_db)) [game_a, game_b])) 7 = Some row
         \<and> receptions row = Some 3 \<and> receiving_yards row = Some 51
         \<and> receiving_touchdowns row = Some 1 \<and> targets row = Some 2)
   \<and> (\<exists>row. fumbles_stats (committed (foldl (\<lambda>d ps. snd (insert_all_player_stats no_fault no_float d ps))
                     (snd (wipe_all_stats_tables no_fault ex_db)) [game_a, game_b])) 7 = Some row
         \<and> fumbles row = Some 3 \<and> fumbles_lost row = Some 1 \<and> fumbles_recovered row = Some 1)
   \<and> (\<exists>row. defensive_stats (committed (foldl (\<lambda>d ps. snd (insert_all_player_stats no_fault no_float d ps))
                     (snd (wipe_all_stats_tables no_fault ex_db)) [game_a, game_b])) 7 = Some row
         \<and> total_tackles row = Some 9 \<and> solo_tackles row = Some 7 \<and> sacks_d row = Some 1
         \<and> tackles_for_loss row = Some 3 \<and> passes_defended row = Some 1 \<and> qb_hits row = Some 3
         \<and> defensive_touchdowns row = Some 1)
   \<and> (\<exists>row. interceptions_stats (committed (foldl (\<lambda>d ps. snd (insert_all_player_stats no_fault no_float d ps))
                     (snd (wipe_all_stats_tables no_fault ex_db)) [game_a, game_b])) 7 = Some row
         \<and> interceptions_i row = Some 3 \<and> interception_yards row = Some 25
         \<and> interception_touchdowns row = Some 1)"
proof -
  have nf: "\<forall>n. \<not> no_fault n" by (simp add: no_fault_def)
  have f1: "filter (\<lambda>r. player_id r = Some 7) (concat (map ps_passing [game_a, game_b])) = [pass_a, pass_b]"
    by (simp add: game_a_def game_b_def pass_a_def pass_b_def)
  have f2: "filter (\<lambda>r. player_id r = Some 7) (concat (map ps_rushing [game_a, game_b])) = [rush_a, rush_b]"
    by (simp add: game_a_def game_b_def rush_a_def rush_b_def)
  have f3: "filter (\<lambda>r. player_id r = Some 7) (concat (map ps_receiving [game_a, game_b])) = [recv_a, recv_b]"
    by (simp add: game_a_def game_b_def recv_a_def recv_b_def)
  have f4: "filter (\<lambda>r. player_id r = Some 7) (concat (map ps_fumbles [game_a, game_b])) = [fum_a, fum_b]"
    by (simp add: game_a_def game_b_def fum_a_def fum_b_def)
  have f5: "filter (\<lambda>r. player_id r = Some 7) (concat (map ps_defensive [game_a, game_b])) = [def_a, def_b]"
    by (simp add: game_a_def game_b_def def_a_def def_b_def)
  have f6: "filter (\<lambda>r. player_id r = Some 7) (concat (map ps_interceptions [game_a, game_b])) = [int_a, int_b]"
    by (simp add: game_a_def game_b_def int_a_def int_b_def)
  note T = counting_fields_additive [OF nf, where fl = no_float and d = ex_db
      and games = "[game_a, game_b]" and p = 7, unfolded f1 f2 f3 f4 f5 f6]
  show ?thesis
    apply (rule conjI [OF nf])
    using T
    by (simp add: pass_a_def pass_b_def rush_a_def rush_b_def recv_a_def recv_b_def
          fum_a_def fum_b_def def_a_def def_b_def int_a_def int_b_def int_or_zero_def)
qed

section \<open>Longest run and longest reception\<close>

lemma merge_rows_max_Some:
  assumes u: "\<And>row s. g (upd row s) = Some (max (or_zero (g row)) (or_zero (g s)))"
  shows "ss \<noteq> [] \<Longrightarrow> merge_rows ins upd (Some r0) ss = Some row \<Longrightarrow>
         g row = Some (Max (insert (or_zero (g r0)) (set (map (\<lambda>s. or_zero (g s)) ss))))"
proof (induction ss arbitrary: r0)
  case Nil
  then show ?case by simp
next
  case (Cons s ss)
  show ?case
  proof (cases "ss = []")
    case True
    with Cons.prems show ?thesis by (auto simp: u max.commute)
  next
    case False
    from Cons.IH [OF False, of "upd r0 s"] Cons.prems
    have "g row = Some (Max (insert (or_zero (g (upd r0 s))) (set (map (\<lambda>s. or_zero (g s)) ss))))"
      by simp
    moreover have "or_zero (g (upd r0 s)) = max (or_zero (g r0)) (or_zero (g s))"
      by (simp add: u or_zero_eq)
    moreover have "Max (insert (max (or_zero (g r0)) (or_zero (g s))) (set (map (\<lambda>s. or_zero (g s)) ss)))
        = Max (insert (or_zero (g r0)) (set (map (\<lambda>s. or_zero (g s)) (s # ss))))"
      using False by (simp add: max.assoc)
    ultimately show ?thesis by simp
  qed
qed

lemma merge_rows_max:
  assumes i: "\<And>s. g (ins s) = g s"
    and u: "\<And>row s. g (upd row s) = Some (max (or_zero (g row)) (or_zero (g s)))"
    and ne: "ss \<noteq> []" and r: "merge_rows ins upd None ss = Some row"
  shows "g row = (if length ss = 1 then g (hd ss)
                  else Some (Max (set (map (\<lambda>s. or_zero (g s)) ss))))"
proof (cases ss)
  case Nil
  with ne show ?thesis by simp
next
  case (Cons s rest)
  show ?thesis
  proof (cases "rest = []")
    case True
    with Cons r show ?thesis by (auto simp: i)
  next
    case False
    from r Cons have "merge_rows ins upd (Some (ins s)) rest = Some row" by simp
    from merge_rows_max_Some [of g upd, OF u False this] Cons False
    show ?thesis by (simp add: i)
  qed
qed

lemma no_fault_all: "\<forall>n. \<not> no_fault n"
  by (simp add: no_fault_def)

lemma two_games_tables:
  "committed (snd (insert_all_player_stats no_fault no_float
        (snd (insert_all_player_stats no_fault no_float
           (snd (wipe_all_stats_tables no_fault ex_db)) game_a)) game_b)) =
     \<lparr>passing_stats = row_of player_id passing_insert_row (passing_update_row no_float)
                        Map.empty [pass_a, pass_b],
      rushing_stats = row_of player_id rushing_insert_row rushing_update_row
                        Map.empty [rush_a, rush_b],
      receiving_stats = row_of player_id receiving_insert_row receiving_update_row
                        Map.empty [recv_a, recv_b],
      fumbles_stats = row_of player_id fumbles_insert_row fumbles_update_row
                        Map.empty [fum_a, fum_b],
      defensive_stats = row_of player_id defensive_insert_row defensive_update_row
                        Map.empty [def_a, def_b],
      interceptions_stats = row_of player_id interceptions_insert_row interceptions_update_row
                        Map.empty [int_a, int_b]\<rparr>"
  using fresh_games [OF no_fault_all, of no_float ex_db "[game_a, game_b]"]
  by (simp add: game_a_def game_b_def)

text \<open>
  Claim C3, as amended. After a reset and any sequence of games in which no storage
  statement fails, for a player with at least one rushing (receiving) record the stored
  \<open>longest_run\<close> (\<open>longest_reception\<close>) is the record's own value, null included, when the
  player has exactly one record, and otherwise the maximum of the field over the
  player's records with a null value counted as 0.
\<close>

theorem longest_fields_null_as_zero:
  fixes fault :: "nat \<Rightarrow> bool" and fl :: "string \<Rightarrow> int option" and d :: db
    and games :: "player_stats list" and p :: int
  defines "final \<equiv> committed (foldl (\<lambda>d ps. snd (insert_all_player_stats fault fl d ps))
                     (snd (wipe_all_stats_tables fault d)) games)"
    and "rs_rushing \<equiv> filter (\<lambda>r. player_id r = Some p) (concat (map ps_rushing games))"
    and "rs_receiving \<equiv> filter (\<lambda>r. player_id r = Some p) (concat (map ps_receiving games))"
  assumes nf: "\<forall>n. \<not> fault n"
  shows "(rs_rushing \<noteq> [] \<longrightarrow>
          (\<exists>row. rushing_stats final p = Some row \<and>
            longest_run row =
              (if length rs_rushing = 1 then longest_run (hd rs_rushing)
               else Some (Max (set (map (\<lambda>r. or_zero (longest_run r)) rs_rushing))))))
       \<and> (rs_receiving \<noteq> [] \<longrightarrow>
          (\<exists>row. receiving_stats final p = Some row \<and>
            longest_reception row =
              (if length rs_receiving = 1 then longest_reception (hd rs_receiving)
               else Some (Max (set (map (\<lambda>r. or_zero (longest_reception r)) rs_receiving))))))"
proof -
  note fin = final_def fresh_games [OF nf, of fl d games]
  have c_rushing: "rushing_stats final p = merge_rows rushing_insert_row rushing_update_row None rs_rushing"
    by (simp add: fin rs_rushing_def row_of_empty)
  have c_receiving: "receiving_stats final p = merge_rows receiving_insert_row receiving_update_row None rs_receiving"
    by (simp add: fin rs_receiving_def row_of_empty)
  have a: "rs_rushing \<noteq> [] \<longrightarrow>
          (\<exists>row. rushing_stats final p = Some row \<and>
            longest_run row =
              (if length rs_rushing = 1 then longest_run (hd rs_rushing)
               else Some (Max (set (map (\<lambda>r. or_zero (longest_run r)) rs_rushing)))))"
  proof
    assume ne: "rs_rushing \<noteq> []"
    then obtain row where r: "merge_rows rushing_insert_row rushing_update_row None rs_rushing = Some row"
      using merge_rows_Some by blast
    have "longest_run row =
              (if length rs_rushing = 1 then longest_run (hd rs_rushing)
               else Some (Max (set (map (\<lambda>r. or_zero (longest_run r)) rs_rushing))))"
      using merge_rows_max [where g = longest_run, OF _ _ ne r]
      by (simp add: rushing_insert_row_def rushing_update_row_def)
    with r show "\<exists>row. rushing_stats final p = Some row \<and>
            longest_run row =
              (if length rs_rushing = 1 then longest_run (hd rs_rushing)
               else Some (Max (set (map (\<lambda>r. or_zero (longest_run r)) rs_rushing))))"
      unfolding c_rushing by blast
  qed
  have b: "rs_receiving \<noteq> [] \<longrightarrow>
          (\<exists>row. receiving_stats final p = Some row \<and>
            longest_reception row =
              (if length rs_receiving = 1 then longest_reception (hd rs_receiving)
               else Some (Max (set (map (\<lambda>r. or_zero (longest_reception r)) rs_receiving)))))"
  proof
    assume ne: "rs_receiving \<noteq> []"
    then obtain row where r: "merge_rows receiving_insert_row receiving_update_row None rs_receiving = Some row"
      using merge_rows_Some by blast
    have "longest_reception row =
              (if length rs_receiving = 1 then longest_reception (hd rs_receiving)
               else Some (Max (set (map (\<lambda>r. or_zero (longest_reception r)) rs_receiving))))"
      using merge_rows_max [where g = longest_reception, OF _ _ ne r]
      by (simp add: receiving_insert_row_def receiving_update_row_def)
    with r show "\<exists>row. receiving_stats final p = Some row \<and>
            longest_reception row =
              (if length rs_receiving = 1 then longest_reception (hd rs_receiving)
               else Some (Max (set (map (\<lambda>r. or_zero (longest_reception r)) rs_receiving))))"
      unfolding c_receiving by blast
  qed
  from a b show ?thesis by blast
qed

theorem longest_fields_null_as_zero_witness:
  "(\<forall>n. \<not> no_fault n)
   \<and> (\<exists>row. rushing_stats (committed (foldl (\<lambda>d ps. snd (insert_all_player_stats no_fault no_float d ps))
                     (snd (wipe_all_stats_tables no_fault ex_db)) [game_a, game_b])) 7 = Some row
         \<and> longest_run row = Some 0)
   \<and> (\<exists>row. receiving_stats (committed (foldl (\<lambda>d ps. snd (insert_all_player_stats no_fault no_float d ps))
                     (snd (wipe_all_stats_tables no_fault ex_db)) [game_a, game_b])) 7 = Some row
         \<and> longest_reception row = Some 30)
   \<and> (\<exists>row. rushing_stats (committed (foldl (\<lambda>d ps. snd (insert_all_player_stats no_fault no_float d ps))
                     (snd (wipe_all_stats_tables no_fault ex_db)) [game_a])) 7 = Some row
         \<and> longest_run row = None)"
proof -
  have nf: "\<forall>n. \<not> no_fault n" by (simp add: no_fault_def)
  have f2: "filter (\<lambda>r. player_id r = Some 7) (concat (map ps_rushing [game_a, game_b])) = [rush_a, rush_b]"
    by (simp add: game_a_def game_b_def rush_a_def rush_b_def)
  have f3: "filter (\<lambda>r. player_id r = Some 7) (concat (map ps_receiving [game_a, game_b])) = [recv_a, recv_b]"
    by (simp add: game_a_def game_b_def recv_a_def recv_b_def)
  have g2: "filter (\<lambda>r. player_id r = Some 7) (concat (map ps_rushing [game_a])) = [rush_a]"
    by (simp add: game_a_def rush_a_def)
  note T = longest_fields_null_as_zero [OF nf, where fl = no_float and d = ex_db
      and games = "[game_a, game_b]" and p = 7, unfolded f2 f3]
  note U = longest_fields_null_as_zero [OF nf, where fl = no_float and d = ex_db
      and games = "[game_a]" and p = 7, unfolded g2]
  show ?thesis
    apply (rule conjI [OF nf])
    using T U
    by (simp add: rush_a_def rush_b_def recv_a_def recv_b_def or_zero_eq)
qed

text \<open>
  Claim C3 as stated fails: player 7 has two rushing records whose \<open>longest_run\<close> is null,
  and the stored field is 0 rather than null.
\<close>

theorem longest_null_counterexample:
  "longest_run rush_a = None \<and> longest_run rush_b = None
   \<and> map_option longest_run
       (rushing_stats (committed (snd (insert_all_player_stats no_fault no_float
        (snd (insert_all_player_stats no_fault no_float
           (snd (wipe_all_stats_tables no_fault ex_db)) game_a)) game_b))) 7) = Some (Some 0)"
  by (simp add: two_games_tables row_of_def rush_a_def rush_b_def rushing_insert_row_def
        rushing_update_row_def or_zero_eq)

section \<open>Identity and display fields\<close>

lemma passing_identity:
  assumes "rs \<noteq> []"
  shows "\<exists>row. merge_rows passing_insert_row (passing_update_row fl) None rs = Some row \<and>
      team_id row = team_id (last rs) \<and>
      team_name row = team_name (last rs) \<and>
      player_name row = player_name (last rs) \<and>
      player_headshot_url row = player_headshot_url (last rs)"
proof -
  obtain row where r: "merge_rows passing_insert_row (passing_update_row fl) None rs = Some row"
    using merge_rows_Some [OF assms] by blast
  have f0: "team_id row = team_id (last rs)"
    using merge_rows_last [where g = team_id, OF _ _ assms r]
    by (simp add: passing_insert_row_def passing_update_row_def)
  have f1: "team_name row = team_name (last rs)"
    using merge_rows_last [where g = team_name, OF _ _ assms r]
    by (simp add: passing_insert_row_def passing_update_row_def)
  have f2: "player_name row = player_name (last rs)"
    using merge_rows_last [where g = player_name, OF _ _ assms r]
    by (simp add: passing_insert_row_def passing_update_row_def)
  have f3: "player_headshot_url row = player_headshot_url (last rs)"
    using merge_rows_last [where g = player_headshot_url, OF _ _ assms r]
    by (simp add: passing_insert_row_def passing_update_row_def)
  show ?thesis using r f0 f1 f2 f3 by blast
qed

lemma rushing_identity:
  assumes "rs \<noteq> []"
  shows "\<exists>row. merge_rows rushing_insert_row rushing_update_row None rs = Some row \<and>
      team_id row = team_id (last rs) \<and>
      team_name row = team_name (last rs) \<and>
      player_name row = player_name (last rs) \<and>
      player_headshot_url row = player_headshot_url (last rs)"
proof -
  obtain row where r: "merge_rows rushing_insert_row rushing_update_row None rs = Some row"
    using merge_rows_Some [OF assms] by blast
  have f0: "team_id row = team_id (last rs)"
    using merge_rows_last [where g = team_id, OF _ _ assms r]
    by (simp add: rushing_insert_row_def rushing_update_row_def)
  have f1: "team_name row = team_name (last rs)"
    using merge_rows_last [where g = team_name, OF _ _ assms r]
    by (simp add: rushing_insert_row_def rushing_update_row_def)
  have f2: "player_name row = player_name (last rs)"
    using merge_rows_last [where g = player_name, OF _ _ assms r]
    by (simp add: rushing_insert_row_def rushing_update_row_def)
  have f3: "player_headshot_url row = player_headshot_url (last rs)"
    using merge_rows_last [where g = player_headshot_url, OF _ _ assms r]
    by (simp add: rushing_insert_row_def rushing_update_row_def)
  show ?thesis using r f0 f1 f2 f3 by blast
qed

lemma receiving_identity:
  assumes "rs \<noteq> []"
  shows "\<exists>row. merge_rows receiving_insert_row receiving_update_row None rs = Some row \<and>
      team_id row = team_id (last rs) \<and>
      team_name row = team_name (last rs) \<and>
      player_name row = player_name (last rs) \<and>
      player_headshot_url row = player_headshot_url (last rs)"
proof -
  obtain row where r: "merge_rows receiving_insert_row receiving_update_row None rs = Some row"
    using merge_rows_Some [OF assms] by blast
  have f0: "team_id row = team_id (last rs)"
    using merge_rows_last [where g = team_id, OF _ _ assms r]
    by (simp add: receiving_insert_row_def receiving_update_row_def)
  have f1: "team_name row = team_name (last rs)"
    using merge_rows_last [where g = team_name, OF _ _ assms r]
    by (simp add: receiving_insert_row_def receiving_update_row_def)
  have f2: "player_name row = player_name (last rs)"
    using merge_rows_last [where g = player_name, OF _ _ assms r]
    by (simp add: receiving_insert_row_def receiving_update_row_def)
  have f3: "player_headshot_url row = player_headshot_url (last rs)"
    using merge_rows_last [where g = player_headshot_url, OF _ _ assms r]
    by (simp add: receiving_insert_row_def receiving_update_row_def)
  show ?thesis using r f0 f1 f2 f3 by blast
qed

lemma fumbles_identity:
  assumes "rs \<noteq> []"
  shows "\<exists>row. merge_rows fumbles_insert_row fumbles_update_row None rs = Some row \<and>
      team_id row = team_id (last rs) \<and>
      team_name row = team_name (last rs) \<and>
      player_name row = player_name (last rs) \<and>
      player_headshot_url row = player_headshot_url (last rs)"
proof -
  obtain row where r: "merge_rows fumbles_insert_row fumbles_update_row None rs = Some row"
    using merge_rows_Some [OF assms] by blast
  have f0: "team_id row = team_id (last rs)"
    using merge_rows_last [where g = team_id, OF _ _ assms r]
    by (simp add: fumbles_insert_row_def fumbles_update_row_def)
  have f1: "team_name row = team_name (last rs)"
    using merge_rows_last [where g = team_name, OF _ _ assms r]
    by (simp add: fumbles_insert_row_def fumbles_update_row_def)
  have f2: "player_name row = player_name (last rs)"
    using merge_rows_last [where g = player_name, OF _ _ assms r]
    by (simp add: fumbles_insert_row_def fumbles_update_row_def)
  have f3: "player_headshot_url row = player_headshot_url (last rs)"
    using merge_rows_last [where g = player_headshot_url, OF _ _ assms r]
    by (simp add: fumbles_insert_row_def fumbles_update_row_def)
  show ?thesis using r f0 f1 f2 f3 by blast
qed

lemma defensive_identity:
  assumes "rs \<noteq> []"
  shows "\<exists>row. merge_rows defensive_insert_row defensive_update_row None rs = Some row \<and>
      team_id row = team_id (last rs) \<and>
      team_name row = team_name (last rs) \<and>
      player_name row = player_name (last rs) \<and>
      player_headshot_url row = player_headshot_url (last rs)"
proof -
  obtain row where r: "merge_rows defensive_insert_row defensive_update_row None rs = Some row"
    using merge_rows_Some [OF assms] by blast
  have f0: "team_id row = team_id (last rs)"
    using merge_rows_last [where g = team_id, OF _ _ assms r]
    by (simp add: defensive_insert_row_def defensive_update_row_def)
  have f1: "team_name row = team_name (last rs)"
    using merge_rows_last [where g = team_name, OF _ _ assms r]
    by (simp add: defensive_insert_row_def defensive_update_row_def)
  have f2: "player_name row = player_name (last rs)"
    using merge_rows_last [where g = player_name, OF _ _ assms r]
    by (simp add: defensive_insert_row_def defensive_update_row_def)
  have f3: "player_headshot_url row = player_headshot_url (last rs)"
    using merge_rows_last [where g = player_headshot_url, OF _ _ assms r]
    by (simp add: defensive_insert_row_def defensive_update_row_def)
  show ?thesis using r f0 f1 f2 f3 by blast
qed

lemma interceptions_identity:
  assumes "rs \<noteq> []"
  shows "\<exists>row. merge_rows interceptions_insert_row interceptions_update_row None rs = Some row \<and>
      team_id row = team_id (last rs) \<and>
      team_name row = team_name (last rs) \<and>
      player_name row = player_name (last rs) \<and>
      player_headshot_url row = player_headshot_url (last rs)"
proof -
  obtain row where r: "merge_rows interceptions_insert_row interceptions_update_row None rs = Some row"
    using merge_rows_Some [OF assms] by blast
  have f0: "team_id row = team_id (last rs)"
    using merge_rows_last [where g = team_id, OF _ _ assms r]
    by (simp add: interceptions_insert_row_def interceptions_update_row_def)
  have f1: "team_name row = team_name (last rs)"
    using merge_rows_last [where g = team_name, OF _ _ assms r]
    by (simp add: interceptions_insert_row_def interceptions_update_row_def)
  have f2: "player_name row = player_name (last rs)"
    using merge_rows_last [where g = player_name, OF _ _ assms r]
    by (simp add: interceptions_insert_row_def interceptions_update_row_def)
  have f3: "player_headshot_url row = player_headshot_url (last rs)"
    using merge_rows_last [where g = player_headshot_url, OF _ _ assms r]
    by (simp add: interceptions_insert_row_def interceptions_update_row_def)
  show ?thesis using r f0 f1 f2 f3 by blast
qed

text \<open>
  Claim C8. After a reset and any sequence of games in which no storage statement
  fails, in each of the six categories the team id, team name, player name and headshot
  URL of a player's stored row are those of the player's most recently processed record
  of the category; for two records they are the second record's values.
\<close>

theorem identity_fields_last_write_wins:
  fixes fault :: "nat \<Rightarrow> bool" and fl :: "string \<Rightarrow> int option" and d :: db
    and games :: "player_stats list" and p :: int
  defines "final \<equiv> committed (foldl (\<lambda>d ps. snd (insert_all_player_stats fault fl d ps))
                     (snd (wipe_all_stats_tables fault d)) games)"
    and "rs_passing \<equiv> filter (\<lambda>r. player_id r = Some p) (concat (map ps_passing games))"
    and "rs_rushing \<equiv> filter (\<lambda>r. player_id r = Some p) (concat (map ps_rushing games))"
    and "rs_receiving \<equiv> filter (\<lambda>r. player_id r = Some p) (concat (map ps_receiving games))"
    and "rs_fumbles \<equiv> filter (\<lambda>r. player_id r = Some p) (concat (map ps_fumbles games))"
    and "rs_defensive \<equiv> filter (\<lambda>r. player_id r = Some p) (concat (map ps_defensive games))"
    and "rs_interceptions \<equiv> filter (\<lambda>r. player_id r = Some p) (concat (map ps_interceptions games))"
  assumes nf: "\<forall>n. \<not> fault n"
  shows "(rs_passing \<noteq> [] \<longrightarrow>
          (\<exists>row. passing_stats final p = Some row \<and>
            team_id row = team_id (last rs_passing) \<and>
            team_name row = team_name (last rs_passing) \<and>
            player_name row = player_name (last rs_passing) \<and>
            player_headshot_url row = player_headshot_url (last rs_passing)))
       \<and> (rs_rushing \<noteq> [] \<longrightarrow>
          (\<exists>row. rushing_stats final p = Some row \<and>
            team_id row = team_id (last rs_rushing) \<and>
            team_name row = team_name (last rs_rushing) \<and>
            player_name row = player_name (last rs_rushing) \<and>
            player_headshot_url row = player_headshot_url (last rs_rushing)))
       \<and> (rs_receiving \<noteq> [] \<longrightarrow>
          (\<exists>row. receiving_stats final p = Some row \<and>
            team_id row = team_id (last rs_receiving) \<and>
            team_name row = team_name (last rs_receiving) \<and>
            player_name row = player_name (last rs_receiving) \<and>
            player_headshot_url row = player_headshot_url (last rs_receiving)))
       \<and> (rs_fumbles \<noteq> [] \<longrightarrow>
          (\<exists>row. fumbles_stats final p = Some row \<and>
            team_id row = team_id (last rs_fumbles) \<and>
            team_name row = team_name (last rs_fumbles) \<and>
            player_name row = player_name (last rs_fumbles) \<and>
            player_headshot_url row = player_headshot_url (last rs_fumbles)))
       \<and> (rs_defensive \<noteq> [] \<longrightarrow>
          (\<exists>row. defensive_stats final p = Some row \<and>
            team_id row = team_id (last rs_defensive) \<and>
            team_name row = team_name (last rs_defensive) \<and>
            player_name row = player_name (last rs_defensive) \<and>
            player_headshot_url row = player_headshot_url (last rs_defensive)))
       \<and> (rs_interceptions \<noteq> [] \<longrightarrow>
          (\<exists>row. interceptions_stats final p = Some row \<and>
            team_id row = team_id (last rs_interceptions) \<and>
            team_name row = team_name (last rs_interceptions) \<and>
            player_name row = player_name (last rs_interceptions) \<and>
            player_headshot_url row = player_headshot_url (last rs_interceptions)))"
proof -
  note fin = final_def fresh_games [OF nf, of fl d games]
  have c_passing: "passing_stats final p = merge_rows passing_insert_row (passing_update_row fl) None rs_passing"
    by (simp add: fin rs_passing_def row_of_empty)
  have c_rushing: "rushing_stats final p = merge_rows rushing_insert_row rushing_update_row None rs_rushing"
    by (simp add: fin rs_rushing_def row_of_empty)
  have c_receiving: "receiving_stats final p = merge_rows receiving_insert_row receiving_update_row None rs_receiving"
    by (simp add: fin rs_receiving_def row_of_empty)
  have c_fumbles: "fumbles_stats final p = merge_rows fumbles_insert_row fumbles_update_row None rs_fumbles"
    by (simp add: fin rs_fumbles_def row_of_empty)
  have c_defensive: "defensive_stats final p = merge_rows defensive_insert_row defensive_update_row None rs_defensive"
    by (simp add: fin rs_defensive_def row_of_empty)
  have c_interceptions: "interceptions_stats final p = merge_rows interceptions_insert_row interceptions_update_row None rs_interceptions"
    by (simp add: fin rs_interceptions_def row_of_empty)
  show ?thesis
    using passing_identity [of rs_passing fl] rushing_identity [of rs_rushing] receiving_identity [of rs_receiving] fumbles_identity [of rs_fumbles] defensive_identity [of rs_defensive] interceptions_identity [of rs_interceptions]
    unfolding c_passing c_rushing c_receiving c_fumbles c_defensive c_interceptions by blast
qed

theorem identity_fields_last_write_wins_witness:
  "(\<forall>n. \<not> no_fault n)
   \<and> (\<exists>row. passing_stats (committed (foldl (\<lambda>d ps. snd (insert_all_player_stats no_fault no_float d ps))
                     (snd (wipe_all_stats_tables no_fault ex_db)) [game_a, game_b])) 7 = Some row
         \<and> team_id row = Some 2 \<and> team_name row = Some ''Bills''
         \<and> player_name row = Some ''Al Passer'' \<and> player_headshot_url row = None)
   \<and> (\<exists>row. rushing_stats (committed (foldl (\<lambda>d ps. snd (insert_all_player_stats no_fault no_float d ps))
                     (snd (wipe_all_stats_tables no_fault ex_db)) [game_a, game_b])) 7 = Some row
         \<and> team_id row = Some 2 \<and> team_name row = Some ''Bills''
         \<and> player_name row = Some ''Al Passer'' \<and> player_headshot_url row = None)
   \<and> (\<exists>row. receiving_stats (committed (foldl (\<lambda>d ps. snd (insert_all_player_stats no_fault no_float d ps))
                     (snd (wipe_all_stats_tables no_fault ex_db)) [game_a, game_b])) 7 = Some row
         \<and> team_id row = Some 2 \<and> team_name row = Some ''Bills''
         \<and> player_name row = Some ''Al Passer'' \<and> player_headshot_url row = None)
   \<and> (\<exists>row. fumbles_stats (committed (foldl (\<lambda>d ps. snd (insert_all_player_stats no_fault no_float d ps))
                     (snd (wipe_all_stats_tables no_fault ex_db)) [game_a, game_b])) 7 = Some row
         \<and> team_id row = Some 2 \<and> team_name row = Some ''Bills''
         \<and> player_name row = Some ''Al Passer'' \<and> player_headshot_url row = None)
   \<and> (\<exists>row. defensive_stats (committed (foldl (\<lambda>d ps. snd (insert_all_player_stats no_fault no_float d ps))
                     (snd (wipe_all_stats_tables no_fault ex_db)) [game_a, game_b])) 7 = Some row
         \<and> team_id row = Some 2 \<and> team_name row = Some ''Bills''
         \<and> player_name row = Some ''Al Passer'' \<and> player_headshot_url row = None)
   \<and> (\<exists>row. interceptions_stats (committed (foldl (\<lambda>d ps. snd (insert_all_player_stats no_fault no_float d ps))
                     (snd (wipe_all_stats_tables no_fault ex_db)) [game_a, game_b])) 7 = Some row
         \<and> team_id row = Some 2 \<and> team_name row = Some ''Bills''
         \<and> player_name row = Some ''Al Passer'' \<and> player_headshot_url row = None)"
proof -
  have nf: "\<forall>n. \<not> no_fault n" by (simp add: no_fault_def)
  have f1: "filter (\<lambda>r. player_id r = Some 7) (concat (map ps_passing [game_a, game_b])) = [pass_a, pass_b]"
    by (simp add: game_a_def game_b_def pass_a_def pass_b_def)
  have f2: "filter (\<lambda>r. player_id r = Some 7) (concat (map ps_rushing [game_a, game_b])) = [rush_a, rush_b]"
    by (simp add: game_a_def game_b_def rush_a_def rush_b_def)
  have f3: "filter (\<lambda>r. player_id r = Some 7) (concat (map ps_receiving [game_a, game_b])) = [recv_a, recv_b]"
    by (simp add: game_a_def game_b_def recv_a_def recv_b_def)
  have f4: "filter (\<lambda>r. player_id r = Some 7) (concat (map ps_fumbles [game_a, game_b])) = [fum_a, fum_b]"
    by (simp add: game_a_def game_b_def fum_a_def fum_b_def)
  have f5: "filter (\<lambda>r. player_id r = Some 7) (concat (map ps_defensive [game_a, game_b])) = [def_a, def_b]"
    by (simp add: game_a_def game_b_def def_a_def def_b_def)
  have f6: "filter (\<lambda>r. player_id r = Some 7) (concat (map ps_interceptions [game_a, game_b])) = [int_a, int_b]"
    by (simp add: game_a_def game_b_def int_a_def int_b_def)
  note T = identity_fields_last_write_wins [OF nf, where fl = no_float and d = ex_db
      and games = "[game_a, game_b]" and p = 7, unfolded f1 f2 f3 f4 f5 f6]
  show ?thesis
    apply (rule conjI [OF nf])
    using T
    by (simp add: pass_b_def rush_b_def recv_b_def fum_b_def def_b_def int_b_def)
qed

section \<open>Composite tokens with a dash\<close>

lemma dash_tokens_kept:
  "completions_attempts_str (TStr ''10-15'') = Some ''10-15''"
  "completions_attempts_str (TStr ''5-8'') = Some ''5-8''"
  by (simp_all add: completions_attempts_str_def)

lemma dash_tokens_merge: "merge_completions no_float (Some ''10-15'') (Some ''5-8'') = None"
  by code_simp

lemma slash_tokens_merge: "merge_completions no_float (Some ''10/15'') (Some ''5/8'') = Some ''15/23''"
  by code_simp

text \<open>
  Claim C5. The extractor keeps a string token verbatim, with a dash as with a slash.
  For two kept tokens with a dash, \<open>10-15\<close> and \<open>5-8\<close>, of the same player the stored
  composite after the second record is null: \<open>_merge_completions\<close> splits at a slash only,
  so neither token yields a number. For the tokens \<open>10/15\<close> and \<open>5/8\<close> the stored composite
  is \<open>15/23\<close>.
\<close>

theorem dash_tokens_merge_to_null:
  "completions_attempts_str (TStr ''10-15'') = Some ''10-15''
   \<and> completions_attempts_str (TStr ''5-8'') = Some ''5-8''
   \<and> completions_attempts pass_dash_a = Some ''10-15''
   \<and> completions_attempts pass_dash_b = Some ''5-8''
   \<and> player_id pass_dash_a = Some 7 \<and> player_id pass_dash_b = Some 7
   \<and> map_option completions_attempts
        (passing_stats (committed (snd (insert_passing_stats no_fault no_float
           (snd (insert_passing_stats no_fault no_float ex_db [pass_dash_a])) [pass_dash_b]))) 7)
       = Some None
   \<and> map_option completions_attempts
        (passing_stats (committed (snd (insert_passing_stats no_fault no_float
           (snd (insert_passing_stats no_fault no_float ex_db [pass_a])) [pass_b]))) 7)
       = Some (Some ''15/23'')"
  by (simp add: dash_tokens_kept dash_tokens_merge slash_tokens_merge pass_dash_a_def
        pass_dash_b_def pass_a_def pass_b_def insert_passing_stats_def finish_batch_def
        commit_def no_fault_def ex_db_def empty_tables_def passing_insert_row_def
        passing_update_row_def)

section \<open>Validation\<close>

text \<open>
  Claim C6. With a season type outside 1, 2, 3, or an end week below 1, or an end week
  above 4 for season types 1 and 3 or above 18 for season type 2,
  \<open>compile_season_stats\<close> raises \<open>ValueError\<close> and leaves the world as it was: no request has
  been sent and no storage statement has been executed.
\<close>

theorem invalid_parameters_rejected:
  "season_type \<notin> {1, 2, 3} \<or> end_week < 1 \<or> (season_type = 1 \<and> end_week > 4)
     \<or> (season_type = 2 \<and> end_week > 18) \<or> (season_type = 3 \<and> end_week > 4)
   \<Longrightarrow> compile_season_stats fault fl src season end_week season_type w = (Inl ValueError, w)"
  by (auto simp: compile_season_stats_def)

theorem invalid_parameters_rejected_witness:
  "compile_season_stats no_fault no_float one_game_feed 2025 5 1 ex_world = (Inl ValueError, ex_world)
   \<and> compile_season_stats no_fault no_float one_game_feed 2025 19 2 ex_world = (Inl ValueError, ex_world)
   \<and> compile_season_stats no_fault no_float one_game_feed 2025 0 2 ex_world = (Inl ValueError, ex_world)
   \<and> compile_season_stats no_fault no_float one_game_feed 2025 1 4 ex_world = (Inl ValueError, ex_world)
   \<and> compile_season_stats no_fault no_float one_game_feed 2025 5 3 ex_world = (Inl ValueError, ex_world)"
  using invalid_parameters_rejected [of 1 5 no_fault no_float one_game_feed 2025 ex_world]
    invalid_parameters_rejected [of 2 19 no_fault no_float one_game_feed 2025 ex_world]
    invalid_parameters_rejected [of 2 0 no_fault no_float one_game_feed 2025 ex_world]
    invalid_parameters_rejected [of 4 1 no_fault no_float one_game_feed 2025 ex_world]
    invalid_parameters_rejected [of 3 5 no_fault no_float one_game_feed 2025 ex_world]
  by simp

section \<open>Batches and storage failures\<close>

lemma upsert_rows_skip:
  "pid r = None \<Longrightarrow>
   upsert_rows fault get put pid ins upd (xs @ r # ys) d c =
   upsert_rows fault get put pid ins upd (xs @ ys) d c"
  by (induction xs arbitrary: d c) (simp_all split: option.splits)

lemma upsert_rows_pending:
  assumes gp: "\<And>T t. get (put T t) = T" and pp: "\<And>T T' t. put T (put T' t) = put T t"
    and pg: "\<And>t. put (get t) t = t"
  shows "upsert_rows fault get put pid ins upd ss d c = (res, d') \<Longrightarrow>
         committed d' = committed d \<and>
         (\<forall>n. res = Inr n \<longrightarrow>
              working d' = put (row_of pid ins upd (get (working d)) ss) (working d))"
proof (induction ss arbitrary: d c)
  case Nil
  then show ?case by (auto simp: row_of_Nil pg)
next
  case (Cons s ss)
  show ?case
  proof (cases "pid s")
    case None
    with Cons show ?thesis by (simp add: row_of_Cons_None)
  next
    case (Some p)
    show ?thesis
    proof (cases "fault (ops d) \<or> fault (Suc (ops d))")
      case True
      with Some Cons.prems show ?thesis by (auto split: if_splits)
    next
      case False
      let ?T = "(get (working d))(p \<mapsto> (case get (working d) p of
                                      Some row \<Rightarrow> upd row s | None \<Rightarrow> ins s))"
      let ?d1 = "d\<lparr>working := put ?T (working d), ops := Suc (Suc (ops d))\<rparr>"
      from False Some Cons.prems
      have "upsert_rows fault get put pid ins upd ss ?d1 (Suc c) = (res, d')" by simp
      from Cons.IH [OF this]
      have "committed d' = committed d \<and>
         (\<forall>n. res = Inr n \<longrightarrow> working d' = put (row_of pid ins upd ?T ss) (working d))"
        by (simp add: gp pp del: fun_upd_apply)
      then show ?thesis using Some by (simp add: row_of_Cons_Some del: fun_upd_apply)
    qed
  qed
qed

lemma finish_batch_atomic:
  assumes gp: "\<And>T t. get (put T t) = T" and pp: "\<And>T T' t. put T (put T' t) = put T t"
    and pg: "\<And>t. put (get t) t = t" and cl: "working d = committed d"
  shows "case finish_batch fault (upsert_rows fault get put pid ins upd ss d c) of
           (Inl e, d') \<Rightarrow> committed d' = committed d \<and> working d' = committed d
         | (Inr n, d') \<Rightarrow> working d' = committed d' \<and>
                           committed d' = put (row_of pid ins upd (get (committed d)) ss)
                                              (committed d)"
proof -
  obtain res d1 where u: "upsert_rows fault get put pid ins upd ss d c = (res, d1)"
    by (cases "upsert_rows fault get put pid ins upd ss d c") auto
  note p = upsert_rows_pending [OF gp pp pg u]
  show ?thesis
  proof (cases res)
    case (Inl e)
    with u p show ?thesis by (simp add: finish_batch_def rollback_def)
  next
    case (Inr n)
    with u p cl show ?thesis by (simp add: finish_batch_def rollback_def commit_def)
  qed
qed

lemma finish_batch_none:
  "working d = committed d \<Longrightarrow>
   committed (snd (finish_batch fault (Inr 0, d))) = committed d \<and>
   working (snd (finish_batch fault (Inr 0, d))) = working d \<and>
   ops (snd (finish_batch fault (Inr 0, d))) = Suc (ops d) \<and>
   fst (finish_batch fault (Inr 0, d)) \<in> {Inr 0, Inl StorageError}"
  by (simp add: finish_batch_def rollback_def commit_def)

lemma insert_passing_atomic:
  assumes cl: "working d = committed d"
  shows "case insert_passing_stats fault fl d xs of
           (Inl e, d') \<Rightarrow> committed d' = committed d \<and> working d' = committed d
         | (Inr n, d') \<Rightarrow> working d' = committed d' \<and>
             committed d' = (committed d)\<lparr>passing_stats :=
               row_of player_id passing_insert_row (passing_update_row fl) (passing_stats (committed d)) xs\<rparr>"
proof (cases "xs = []")
  case True
  with cl show ?thesis by (simp add: insert_passing_stats_def row_of_Nil)
next
  case False
  have "case finish_batch fault (upsert_rows fault passing_stats (\<lambda>T t. t\<lparr>passing_stats := T\<rparr>)
                player_id passing_insert_row (passing_update_row fl) xs d 0) of
           (Inl e, d') \<Rightarrow> committed d' = committed d \<and> working d' = committed d
         | (Inr n, d') \<Rightarrow> working d' = committed d' \<and>
             committed d' = (\<lambda>T t. t\<lparr>passing_stats := T\<rparr>)
               (row_of player_id passing_insert_row (passing_update_row fl) (passing_stats (committed d)) xs)
               (committed d)"
    by (rule finish_batch_atomic) (simp_all add: cl)
  with False show ?thesis by (simp add: insert_passing_stats_def)
qed

lemma insert_passing_outcome:
  assumes cl: "working d = committed d"
  shows "working (snd (insert_passing_stats fault fl d xs)) = committed (snd (insert_passing_stats fault fl d xs))"
    and "isl (fst (insert_passing_stats fault fl d xs)) \<Longrightarrow> committed (snd (insert_passing_stats fault fl d xs)) = committed d"
    and "\<not> isl (fst (insert_passing_stats fault fl d xs)) \<Longrightarrow>
         committed (snd (insert_passing_stats fault fl d xs)) = (committed d)\<lparr>passing_stats :=
               row_of player_id passing_insert_row (passing_update_row fl) (passing_stats (committed d)) xs\<rparr>"
  using insert_passing_atomic [OF cl, where fault = fault and xs = xs and fl = fl]
  by (cases "insert_passing_stats fault fl d xs"; cases "fst (insert_passing_stats fault fl d xs)"; simp)+

lemma insert_passing_skip:
  "player_id r = None \<Longrightarrow> xs @ ys \<noteq> [] \<Longrightarrow>
   insert_passing_stats fault fl d (xs @ r # ys) = insert_passing_stats fault fl d (xs @ ys)"
  by (auto simp: insert_passing_stats_def upsert_rows_skip)

lemma insert_passing_only_null:
  "player_id r = None \<Longrightarrow> working d = committed d \<Longrightarrow>
   committed (snd (insert_passing_stats fault fl d [r])) = committed d \<and>
   working (snd (insert_passing_stats fault fl d [r])) = working d \<and>
   ops (snd (insert_passing_stats fault fl d [r])) = Suc (ops d) \<and>
   fst (insert_passing_stats fault fl d [r]) \<in> {Inr 0, Inl StorageError}"
  using finish_batch_none [of d fault]
  by (simp add: insert_passing_stats_def)

lemma insert_rushing_atomic:
  assumes cl: "working d = committed d"
  shows "case insert_rushing_stats fault d xs of
           (Inl e, d') \<Rightarrow> committed d' = committed d \<and> working d' = committed d
         | (Inr n, d') \<Rightarrow> working d' = committed d' \<and>
             committed d' = (committed d)\<lparr>rushing_stats :=
               row_of player_id rushing_insert_row rushing_update_row (rushing_stats (committed d)) xs\<rparr>"
proof (cases "xs = []")
  case True
  with cl show ?thesis by (simp add: insert_rushing_stats_def row_of_Nil)
next
  case False
  have "case finish_batch fault (upsert_rows fault rushing_stats (\<lambda>T t. t\<lparr>rushing_stats := T\<rparr>)
                player_id rushing_insert_row rushing_update_row xs d 0) of
           (Inl e, d') \<Rightarrow> committed d' = committed d \<and> working d' = committed d
         | (Inr n, d') \<Rightarrow> working d' = committed d' \<and>
             committed d' = (\<lambda>T t. t\<lparr>rushing_stats := T\<rparr>)
               (row_of player_id rushing_insert_row rushing_update_row (rushing_stats (committed d)) xs)
               (committed d)"
    by (rule finish_batch_atomic) (simp_all add: cl)
  with False show ?thesis by (simp add: insert_rushing_stats_def)
qed

lemma insert_rushing_outcome:
  assumes cl: "working d = committed d"
  shows "working (snd (insert_rushing_stats fault d xs)) = committed (snd (insert_rushing_stats fault d xs))"
    and "isl (fst (insert_rushing_stats fault d xs)) \<Longrightarrow> committed (snd (insert_rushing_stats fault d xs)) = committed d"
    and "\<not> isl (fst (insert_rushing_stats fault d xs)) \<Longrightarrow>
         committed (snd (insert_rushing_stats fault d xs)) = (committed d)\<lparr>rushing_stats :=
               row_of player_id rushing_insert_row rushing_update_row (rushing_stats (committed d)) xs\<rparr>"
  using insert_rushing_atomic [OF cl, where fault = fault and xs = xs]
  by (cases "insert_rushing_stats fault d xs"; cases "fst (insert_rushing_stats fault d xs)"; simp)+

lemma insert_rushing_skip:
  "player_id r = None \<Longrightarrow> xs @ ys \<noteq> [] \<Longrightarrow>
   insert_rushing_stats fault d (xs @ r # ys) = insert_rushing_stats fault d (xs @ ys)"
  by (auto simp: insert_rushing_stats_def upsert_rows_skip)

lemma insert_rushing_only_null:
  "player_id r = None \<Longrightarrow> working d = committed d \<Longrightarrow>
   committed (snd (insert_rushing_stats fault d [r])) = committed d \<and>
   working (snd (insert_rushing_stats fault d [r])) = working d \<and>
   ops (snd (insert_rushing_stats fault d [r])) = Suc (ops d) \<and>
   fst (insert_rushing_stats fault d [r]) \<in> {Inr 0, Inl StorageError}"
  using finish_batch_none [of d fault]
  by (simp add: insert_rushing_stats_def)

lemma insert_receiving_atomic:
  assumes cl: "working d = committed d"
  shows "case insert_receiving_stats fault d xs of
           (Inl e, d') \<Rightarrow> committed d' = committed d \<and> working d' = committed d
         | (Inr n, d') \<Rightarrow> working d' = committed d' \<and>
             committed d' = (committed d)\<lparr>receiving_stats :=
               row_of player_id receiving_insert_row receiving_update_row (receiving_stats (committed d)) xs\<rparr>"
proof (cases "xs = []")
  case True
  with cl show ?thesis by (simp add: insert_receiving_stats_def row_of_Nil)
next
  case False
  have "case finish_batch fault (upsert_rows fault receiving_stats (\<lambda>T t. t\<lparr>receiving_stats := T\<rparr>)
                player_id receiving_insert_row receiving_update_row xs d 0) of
           (Inl e, d') \<Rightarrow> committed d' = committed d \<and> working d' = committed d
         | (Inr n, d') \<Rightarrow> working d' = committed d' \<and>
             committed d' = (\<lambda>T t. t\<lparr>receiving_stats := T\<rparr>)
               (row_of player_id receiving_insert_row receiving_update_row (receiving_stats (committed d)) xs)
               (committed d)"
    by (rule finish_batch_atomic) (simp_all add: cl)
  with False show ?thesis by (simp add: insert_receiving_stats_def)
qed

lemma insert_receiving_outcome:
  assumes cl: "working d = committed d"
  shows "working (snd (insert_receiving_stats fault d xs)) = committed (snd (insert_receiving_stats fault d xs))"
    and "isl (fst (insert_receiving_stats fault d xs)) \<Longrightarrow> committed (snd (insert_receiving_stats fault d xs)) = committed d"
    and "\<not> isl (fst (insert_receiving_stats fault d xs)) \<Longrightarrow>
         committed (snd (insert_receiving_stats fault d xs)) = (committed d)\<lparr>receiving_stats :=
               row_of player_id receiving_insert_row receiving_update_row (receiving_stats (committed d)) xs\<rparr>"
  using insert_receiving_atomic [OF cl, where fault = fault and xs = xs]
  by (cases "insert_receiving_stats fault d xs"; cases "fst (insert_receiving_stats fault d xs)"; simp)+

lemma insert_receiving_skip:
  "player_id r = None \<Longrightarrow> xs @ ys \<noteq> [] \<Longrightarrow>
   insert_receiving_stats fault d (xs @ r # ys) = insert_receiving_stats fault d (xs @ ys)"
  by (auto simp: insert_receiving_stats_def upsert_rows_skip)

lemma insert_receiving_only_null:
  "player_id r = None \<Longrightarrow> working d = committed d \<Longrightarrow>
   committed (snd (insert_receiving_stats fault d [r])) = committed d \<and>
   working (snd (insert_receiving_stats fault d [r])) = working d \<and>
   ops (snd (insert_receiving_stats fault d [r])) = Suc (ops d) \<and>
   fst (insert_receiving_stats fault d [r]) \<in> {Inr 0, Inl StorageError}"
  using finish_batch_none [of d fault]
  by (simp add: insert_receiving_stats_def)

lemma insert_fumbles_atomic:
  assumes cl: "working d = committed d"
  shows "case insert_fumbles_stats fault d xs of
           (Inl e, d') \<Rightarrow> committed d' = committed d \<and> working d' = committed d
         | (Inr n, d') \<Rightarrow> working d' = committed d' \<and>
             committed d' = (committed d)\<lparr>fumbles_stats :=
               row_of player_id fumbles_insert_row fumbles_update_row (fumbles_stats (committed d)) xs\<rparr>"
proof (cases "xs = []")
  case True
  with cl show ?thesis by (simp add: insert_fumbles_stats_def row_of_Nil)
next
  case False
  have "case finish_batch fault (upsert_rows fault fumbles_stats (\<lambda>T t. t\<lparr>fumbles_stats := T\<rparr>)
                player_id fumbles_insert_row fumbles_update_row xs d 0) of
           (Inl e, d') \<Rightarrow> committed d' = committed d \<and> working d' = committed d
         | (Inr n, d') \<Rightarrow> working d' = committed d' \<and>
             committed d' = (\<lambda>T t. t\<lparr>fumbles_stats := T\<rparr>)
               (row_of player_id fumbles_insert_row fumbles_update_row (fumbles_stats (committed d)) xs)
               (committed d)"
    by (rule finish_batch_atomic) (simp_all add: cl)
  with False show ?thesis by (simp add: insert_fumbles_stats_def)
qed

lemma insert_fumbles_outcome:
  assumes cl: "working d = committed d"
  shows "working (snd (insert_fumbles_stats fault d xs)) = committed (snd (insert_fumbles_stats fault d xs))"
    and "isl (fst (insert_fumbles_stats fault d xs)) \<Longrightarrow> committed (snd (insert_fumbles_stats fault d xs)) = committed d"
    and "\<not> isl (fst (insert_fumbles_stats fault d xs)) \<Longrightarrow>
         committed (snd (insert_fumbles_stats fault d xs)) = (committed d)\<lparr>fumbles_stats :=
               row_of player_id fumbles_insert_row fumbles_update_row (fumbles_stats (committed d)) xs\<rparr>"
  using insert_fumbles_atomic [OF cl, where fault = fault and xs = xs]
  by (cases "insert_fumbles_stats fault d xs"; cases "fst (insert_fumbles_stats fault d xs)"; simp)+

lemma insert_fumbles_skip:
  "player_id r = None \<Longrightarrow> xs @ ys \<noteq> [] \<Longrightarrow>
   insert_fumbles_stats fault d (xs @ r # ys) = insert_fumbles_stats fault d (xs @ ys)"
  by (auto simp: insert_fumbles_stats_def upsert_rows_skip)

lemma insert_fumbles_only_null:
  "player_id r = None \<Longrightarrow> working d = committed d \<Longrightarrow>
   committed (snd (insert_fumbles_stats fault d [r])) = committed d \<and>
   working (snd (insert_fumbles_stats fault d [r])) = working d \<and>
   ops (snd (insert_fumbles_stats fault d [r])) = Suc (ops d) \<and>
   fst (insert_fumbles_stats fault d [r]) \<in> {Inr 0, Inl StorageError}"
  using finish_batch_none [of d fault]
  by (simp add: insert_fumbles_stats_def)

lemma insert_defensive_atomic:
  assumes cl: "working d = committed d"
  shows "case insert_defensive_stats fault d xs of
           (Inl e, d') \<Rightarrow> committed d' = committed d \<and> working d' = committed d
         | (Inr n, d') \<Rightarrow> working d' = committed d' \<and>
             committed d' = (committed d)\<lparr>defensive_stats :=
               row_of player_id defensive_insert_row defensive_update_row (defensive_stats (committed d)) xs\<rparr>"
proof (cases "xs = []")
  case True
  with cl show ?thesis by (simp add: insert_defensive_stats_def row_of_Nil)
next
  case False
  have "case finish_batch fault (upsert_rows fault defensive_stats (\<lambda>T t. t\<lparr>defensive_stats := T\<rparr>)
                player_id defensive_insert_row defensive_update_row xs d 0) of
           (Inl e, d') \<Rightarrow> committed d' = committed d \<and> working d' = committed d
         | (Inr n, d') \<Rightarrow> working d' = committed d' \<and>
             committed d' = (\<lambda>T t. t\<lparr>defensive_stats := T\<rparr>)
               (row_of player_id defensive_insert_row defensive_update_row (defensive_stats (committed d)) xs)
               (committed d)"
    by (rule finish_batch_atomic) (simp_all add: cl)
  with False show ?thesis by (simp add: insert_defensive_stats_def)
qed

lemma insert_defensive_outcome:
  assumes cl: "working d = committed d"
  shows "working (snd (insert_defensive_stats fault d xs)) = committed (snd (insert_defensive_stats fault d xs))"
    and "isl (fst (insert_defensive_stats fault d xs)) \<Longrightarrow> committed (snd (insert_defensive_stats fault d xs)) = committed d"
    and "\<not> isl (fst (insert_defensive_stats fault d xs)) \<Longrightarrow>
         committed (snd (insert_defensive_stats fault d xs)) = (committed d)\<lparr>defensive_stats :=
               row_of player_id defensive_insert_row defensive_update_row (defensive_stats (committed d)) xs\<rparr>"
  using insert_defensive_atomic [OF cl, where fault = fault and xs = xs]
  by (cases "insert_defensive_stats fault d xs"; cases "fst (insert_defensive_stats fault d xs)"; simp)+

lemma insert_defensive_skip:
  "player_id r = None \<Longrightarrow> xs @ ys \<noteq> [] \<Longrightarrow>
   insert_defensive_stats fault d (xs @ r # ys) = insert_defensive_stats fault d (xs @ ys)"
  by (auto simp: insert_defensive_stats_def upsert_rows_skip)

lemma insert_defensive_only_null:
  "player_id r = None \<Longrightarrow> working d = committed d \<Longrightarrow>
   committed (snd (insert_defensive_stats fault d [r])) = committed d \<and>
   working (snd (insert_defensive_stats fault d [r])) = working d \<and>
   ops (snd (insert_defensive_stats fault d [r])) = Suc (ops d) \<and>
   fst (insert_defensive_stats fault d [r]) \<in> {Inr 0, Inl StorageError}"
  using finish_batch_none [of d fault]
  by (simp add: insert_defensive_stats_def)

lemma insert_interceptions_atomic:
  assumes cl: "working d = committed d"
  shows "case insert_interceptions_stats fault d xs of
           (Inl e, d') \<Rightarrow> committed d' = committed d \<and> working d' = committed d
         | (Inr n, d') \<Rightarrow> working d' = committed d' \<and>
             committed d' = (committed d)\<lparr>interceptions_stats :=
               row_of player_id interceptions_insert_row interceptions_update_row (interceptions_stats (committed d)) xs\<rparr>"
proof (cases "xs = []")
  case True
  with cl show ?thesis by (simp add: insert_interceptions_stats_def row_of_Nil)
next
  case False
  have "case finish_batch fault (upsert_rows fault interceptions_stats (\<lambda>T t. t\<lparr>interceptions_stats := T\<rparr>)
                player_id interceptions_insert_row interceptions_update_row xs d 0) of
           (Inl e, d') \<Rightarrow> committed d' = committed d \<and> working d' = committed d
         | (Inr n, d') \<Rightarrow> working d' = committed d' \<and>
             committed d' = (\<lambda>T t. t\<lparr>interceptions_stats := T\<rparr>)
               (row_of player_id interceptions_insert_row interceptions_update_row (interceptions_stats (committed d)) xs)
               (committed d)"
    by (rule finish_batch_atomic) (simp_all add: cl)
  with False show ?thesis by (simp add: insert_interceptions_stats_def)
qed

lemma insert_interceptions_outcome:
  assumes cl: "working d = committed d"
  shows "working (snd (insert_interceptions_stats fault d xs)) = committed (snd (insert_interceptions_stats fault d xs))"
    and "isl (fst (insert_interceptions_stats fault d xs)) \<Longrightarrow> committed (snd (insert_interceptions_stats fault d xs)) = committed d"
    and "\<not> isl (fst (insert_interceptions_stats fault d xs)) \<Longrightarrow>
         committed (snd (insert_interceptions_stats fault d xs)) = (committed d)\<lparr>interceptions_stats :=
               row_of player_id interceptions_insert_row interceptions_update_row (interceptions_stats (committed d)) xs\<rparr>"
  using insert_interceptions_atomic [OF cl, where fault = fault and xs = xs]
  by (cases "insert_interceptions_stats fault d xs"; cases "fst (insert_interceptions_stats fault d xs)"; simp)+

lemma insert_interceptions_skip:
  "player_id r = None \<Longrightarrow> xs @ ys \<noteq> [] \<Longrightarrow>
   insert_interceptions_stats fault d (xs @ r # ys) = insert_interceptions_stats fault d (xs @ ys)"
  by (auto simp: insert_interceptions_stats_def upsert_rows_skip)

lemma insert_interceptions_only_null:
  "player_id r = None \<Longrightarrow> working d = committed d \<Longrightarrow>
   committed (snd (insert_interceptions_stats fault d [r])) = committed d \<and>
   working (snd (insert_interceptions_stats fault d [r])) = working d \<and>
   ops (snd (insert_interceptions_stats fault d [r])) = Suc (ops d) \<and>
   fst (insert_interceptions_stats fault d [r]) \<in> {Inr 0, Inl StorageError}"
  using finish_batch_none [of d fault]
  by (simp add: insert_interceptions_stats_def)

lemma insert_all_outcome:
  "(working d = committed d \<longrightarrow>
     (let r1 = insert_passing_stats fault fl d (ps_passing ps);
          r2 = insert_rushing_stats fault (snd r1) (ps_rushing ps);
          r3 = insert_receiving_stats fault (snd r2) (ps_receiving ps);
          r4 = insert_fumbles_stats fault (snd r3) (ps_fumbles ps);
          r5 = insert_defensive_stats fault (snd r4) (ps_defensive ps);
          r6 = insert_interceptions_stats fault (snd r5) (ps_interceptions ps);
          a = insert_all_player_stats fault fl d ps
      in working (snd a) = committed (snd a)
         \<and> isl (fst a) = (isl (fst r1) \<or> isl (fst r2) \<or> isl (fst r3) \<or> isl (fst r4)
                           \<or> isl (fst r5) \<or> isl (fst r6))
         \<and> committed (snd a) =
             (if isl (fst r1) then committed d
              else if isl (fst r2) then committed (snd r1)
              else if isl (fst r3) then committed (snd r2)
              else if isl (fst r4) then committed (snd r3)
              else if isl (fst r5) then committed (snd r4)
              else if isl (fst r6) then committed (snd r5)
              else committed (snd r6))
         \<and> passing_stats (committed (snd a)) =
             (if isl (fst r1) then passing_stats (committed d)
              else row_of player_id passing_insert_row (passing_update_row fl)
                     (passing_stats (committed d)) (ps_passing ps))
         \<and> rushing_stats (committed (snd a)) =
             (if isl (fst r1) \<or> isl (fst r2) then rushing_stats (committed d)
              else row_of player_id rushing_insert_row rushing_update_row
                     (rushing_stats (committed d)) (ps_rushing ps))
         \<and> receiving_stats (committed (snd a)) =
             (if isl (fst r1) \<or> isl (fst r2) \<or> isl (fst r3) then receiving_stats (committed d)
              else row_of player_id receiving_insert_row receiving_update_row
                     (receiving_stats (committed d)) (ps_receiving ps))
         \<and> fumbles_stats (committed (snd a)) =
             (if isl (fst r1) \<or> isl (fst r2) \<or> isl (fst r3) \<or> isl (fst r4) then fumbles_stats (committed d)
              else row_of player_id fumbles_insert_row fumbles_update_row
                     (fumbles_stats (committed d)) (ps_fumbles ps))
         \<and> defensive_stats (committed (snd a)) =
             (if isl (fst r1) \<or> isl (fst r2) \<or> isl (fst r3) \<or> isl (fst r4) \<or> isl (fst r5) then defensive_stats (committed d)
              else row_of player_id defensive_insert_row defensive_update_row
                     (defensive_stats (committed d)) (ps_defensive ps))
         \<and> interceptions_stats (committed (snd a)) =
             (if isl (fst r1) \<or> isl (fst r2) \<or> isl (fst r3) \<or> isl (fst r4) \<or> isl (fst r5) \<or> isl (fst r6) then interceptions_stats (committed d)
              else row_of player_id interceptions_insert_row interceptions_update_row
                     (interceptions_stats (committed d)) (ps_interceptions ps))))"
proof
  assume cl: "working d = committed d"
  obtain e1 d1 where r1: "insert_passing_stats fault fl d (ps_passing ps) = (e1, d1)"
    by (cases "insert_passing_stats fault fl d (ps_passing ps)") auto
  have c1: "working d1 = committed d1" "isl e1 \<Longrightarrow> committed d1 = committed d"
    "\<not> isl e1 \<Longrightarrow> committed d1 = (committed d)\<lparr>passing_stats :=
       row_of player_id passing_insert_row (passing_update_row fl) (passing_stats (committed d)) (ps_passing ps)\<rparr>"
    using insert_passing_outcome [OF cl, where fault = fault and xs = "ps_passing ps" and fl = fl] by (simp_all add: r1)
  obtain e2 d2 where r2: "insert_rushing_stats fault d1 (ps_rushing ps) = (e2, d2)"
    by (cases "insert_rushing_stats fault d1 (ps_rushing ps)") auto
  have c2: "working d2 = committed d2" "isl e2 \<Longrightarrow> committed d2 = committed d1"
    "\<not> isl e2 \<Longrightarrow> committed d2 = (committed d1)\<lparr>rushing_stats :=
       row_of player_id rushing_insert_row rushing_update_row (rushing_stats (committed d1)) (ps_rushing ps)\<rparr>"
    using insert_rushing_outcome [OF c1(1), where fault = fault and xs = "ps_rushing ps"] by (simp_all add: r2)
  obtain e3 d3 where r3: "insert_receiving_stats fault d2 (ps_receiving ps) = (e3, d3)"
    by (cases "insert_receiving_stats fault d2 (ps_receiving ps)") auto
  have c3: "working d3 = committed d3" "isl e3 \<Longrightarrow> committed d3 = committed d2"
    "\<not> isl e3 \<Longrightarrow> committed d3 = (committed d2)\<lparr>receiving_stats :=
       row_of player_id receiving_insert_row receiving_update_row (receiving_stats (committed d2)) (ps_receiving ps)\<rparr>"
    using insert_receiving_outcome [OF c2(1), where fault = fault and xs = "ps_receiving ps"] by (simp_all add: r3)
  obtain e4 d4 where r4: "insert_fumbles_stats fault d3 (ps_fumbles ps) = (e4, d4)"
    by (cases "insert_fumbles_stats fault d3 (ps_fumbles ps)") auto
  have c4: "working d4 = committed d4" "isl e4 \<Longrightarrow> committed d4 = committed d3"
    "\<not> isl e4 \<Longrightarrow> committed d4 = (committed d3)\<lparr>fumbles_stats :=
       row_of player_id fumbles_insert_row fumbles_update_row (fumbles_stats (committed d3)) (ps_fumbles ps)\<rparr>"
    using insert_fumbles_outcome [OF c3(1), where fault = fault and xs = "ps_fumbles ps"] by (simp_all add: r4)
  obtain e5 d5 where r5: "insert_defensive_stats fault d4 (ps_defensive ps) = (e5, d5)"
    by (cases "insert_defensive_stats fault d4 (ps_defensive ps)") auto
  have c5: "working d5 = committed d5" "isl e5 \<Longrightarrow> committed d5 = committed d4"
    "\<not> isl e5 \<Longrightarrow> committed d5 = (committed d4)\<lparr>defensive_stats :=
       row_of player_id defensive_insert_row defensive_update_row (defensive_stats (committed d4)) (ps_defensive ps)\<rparr>"
    using insert_defensive_outcome [OF c4(1), where fault = fault and xs = "ps_defensive ps"] by (simp_all add: r5)
  obtain e6 d6 where r6: "insert_interceptions_stats fault d5 (ps_interceptions ps) = (e6, d6)"
    by (cases "insert_interceptions_stats fault d5 (ps_interceptions ps)") auto
  have c6: "working d6 = committed d6" "isl e6 \<Longrightarrow> committed d6 = committed d5"
    "\<not> isl e6 \<Longrightarrow> committed d6 = (committed d5)\<lparr>interceptions_stats :=
       row_of player_id interceptions_insert_row interceptions_update_row (interceptions_stats (committed d5)) (ps_interceptions ps)\<rparr>"
    using insert_interceptions_outcome [OF c5(1), where fault = fault and xs = "ps_interceptions ps"] by (simp_all add: r6)
  have "let r1 = insert_passing_stats fault fl d (ps_passing ps);
          r2 = insert_rushing_stats fault (snd r1) (ps_rushing ps);
          r3 = insert_receiving_stats fault (snd r2) (ps_receiving ps);
          r4 = insert_fumbles_stats fault (snd r3) (ps_fumbles ps);
          r5 = insert_defensive_stats fault (snd r4) (ps_defensive ps);
          r6 = insert_interceptions_stats fault (snd r5) (ps_interceptions ps);
          a = insert_all_player_stats fault fl d ps
      in working (snd a) = committed (snd a)
         \<and> isl (fst a) = (isl (fst r1) \<or> isl (fst r2) \<or> isl (fst r3) \<or> isl (fst r4)
                           \<or> isl (fst r5) \<or> isl (fst r6))
         \<and> committed (snd a) =
             (if isl (fst r1) then committed d
              else if isl (fst r2) then committed (snd r1)
              else if isl (fst r3) then committed (snd r2)
              else if isl (fst r4) then committed (snd r3)
              else if isl (fst r5) then committed (snd r4)
              else if isl (fst r6) then committed (snd r5)
              else committed (snd r6))
         \<and> passing_stats (committed (snd a)) =
             (if isl (fst r1) then passing_stats (committed d)
              else row_of player_id passing_insert_row (passing_update_row fl)
                     (passing_stats (committed d)) (ps_passing ps))
         \<and> rushing_stats (committed (snd a)) =
             (if isl (fst r1) \<or> isl (fst r2) then rushing_stats (committed d)
              else row_of player_id rushing_insert_row rushing_update_row
                     (rushing_stats (committed d)) (ps_rushing ps))
         \<and> receiving_stats (committed (snd a)) =
             (if isl (fst r1) \<or> isl (fst r2) \<or> isl (fst r3) then receiving_stats (committed d)
              else row_of player_id receiving_insert_row receiving_update_row
                     (receiving_stats (committed d)) (ps_receiving ps))
         \<and> fumbles_stats (committed (snd a)) =
             (if isl (fst r1) \<or> isl (fst r2) \<or> isl (fst r3) \<or> isl (fst r4) then fumbles_stats (committed d)
              else row_of player_id fumbles_insert_row fumbles_update_row
                     (fumbles_stats (committed d)) (ps_fumbles ps))
         \<and> defensive_stats (committed (snd a)) =
             (if isl (fst r1) \<or> isl (fst r2) \<or> isl (fst r3) \<or> isl (fst r4) \<or> isl (fst r5) then defensive_stats (committed d)
              else row_of player_id defensive_insert_row defensive_update_row
                     (defensive_stats (committed d)) (ps_defensive ps))
         \<and> interceptions_stats (committed (snd a)) =
             (if isl (fst r1) \<or> isl (fst r2) \<or> isl (fst r3) \<or> isl (fst r4) \<or> isl (fst r5) \<or> isl (fst r6) then interceptions_stats (committed d)
              else row_of player_id interceptions_insert_row interceptions_update_row
                     (interceptions_stats (committed d)) (ps_interceptions ps))"
  proof -
    show ?thesis
    proof (cases e1)
      case L1: (Inl x1)
      have a: "insert_all_player_stats fault fl d ps = (Inl x1, rollback d1)"
        by (simp add: insert_all_player_stats_def r1 L1 )
      have ki: "committed d1 = committed d" using c1(2) L1 by simp
      show ?thesis
        unfolding Let_def r1 r2 r3 r4 r5 r6 fst_conv snd_conv a
        by (simp add: rollback_def c1(1) ki  L1 )
    next
      case R1: (Inr n1)
      have k1: "committed d1 = (committed d)\<lparr>passing_stats :=
       row_of player_id passing_insert_row (passing_update_row fl) (passing_stats (committed d)) (ps_passing ps)\<rparr>"
        using c1(3) R1 by simp
      show ?thesis
      proof (cases e2)
        case L2: (Inl x2)
        have a: "insert_all_player_stats fault fl d ps = (Inl x2, rollback d2)"
          by (simp add: insert_all_player_stats_def r1 r2 L2 R1)
        have ki: "committed d2 = committed d1" using c2(2) L2 by simp
        show ?thesis
          unfolding Let_def r1 r2 r3 r4 r5 r6 fst_conv snd_conv a
          by (simp add: rollback_def c2(1) ki k1 L2 R1)
      next
        case R2: (Inr n2)
        have k2: "committed d2 = (committed d1)\<lparr>rushing_stats :=
       row_of player_id rushing_insert_row rushing_update_row (rushing_stats (committed d1)) (ps_rushing ps)\<rparr>"
          using c2(3) R2 by simp
        show ?thesis
        proof (cases e3)
          case L3: (Inl x3)
          have a: "insert_all_player_stats fault fl d ps = (Inl x3, rollback d3)"
            by (simp add: insert_all_player_stats_def r1 r2 r3 L3 R1 R2)
          have ki: "committed d3 = committed d2" using c3(2) L3 by simp
          show ?thesis
            unfolding Let_def r1 r2 r3 r4 r5 r6 fst_conv snd_conv a
            by (simp add: rollback_def c3(1) ki k1 k2 L3 R1 R2)
        next
          case R3: (Inr n3)
          have k3: "committed d3 = (committed d2)\<lparr>receiving_stats :=
       row_of player_id receiving_insert_row receiving_update_row (receiving_stats (committed d2)) (ps_receiving ps)\<rparr>"
            using c3(3) R3 by simp
          show ?thesis
          proof (cases e4)
            case L4: (Inl x4)
            have a: "insert_all_player_stats fault fl d ps = (Inl x4, rollback d4)"
              by (simp add: insert_all_player_stats_def r1 r2 r3 r4 L4 R1 R2 R3)
            have ki: "committed d4 = committed d3" using c4(2) L4 by simp
            show ?thesis
              unfolding Let_def r1 r2 r3 r4 r5 r6 fst_conv snd_conv a
              by (simp add: rollback_def c4(1) ki k1 k2 k3 L4 R1 R2 R3)
          next
            case R4: (Inr n4)
            have k4: "committed d4 = (committed d3)\<lparr>fumbles_stats :=
       row_of player_id fumbles_insert_row fumbles_update_row (fumbles_stats (committed d3)) (ps_fumbles ps)\<rparr>"
              using c4(3) R4 by simp
            show ?thesis
            proof (cases e5)
              case L5: (Inl x5)
              have a: "insert_all_player_stats fault fl d ps = (Inl x5, rollback d5)"
                by (simp add: insert_all_player_stats_def r1 r2 r3 r4 r5 L5 R1 R2 R3 R4)
              have ki: "committed d5 = committed d4" using c5(2) L5 by simp
              show ?thesis
                unfolding Let_def r1 r2 r3 r4 r5 r6 fst_conv snd_conv a
                by (simp add: rollback_def c5(1) ki k1 k2 k3 k4 L5 R1 R2 R3 R4)
            next
              case R5: (Inr n5)
              have k5: "committed d5 = (committed d4)\<lparr>defensive_stats :=
       row_of player_id defensive_insert_row defensive_update_row (defensive_stats (committed d4)) (ps_defensive ps)\<rparr>"
                using c5(3) R5 by simp
              show ?thesis
              proof (cases e6)
                case L6: (Inl x6)
                have a: "insert_all_player_stats fault fl d ps = (Inl x6, rollback d6)"
                  by (simp add: insert_all_player_stats_def r1 r2 r3 r4 r5 r6 L6 R1 R2 R3 R4 R5)
                have ki: "committed d6 = committed d5" using c6(2) L6 by simp
                show ?thesis
                  unfolding Let_def r1 r2 r3 r4 r5 r6 fst_conv snd_conv a
                  by (simp add: rollback_def c6(1) ki k1 k2 k3 k4 k5 L6 R1 R2 R3 R4 R5)
              next
                case R6: (Inr n6)
                have k6: "committed d6 = (committed d5)\<lparr>interceptions_stats :=
       row_of player_id interceptions_insert_row interceptions_update_row (interceptions_stats (committed d5)) (ps_interceptions ps)\<rparr>"
                  using c6(3) R6 by simp
                have a: "insert_all_player_stats fault fl d ps =
                    (Inr \<lparr>n_passing = n1, n_rushing = n2, n_receiving = n3, n_fumbles = n4,
                          n_defensive = n5, n_interceptions = n6\<rparr>, d6)"
                  by (simp add: insert_all_player_stats_def r1 r2 r3 r4 r5 r6 R1 R2 R3 R4 R5 R6)
                show ?thesis
                  unfolding Let_def r1 r2 r3 r4 r5 r6 fst_conv snd_conv a
                  by (simp add: rollback_def c6(1) k1 k2 k3 k4 k5 k6 R1 R2 R3 R4 R5 R6)
              qed
            qed
          qed
        qed
      qed
    qed
  qed
  then show "let r1 = insert_passing_stats fault fl d (ps_passing ps);
          r2 = insert_rushing_stats fault (snd r1) (ps_rushing ps);
          r3 = insert_receiving_stats fault (snd r2) (ps_receiving ps);
          r4 = insert_fumbles_stats fault (snd r3) (ps_fumbles ps);
          r5 = insert_defensive_stats fault (snd r4) (ps_defensive ps);
          r6 = insert_interceptions_stats fault (snd r5) (ps_interceptions ps);
          a = insert_all_player_stats fault fl d ps
      in working (snd a) = committed (snd a)
         \<and> isl (fst a) = (isl (fst r1) \<or> isl (fst r2) \<or> isl (fst r3) \<or> isl (fst r4)
                           \<or> isl (fst r5) \<or> isl (fst r6))
         \<and> committed (snd a) =
             (if isl (fst r1) then committed d
              else if isl (fst r2) then committed (snd r1)
              else if isl (fst r3) then committed (snd r2)
              else if isl (fst r4) then committed (snd r3)
              else if isl (fst r5) then committed (snd r4)
              else if isl (fst r6) then committed (snd r5)
              else committed (snd r6))
         \<and> passing_stats (committed (snd a)) =
             (if isl (fst r1) then passing_stats (committed d)
              else row_of player_id passing_insert_row (passing_update_row fl)
                     (passing_stats (committed d)) (ps_passing ps))
         \<and> rushing_stats (committed (snd a)) =
             (if isl (fst r1) \<or> isl (fst r2) then rushing_stats (committed d)
              else row_of player_id rushing_insert_row rushing_update_row
                     (rushing_stats (committed d)) (ps_rushing ps))
         \<and> receiving_stats (committed (snd a)) =
             (if isl (fst r1) \<or> isl (fst r2) \<or> isl (fst r3) then receiving_stats (committed d)
              else row_of player_id receiving_insert_row receiving_update_row
                     (receiving_stats (committed d)) (ps_receiving ps))
         \<and> fumbles_stats (committed (snd a)) =
             (if isl (fst r1) \<or> isl (fst r2) \<or> isl (fst r3) \<or> isl (fst r4) then fumbles_stats (committed d)
              else row_of player_id fumbles_insert_row fumbles_update_row
                     (fumbles_stats (committed d)) (ps_fumbles ps))
         \<and> defensive_stats (committed (snd a)) =
             (if isl (fst r1) \<or> isl (fst r2) \<or> isl (fst r3) \<or> isl (fst r4) \<or> isl (fst r5) then defensive_stats (committed d)
              else row_of player_id defensive_insert_row defensive_update_row
                     (defensive_stats (committed d)) (ps_defensive ps))
         \<and> interceptions_stats (committed (snd a)) =
             (if isl (fst r1) \<or> isl (fst r2) \<or> isl (fst r3) \<or> isl (fst r4) \<or> isl (fst r5) \<or> isl (fst r6) then interceptions_stats (committed d)
              else row_of player_id interceptions_insert_row interceptions_update_row
                     (interceptions_stats (committed d)) (ps_interceptions ps))" .
qed

text \<open>
  Claim C9. From a storage with no open transaction, each of the six insert functions,
  under any failure schedule, ends with no open transaction. If it raises, the writes
  its statements have made to the working tables are discarded and the committed
  tables are those it started with, which hold every batch committed before. If it
  returns, the committed tables are those it started with except for its own table,
  which holds for every player the row obtained by merging the player's records of the
  batch, in order, into the row stored before. \<open>insert_all_player_stats\<close> raises exactly
  when one of the six batches does; each table then holds the merged batch if its
  category came before the failing one and is unchanged otherwise.
\<close>

theorem batch_atomic:
  "(working d = committed d \<longrightarrow>
      working (snd (insert_passing_stats fault fl d xs_passing)) = committed (snd (insert_passing_stats fault fl d xs_passing))
      \<and> (isl (fst (insert_passing_stats fault fl d xs_passing)) \<longrightarrow>
           committed (snd (insert_passing_stats fault fl d xs_passing)) = committed d)
      \<and> (\<not> isl (fst (insert_passing_stats fault fl d xs_passing)) \<longrightarrow>
           committed (snd (insert_passing_stats fault fl d xs_passing)) =
           (committed d)\<lparr>passing_stats :=
              row_of player_id passing_insert_row (passing_update_row fl)
                (passing_stats (committed d)) xs_passing\<rparr>))
   \<and> (working d = committed d \<longrightarrow>
      working (snd (insert_rushing_stats fault d xs_rushing)) = committed (snd (insert_rushing_stats fault d xs_rushing))
      \<and> (isl (fst (insert_rushing_stats fault d xs_rushing)) \<longrightarrow>
           committed (snd (insert_rushing_stats fault d xs_rushing)) = committed d)
      \<and> (\<not> isl (fst (insert_rushing_stats fault d xs_rushing)) \<longrightarrow>
           committed (snd (insert_rushing_stats fault d xs_rushing)) =
           (committed d)\<lparr>rushing_stats :=
              row_of player_id rushing_insert_row rushing_update_row
                (rushing_stats (committed d)) xs_rushing\<rparr>))
   \<and> (working d = committed d \<longrightarrow>
      working (snd (insert_receiving_stats fault d xs_receiving)) = committed (snd (insert_receiving_stats fault d xs_receiving))
      \<and> (isl (fst (insert_receiving_stats fault d xs_receiving)) \<longrightarrow>
           committed (snd (insert_receiving_stats fault d xs_receiving)) = committed d)
      \<and> (\<not> isl (fst (insert_receiving_stats fault d xs_receiving)) \<longrightarrow>
           committed (snd (insert_receiving_stats fault d xs_receiving)) =
           (committed d)\<lparr>receiving_stats :=
              row_of player_id receiving_insert_row receiving_update_row
                (receiving_stats (committed d)) xs_receiving\<rparr>))
   \<and> (working d = committed d \<longrightarrow>
      working (snd (insert_fumbles_stats fault d xs_fumbles)) = committed (snd (insert_fumbles_stats fault d xs_fumbles))
      \<and> (isl (fst (insert_fumbles_stats fault d xs_fumbles)) \<longrightarrow>
           committed (snd (insert_fumbles_stats fault d xs_fumbles)) = committed d)
      \<and> (\<not> isl (fst (insert_fumbles_stats fault d xs_fumbles)) \<longrightarrow>
           committed (snd (insert_fumbles_stats fault d xs_fumbles)) =
           (committed d)\<lparr>fumbles_stats :=
              row_of player_id fumbles_insert_row fumbles_update_row
                (fumbles_stats (committed d)) xs_fumbles\<rparr>))
   \<and> (working d = committed d \<longrightarrow>
      working (snd (insert_defensive_stats fault d xs_defensive)) = committed (snd (insert_defensive_stats fault d xs_defensive))
      \<and> (isl (fst (insert_defensive_stats fault d xs_defensive)) \<longrightarrow>
           committed (snd (insert_defensive_stats fault d xs_defensive)) = committed d)
      \<and> (\<not> isl (fst (insert_defensive_stats fault d xs_defensive)) \<longrightarrow>
           committed (snd (insert_defensive_stats fault d xs_defensive)) =
           (committed d)\<lparr>defensive_stats :=
              row_of player_id defensive_insert_row defensive_update_row
                (defensive_stats (committed d)) xs_defensive\<rparr>))
   \<and> (working d = committed d \<longrightarrow>
      working (snd (insert_interceptions_stats fault d xs_interceptions)) = committed (snd (insert_interceptions_stats fault d xs_interceptions))
      \<and> (isl (fst (insert_interceptions_stats fault d xs_interceptions)) \<longrightarrow>
           committed (snd (insert_interceptions_stats fault d xs_interceptions)) = committed d)
      \<and> (\<not> isl (fst (insert_interceptions_stats fault d xs_interceptions)) \<longrightarrow>
           committed (snd (insert_interceptions_stats fault d xs_interceptions)) =
           (committed d)\<lparr>interceptions_stats :=
              row_of player_id interceptions_insert_row interceptions_update_row
                (interceptions_stats (committed d)) xs_interceptions\<rparr>))
   \<and> (working d = committed d \<longrightarrow>
     (let r1 = insert_passing_stats fault fl d (ps_passing ps);
          r2 = insert_rushing_stats fault (snd r1) (ps_rushing ps);
          r3 = insert_receiving_stats fault (snd r2) (ps_receiving ps);
          r4 = insert_fumbles_stats fault (snd r3) (ps_fumbles ps);
          r5 = insert_defensive_stats fault (snd r4) (ps_defensive ps);
          r6 = insert_interceptions_stats fault (snd r5) (ps_interceptions ps);
          a = insert_all_player_stats fault fl d ps
      in working (snd a) = committed (snd a)
         \<and> isl (fst a) = (isl (fst r1) \<or> isl (fst r2) \<or> isl (fst r3) \<or> isl (fst r4)
                           \<or> isl (fst r5) \<or> isl (fst r6))
         \<and> committed (snd a) =
             (if isl (fst r1) then committed d
              else if isl (fst r2) then committed (snd r1)
              else if isl (fst r3) then committed (snd r2)
              else if isl (fst r4) then committed (snd r3)
              else if isl (fst r5) then committed (snd r4)
              else if isl (fst r6) then committed (snd r5)
              else committed (snd r6))
         \<and> passing_stats (committed (snd a)) =
             (if isl (fst r1) then passing_stats (committed d)
              else row_of player_id passing_insert_row (passing_update_row fl)
                     (passing_stats (committed d)) (ps_passing ps))
         \<and> rushing_stats (committed (snd a)) =
             (if isl (fst r1) \<or> isl (fst r2) then rushing_stats (committed d)
              else row_of player_id rushing_insert_row rushing_update_row
                     (rushing_stats (committed d)) (ps_rushing ps))
         \<and> receiving_stats (committed (snd a)) =
             (if isl (fst r1) \<or> isl (fst r2) \<or> isl (fst r3) then receiving_stats (committed d)
              else row_of player_id receiving_insert_row receiving_update_row
                     (receiving_stats (committed d)) (ps_receiving ps))
         \<and> fumbles_stats (committed (snd a)) =
             (if isl (fst r1) \<or> isl (fst r2) \<or> isl (fst r3) \<or> isl (fst r4) then fumbles_stats (committed d)
              else row_of player_id fumbles_insert_row fumbles_update_row
                     (fumbles_stats (committed d)) (ps_fumbles ps))
         \<and> defensive_stats (committed (snd a)) =
             (if isl (fst r1) \<or> isl (fst r2) \<or> isl (fst r3) \<or> isl (fst r4) \<or> isl (fst r5) then defensive_stats (committed d)
              else row_of player_id defensive_insert_row defensive_update_row
                     (defensive_stats (committed d)) (ps_defensive ps))
         \<and> interceptions_stats (committed (snd a)) =
             (if isl (fst r1) \<or> isl (fst r2) \<or> isl (fst r3) \<or> isl (fst r4) \<or> isl (fst r5) \<or> isl (fst r6) then interceptions_stats (committed d)
              else row_of player_id interceptions_insert_row interceptions_update_row
                     (interceptions_stats (committed d)) (ps_interceptions ps))))"
proof -
  have p0: "(working d = committed d \<longrightarrow>
      working (snd (insert_passing_stats fault fl d xs_passing)) = committed (snd (insert_passing_stats fault fl d xs_passing))
      \<and> (isl (fst (insert_passing_stats fault fl d xs_passing)) \<longrightarrow>
           committed (snd (insert_passing_stats fault fl d xs_passing)) = committed d)
      \<and> (\<not> isl (fst (insert_passing_stats fault fl d xs_passing)) \<longrightarrow>
           committed (snd (insert_passing_stats fault fl d xs_passing)) =
           (committed d)\<lparr>passing_stats :=
              row_of player_id passing_insert_row (passing_update_row fl)
                (passing_stats (committed d)) xs_passing\<rparr>))"
    using insert_passing_outcome [where d = d and fault = fault and xs = xs_passing and fl = fl] by blast
  have p1: "(working d = committed d \<longrightarrow>
      working (snd (insert_rushing_stats fault d xs_rushing)) = committed (snd (insert_rushing_stats fault d xs_rushing))
      \<and> (isl (fst (insert_rushing_stats fault d xs_rushing)) \<longrightarrow>
           committed (snd (insert_rushing_stats fault d xs_rushing)) = committed d)
      \<and> (\<not> isl (fst (insert_rushing_stats fault d xs_rushing)) \<longrightarrow>
           committed (snd (insert_rushing_stats fault d xs_rushing)) =
           (committed d)\<lparr>rushing_stats :=
              row_of player_id rushing_insert_row rushing_update_row
                (rushing_stats (committed d)) xs_rushing\<rparr>))"
    using insert_rushing_outcome [where d = d and fault = fault and xs = xs_rushing] by blast
  have p2: "(working d = committed d \<longrightarrow>
      working (snd (insert_receiving_stats fault d xs_receiving)) = committed (snd (insert_receiving_stats fault d xs_receiving))
      \<and> (isl (fst (insert_receiving_stats fault d xs_receiving)) \<longrightarrow>
           committed (snd (insert_receiving_stats fault d xs_receiving)) = committed d)
      \<and> (\<not> isl (fst (insert_receiving_stats fault d xs_receiving)) \<longrightarrow>
           committed (snd (insert_receiving_stats fault d xs_receiving)) =
           (committed d)\<lparr>receiving_stats :=
              row_of player_id receiving_insert_row receiving_update_row
                (receiving_stats (committed d)) xs_receiving\<rparr>))"
    using insert_receiving_outcome [where d = d and fault = fault and xs = xs_receiving] by blast
  have p3: "(working d = committed d \<longrightarrow>
      working (snd (insert_fumbles_stats fault d xs_fumbles)) = committed (snd (insert_fumbles_stats fault d xs_fumbles))
      \<and> (isl (fst (insert_fumbles_stats fault d xs_fumbles)) \<longrightarrow>
           committed (snd (insert_fumbles_stats fault d xs_fumbles)) = committed d)
      \<and> (\<not> isl (fst (insert_fumbles_stats fault d xs_fumbles)) \<longrightarrow>
           committed (snd (insert_fumbles_stats fault d xs_fumbles)) =
           (committed d)\<lparr>fumbles_stats :=
              row_of player_id fumbles_insert_row fumbles_update_row
                (fumbles_stats (committed d)) xs_fumbles\<rparr>))"
    using insert_fumbles_outcome [where d = d and fault = fault and xs = xs_fumbles] by blast
  have p4: "(working d = committed d \<longrightarrow>
      working (snd (insert_defensive_stats fault d xs_defensive)) = committed (snd (insert_defensive_stats fault d xs_defensive))
      \<and> (isl (fst (insert_defensive_stats fault d xs_defensive)) \<longrightarrow>
           committed (snd (insert_defensive_stats fault d xs_defensive)) = committed d)
      \<and> (\<not> isl (fst (insert_defensive_stats fault d xs_defensive)) \<longrightarrow>
           committed (snd (insert_defensive_stats fault d xs_defensive)) =
           (committed d)\<lparr>defensive_stats :=
              row_of player_id defensive_insert_row defensive_update_row
                (defensive_stats (committed d)) xs_defensive\<rparr>))"
    using insert_defensive_outcome [where d = d and fault = fault and xs = xs_defensive] by blast
  have p5: "(working d = committed d \<longrightarrow>
      working (snd (insert_interceptions_stats fault d xs_interceptions)) = committed (snd (insert_interceptions_stats fault d xs_interceptions))
      \<and> (isl (fst (insert_interceptions_stats fault d xs_interceptions)) \<longrightarrow>
           committed (snd (insert_interceptions_stats fault d xs_interceptions)) = committed d)
      \<and> (\<not> isl (fst (insert_interceptions_stats fault d xs_interceptions)) \<longrightarrow>
           committed (snd (insert_interceptions_stats fault d xs_interceptions)) =
           (committed d)\<lparr>interceptions_stats :=
              row_of player_id interceptions_insert_row interceptions_update_row
                (interceptions_stats (committed d)) xs_interceptions\<rparr>))"
    using insert_interceptions_outcome [where d = d and fault = fault and xs = xs_interceptions] by blast
  have p6: "(working d = committed d \<longrightarrow>
     (let r1 = insert_passing_stats fault fl d (ps_passing ps);
          r2 = insert_rushing_stats fault (snd r1) (ps_rushing ps);
          r3 = insert_receiving_stats fault (snd r2) (ps_receiving ps);
          r4 = insert_fumbles_stats fault (snd r3) (ps_fumbles ps);
          r5 = insert_defensive_stats fault (snd r4) (ps_defensive ps);
          r6 = insert_interceptions_stats fault (snd r5) (ps_interceptions ps);
          a = insert_all_player_stats fault fl d ps
      in working (snd a) = committed (snd a)
         \<and> isl (fst a) = (isl (fst r1) \<or> isl (fst r2) \<or> isl (fst r3) \<or> isl (fst r4)
                           \<or> isl (fst r5) \<or> isl (fst r6))
         \<and> committed (snd a) =
             (if isl (fst r1) then committed d
              else if isl (fst r2) then committed (snd r1)
              else if isl (fst r3) then committed (snd r2)
              else if isl (fst r4) then committed (snd r3)
              else if isl (fst r5) then committed (snd r4)
              else if isl (fst r6) then committed (snd r5)
              else committed (snd r6))
         \<and> passing_stats (committed (snd a)) =
             (if isl (fst r1) then passing_stats (committed d)
              else row_of player_id passing_insert_row (passing_update_row fl)
                     (passing_stats (committed d)) (ps_passing ps))
         \<and> rushing_stats (committed (snd a)) =
             (if isl (fst r1) \<or> isl (fst r2) then rushing_stats (committed d)
              else row_of player_id rushing_insert_row rushing_update_row
                     (rushing_stats (committed d)) (ps_rushing ps))
         \<and> receiving_stats (committed (snd a)) =
             (if isl (fst r1) \<or> isl (fst r2) \<or> isl (fst r3) then receiving_stats (committed d)
              else row_of player_id receiving_insert_row receiving_update_row
                     (receiving_stats (committed d)) (ps_receiving ps))
         \<and> fumbles_stats (committed (snd a)) =
             (if isl (fst r1) \<or> isl (fst r2) \<or> isl (fst r3) \<or> isl (fst r4) then fumbles_stats (committed d)
              else row_of player_id fumbles_insert_row fumbles_update_row
                     (fumbles_stats (committed d)) (ps_fumbles ps))
         \<and> defensive_stats (committed (snd a)) =
             (if isl (fst r1) \<or> isl (fst r2) \<or> isl (fst r3) \<or> isl (fst r4) \<or> isl (fst r5) then defensive_stats (committed d)
              else row_of player_id defensive_insert_row defensive_update_row
                     (defensive_stats (committed d)) (ps_defensive ps))
         \<and> interceptions_stats (committed (snd a)) =
             (if isl (fst r1) \<or> isl (fst r2) \<or> isl (fst r3) \<or> isl (fst r4) \<or> isl (fst r5) \<or> isl (fst r6) then interceptions_stats (committed d)
              else row_of player_id interceptions_insert_row interceptions_update_row
                     (interceptions_stats (committed d)) (ps_interceptions ps))))"
    by (rule insert_all_outcome)
  show ?thesis
    by (intro conjI, rule p0, rule p1, rule p2, rule p3, rule p4, rule p5, rule p6)
qed

lemma ex_db_clean: "working ex_db = committed ex_db"
  by (simp add: ex_db_def)

lemma pending_before_rollback:
  "map_option passing_yards
     (passing_stats (working (snd (upsert_rows fault_at_3 passing_stats
         (\<lambda>T t. t\<lparr>passing_stats := T\<rparr>) player_id passing_insert_row
         (passing_update_row no_float) [pass_a, pass_b] ex_db 0))) 7) = Some (Some 200)"
  by (simp add: fault_at_3_def ex_db_def empty_tables_def pass_a_def pass_b_def
        passing_insert_row_def int_or_zero_def)

lemma batch_fails_mid_way:
  "fst (insert_passing_stats fault_at_3 no_float ex_db [pass_a, pass_b]) = Inl StorageError"
  by code_simp

lemma batch_succeeds:
  "fst (insert_passing_stats fault_at_8 no_float ex_db [pass_a, pass_b]) = Inr 2"
  by code_simp

lemma game_fails_in_rushing:
  "fst (insert_passing_stats fault_at_3 no_float ex_db (ps_passing game_a)) = Inr 1"
  "fst (insert_rushing_stats fault_at_3
          (snd (insert_passing_stats fault_at_3 no_float ex_db (ps_passing game_a)))
          (ps_rushing game_a)) = Inl StorageError"
  by code_simp+

lemma merged_passing_rows:
  "row_of player_id passing_insert_row (passing_update_row no_float) Map.empty
     [pass_a, pass_b] 7 = Some \<lparr>team_id = Some 2, team_name = Some ''Bills'', player_id = Some 7,
               player_name = Some ''Al Passer'', player_headshot_url = None,
               completions_attempts = Some ''15/23'', passing_yards = Some 250,
               passing_touchdowns = Some 2, interceptions = Some 1, sacks = Some 1\<rparr>"
  "row_of player_id passing_insert_row (passing_update_row no_float) Map.empty [pass_a] 7
     = Some \<lparr>team_id = Some 20, team_name = Some ''Jets'', player_id = Some 7,
               player_name = Some ''A. Passer'', player_headshot_url = Some ''a.png'',
               completions_attempts = Some ''10/15'', passing_yards = Some 200,
               passing_touchdowns = Some 2, interceptions = Some 0, sacks = Some 1\<rparr>"
  by (simp_all add: row_of_def pass_a_def pass_b_def passing_insert_row_def
        passing_update_row_def slash_tokens_merge int_or_zero_def)

theorem batch_atomic_witness:
  "working ex_db = committed ex_db
   \<and> map_option passing_yards
       (passing_stats (working (snd (upsert_rows fault_at_3 passing_stats
           (\<lambda>T t. t\<lparr>passing_stats := T\<rparr>) player_id passing_insert_row
           (passing_update_row no_float) [pass_a, pass_b] ex_db 0))) 7) = Some (Some 200)
   \<and> fst (insert_passing_stats fault_at_3 no_float ex_db [pass_a, pass_b]) = Inl StorageError
   \<and> committed (snd (insert_passing_stats fault_at_3 no_float ex_db [pass_a, pass_b]))
       = committed ex_db
   \<and> working (snd (insert_passing_stats fault_at_3 no_float ex_db [pass_a, pass_b]))
       = committed ex_db
   \<and> passing_stats
        (working (snd (insert_passing_stats fault_at_3 no_float ex_db [pass_a, pass_b]))) 7
       = None
   \<and> fst (insert_passing_stats fault_at_8 no_float ex_db [pass_a, pass_b]) = Inr 2
   \<and> passing_stats
        (committed (snd (insert_passing_stats fault_at_8 no_float ex_db [pass_a, pass_b]))) 7
       = Some \<lparr>team_id = Some 2, team_name = Some ''Bills'', player_id = Some 7,
               player_name = Some ''Al Passer'', player_headshot_url = None,
               completions_attempts = Some ''15/23'', passing_yards = Some 250,
               passing_touchdowns = Some 2, interceptions = Some 1, sacks = Some 1\<rparr>
   \<and> isl (fst (insert_all_player_stats fault_at_3 no_float ex_db game_a))
   \<and> working (snd (insert_all_player_stats fault_at_3 no_float ex_db game_a))
       = committed (snd (insert_all_player_stats fault_at_3 no_float ex_db game_a))
   \<and> passing_stats (committed (snd (insert_all_player_stats fault_at_3 no_float ex_db game_a))) 7
       = Some \<lparr>team_id = Some 20, team_name = Some ''Jets'', player_id = Some 7,
               player_name = Some ''A. Passer'', player_headshot_url = Some ''a.png'',
               completions_attempts = Some ''10/15'', passing_yards = Some 200,
               passing_touchdowns = Some 2, interceptions = Some 0, sacks = Some 1\<rparr>
   \<and> rushing_stats (committed (snd (insert_all_player_stats fault_at_3 no_float ex_db game_a))) 7
       = None"
proof -
  note T = batch_atomic [where d = ex_db and fault = fault_at_3 and fl = no_float
      and xs_passing = "[pass_a, pass_b]" and ps = game_a]
  note A = T [THEN conjunct1]
  note G = T [THEN conjunct2, THEN conjunct2, THEN conjunct2, THEN conjunct2, THEN conjunct2,
      THEN conjunct2]
  note B = batch_atomic [where d = ex_db and fault = fault_at_8 and fl = no_float
      and xs_passing = "[pass_a, pass_b]", THEN conjunct1]
  have e: "passing_stats (committed ex_db) = Map.empty" "rushing_stats (committed ex_db) = Map.empty"
    by (simp_all add: ex_db_def empty_tables_def)
  have g: "ps_passing game_a = [pass_a]" by (simp add: game_a_def)
  have f1: "committed (snd (insert_passing_stats fault_at_3 no_float ex_db [pass_a, pass_b]))
       = committed ex_db"
    and f2: "working (snd (insert_passing_stats fault_at_3 no_float ex_db [pass_a, pass_b]))
       = committed ex_db"
    using A ex_db_clean batch_fails_mid_way by simp_all
  have f3: "passing_stats
        (working (snd (insert_passing_stats fault_at_3 no_float ex_db [pass_a, pass_b]))) 7
       = None"
    by (simp add: f2 e)
  have s1: "passing_stats
        (committed (snd (insert_passing_stats fault_at_8 no_float ex_db [pass_a, pass_b]))) 7
       = Some \<lparr>team_id = Some 2, team_name = Some ''Bills'', player_id = Some 7,
               player_name = Some ''Al Passer'', player_headshot_url = None,
               completions_attempts = Some ''15/23'', passing_yards = Some 250,
               passing_touchdowns = Some 2, interceptions = Some 1, sacks = Some 1\<rparr>"
    using B ex_db_clean batch_succeeds by (simp add: e merged_passing_rows)
  have a1: "isl (fst (insert_all_player_stats fault_at_3 no_float ex_db game_a))"
    and a2: "working (snd (insert_all_player_stats fault_at_3 no_float ex_db game_a))
       = committed (snd (insert_all_player_stats fault_at_3 no_float ex_db game_a))"
    and a3: "passing_stats (committed (snd (insert_all_player_stats fault_at_3 no_float ex_db game_a)))
       = row_of player_id passing_insert_row (passing_update_row no_float)
           (passing_stats (committed ex_db)) (ps_passing game_a)"
    and a4: "rushing_stats (committed (snd (insert_all_player_stats fault_at_3 no_float ex_db game_a)))
       = rushing_stats (committed ex_db)"
    using G ex_db_clean game_fails_in_rushing by (auto simp: Let_def)
  have a5: "passing_stats (committed (snd (insert_all_player_stats fault_at_3 no_float ex_db game_a))) 7
       = Some \<lparr>team_id = Some 20, team_name = Some ''Jets'', player_id = Some 7,
               player_name = Some ''A. Passer'', player_headshot_url = Some ''a.png'',
               completions_attempts = Some ''10/15'', passing_yards = Some 200,
               passing_touchdowns = Some 2, interceptions = Some 0, sacks = Some 1\<rparr>"
    by (simp add: a3 e g merged_passing_rows)
  have a6: "rushing_stats (committed (snd (insert_all_player_stats fault_at_3 no_float ex_db game_a))) 7
       = None"
    by (simp add: a4 e)
  show ?thesis
    by (intro conjI, rule ex_db_clean, rule pending_before_rollback, rule batch_fails_mid_way,
        rule f1, rule f2, rule f3, rule batch_succeeds, rule s1, rule a1, rule a2, rule a5,
        rule a6)
qed

section \<open>Records without a player id\<close>

text \<open>
  Claim C10. In each of the six insert functions a record whose \<open>player_id\<close> is null is
  skipped: the call on a batch that contains it equals, in its result, its count and
  its storage, the call on the batch without it, provided other records remain; a batch
  that consists of this record alone sends the commit only, leaves the tables as they
  were and counts 0 rows.
\<close>

theorem null_player_id_skipped:
  "(player_id r_passing = None \<longrightarrow>
      (xs_passing @ ys_passing \<noteq> [] \<longrightarrow>
         insert_passing_stats fault fl d (xs_passing @ r_passing # ys_passing)
         = insert_passing_stats fault fl d (xs_passing @ ys_passing))
      \<and> (working d = committed d \<longrightarrow>
           committed (snd (insert_passing_stats fault fl d [r_passing])) = committed d
           \<and> working (snd (insert_passing_stats fault fl d [r_passing])) = working d
           \<and> ops (snd (insert_passing_stats fault fl d [r_passing])) = Suc (ops d)
           \<and> fst (insert_passing_stats fault fl d [r_passing]) \<in> {Inr 0, Inl StorageError}))
   \<and> (player_id r_rushing = None \<longrightarrow>
      (xs_rushing @ ys_rushing \<noteq> [] \<longrightarrow>
         insert_rushing_stats fault d (xs_rushing @ r_rushing # ys_rushing)
         = insert_rushing_stats fault d (xs_rushing @ ys_rushing))
      \<and> (working d = committed d \<longrightarrow>
           committed (snd (insert_rushing_stats fault d [r_rushing])) = committed d
           \<and> working (snd (insert_rushing_stats fault d [r_rushing])) = working d
           \<and> ops (snd (insert_rushing_stats fault d [r_rushing])) = Suc (ops d)
           \<and> fst (insert_rushing_stats fault d [r_rushing]) \<in> {Inr 0, Inl StorageError}))
   \<and> (player_id r_receiving = None \<longrightarrow>
      (xs_receiving @ ys_receiving \<noteq> [] \<longrightarrow>
         insert_receiving_stats fault d (xs_receiving @ r_receiving # ys_receiving)
         = insert_receiving_stats fault d (xs_receiving @ ys_receiving))
      \<and> (working d = committed d \<longrightarrow>
           committed (snd (insert_receiving_stats fault d [r_receiving])) = committed d
           \<and> working (snd (insert_receiving_stats fault d [r_receiving])) = working d
           \<and> ops (snd (insert_receiving_stats fault d [r_receiving])) = Suc (ops d)
           \<and> fst (insert_receiving_stats fault d [r_receiving]) \<in> {Inr 0, Inl StorageError}))
   \<and> (player_id r_fumbles = None \<longrightarrow>
      (xs_fumbles @ ys_fumbles \<noteq> [] \<longrightarrow>
         insert_fumbles_stats fault d (xs_fumbles @ r_fumbles # ys_fumbles)
         = insert_fumbles_stats fault d (xs_fumbles @ ys_fumbles))
      \<and> (working d = committed d \<longrightarrow>
           committed (snd (insert_fumbles_stats fault d [r_fumbles])) = committed d
           \<and> working (snd (insert_fumbles_stats fault d [r_fumbles])) = working d
           \<and> ops (snd (insert_fumbles_stats fault d [r_fumbles])) = Suc (ops d)
           \<and> fst (insert_fumbles_stats fault d [r_fumbles]) \<in> {Inr 0, Inl StorageError}))
   \<and> (player_id r_defensive = None \<longrightarrow>
      (xs_defensive @ ys_defensive \<noteq> [] \<longrightarrow>
         insert_defensive_stats fault d (xs_defensive @ r_defensive # ys_defensive)
         = insert_defensive_stats fault d (xs_defensive @ ys_defensive))
      \<and> (working d = committed d \<longrightarrow>
           committed (snd (insert_defensive_stats fault d [r_defensive])) = committed d
           \<and> working (snd (insert_defensive_stats fault d [r_defensive])) = working d
           \<and> ops (snd (insert_defensive_stats fault d [r_defensive])) = Suc (ops d)
           \<and> fst (insert_defensive_stats fault d [r_defensive]) \<in> {Inr 0, Inl StorageError}))
   \<and> (player_id r_interceptions = None \<longrightarrow>
      (xs_interceptions @ ys_interceptions \<noteq> [] \<longrightarrow>
         insert_interceptions_stats fault d (xs_interceptions @ r_interceptions # ys_interceptions)
         = insert_interceptions_stats fault d (xs_interceptions @ ys_interceptions))
      \<and> (working d = committed d \<longrightarrow>
           committed (snd (insert_interceptions_stats fault d [r_interceptions])) = committed d
           \<and> working (snd (insert_interceptions_stats fault d [r_interceptions])) = working d
           \<and> ops (snd (insert_interceptions_stats fault d [r_interceptions])) = Suc (ops d)
           \<and> fst (insert_interceptions_stats fault d [r_interceptions]) \<in> {Inr 0, Inl StorageError}))"
proof -
  have p0: "(player_id r_passing = None \<longrightarrow>
      (xs_passing @ ys_passing \<noteq> [] \<longrightarrow>
         insert_passing_stats fault fl d (xs_passing @ r_passing # ys_passing)
         = insert_passing_stats fault fl d (xs_passing @ ys_passing))
      \<and> (working d = committed d \<longrightarrow>
           committed (snd (insert_passing_stats fault fl d [r_passing])) = committed d
           \<and> working (snd (insert_passing_stats fault fl d [r_passing])) = working d
           \<and> ops (snd (insert_passing_stats fault fl d [r_passing])) = Suc (ops d)
           \<and> fst (insert_passing_stats fault fl d [r_passing]) \<in> {Inr 0, Inl StorageError}))"
    using insert_passing_skip [where r = r_passing and xs = xs_passing and ys = ys_passing and fault = fault and d = d and fl = fl] insert_passing_only_null [where r = r_passing and fault = fault and d = d and fl = fl] by blast
  have p1: "(player_id r_rushing = None \<longrightarrow>
      (xs_rushing @ ys_rushing \<noteq> [] \<longrightarrow>
         insert_rushing_stats fault d (xs_rushing @ r_rushing # ys_rushing)
         = insert_rushing_stats fault d (xs_rushing @ ys_rushing))
      \<and> (working d = committed d \<longrightarrow>
           committed (snd (insert_rushing_stats fault d [r_rushing])) = committed d
           \<and> working (snd (insert_rushing_stats fault d [r_rushing])) = working d
           \<and> ops (snd (insert_rushing_stats fault d [r_rushing])) = Suc (ops d)
           \<and> fst (insert_rushing_stats fault d [r_rushing]) \<in> {Inr 0, Inl StorageError}))"
    using insert_rushing_skip [where r = r_rushing and xs = xs_rushing and ys = ys_rushing and fault = fault and d = d] insert_rushing_only_null [where r = r_rushing and fault = fault and d = d] by blast
  have p2: "(player_id r_receiving = None \<longrightarrow>
      (xs_receiving @ ys_receiving \<noteq> [] \<longrightarrow>
         insert_receiving_stats fault d (xs_receiving @ r_receiving # ys_receiving)
         = insert_receiving_stats fault d (xs_receiving @ ys_receiving))
      \<and> (working d = committed d \<longrightarrow>
           committed (snd (insert_receiving_stats fault d [r_receiving])) = committed d
           \<and> working (snd (insert_receiving_stats fault d [r_receiving])) = working d
           \<and> ops (snd (insert_receiving_stats fault d [r_receiving])) = Suc (ops d)
           \<and> fst (insert_receiving_stats fault d [r_receiving]) \<in> {Inr 0, Inl StorageError}))"
    using insert_receiving_skip [where r = r_receiving and xs = xs_receiving and ys = ys_receiving and fault = fault and d = d] insert_receiving_only_null [where r = r_receiving and fault = fault and d = d] by blast
  have p3: "(player_id r_fumbles = None \<longrightarrow>
      (xs_fumbles @ ys_fumbles \<noteq> [] \<longrightarrow>
         insert_fumbles_stats fault d (xs_fumbles @ r_fumbles # ys_fumbles)
         = insert_fumbles_stats fault d (xs_fumbles @ ys_fumbles))
      \<and> (working d = committed d \<longrightarrow>
           committed (snd (insert_fumbles_stats fault d [r_fumbles])) = committed d
           \<and> working (snd (insert_fumbles_stats fault d [r_fumbles])) = working d
           \<and> ops (snd (insert_fumbles_stats fault d [r_fumbles])) = Suc (ops d)
           \<and> fst (insert_fumbles_stats fault d [r_fumbles]) \<in> {Inr 0, Inl StorageError}))"
    using insert_fumbles_skip [where r = r_fumbles and xs = xs_fumbles and ys = ys_fumbles and fault = fault and d = d] insert_fumbles_only_null [where r = r_fumbles and fault = fault and d = d] by blast
  have p4: "(player_id r_defensive = None \<longrightarrow>
      (xs_defensive @ ys_defensive \<noteq> [] \<longrightarrow>
         insert_defensive_stats fault d (xs_defensive @ r_defensive # ys_defensive)
         = insert_defensive_stats fault d (xs_defensive @ ys_defensive))
      \<and> (working d = committed d \<longrightarrow>
           committed (snd (insert_defensive_stats fault d [r_defensive])) = committed d
           \<and> working (snd (insert_defensive_stats fault d [r_defensive])) = working d
           \<and> ops (snd (insert_defensive_stats fault d [r_defensive])) = Suc (ops d)
           \<and> fst (insert_defensive_stats fault d [r_defensive]) \<in> {Inr 0, Inl StorageError}))"
    using insert_defensive_skip [where r = r_defensive and xs = xs_defensive and ys = ys_defensive and fault = fault and d = d] insert_defensive_only_null [where r = r_defensive and fault = fault and d = d] by blast
  have p5: "(player_id r_interceptions = None \<longrightarrow>
      (xs_interceptions @ ys_interceptions \<noteq> [] \<longrightarrow>
         insert_interceptions_stats fault d (xs_interceptions @ r_interceptions # ys_interceptions)
         = insert_interceptions_stats fault d (xs_interceptions @ ys_interceptions))
      \<and> (working d = committed d \<longrightarrow>
           committed (snd (insert_interceptions_stats fault d [r_interceptions])) = committed d
           \<and> working (snd (insert_interceptions_stats fault d [r_interceptions])) = working d
           \<and> ops (snd (insert_interceptions_stats fault d [r_interceptions])) = Suc (ops d)
           \<and> fst (insert_interceptions_stats fault d [r_interceptions]) \<in> {Inr 0, Inl StorageError}))"
    using insert_interceptions_skip [where r = r_interceptions and xs = xs_interceptions and ys = ys_interceptions and fault = fault and d = d] insert_interceptions_only_null [where r = r_interceptions and fault = fault and d = d] by blast
  show ?thesis
    by (intro conjI, rule p0, rule p1, rule p2, rule p3, rule p4, rule p5)
qed

theorem null_player_id_skipped_witness:
  "player_id pass_anon = None
   \<and> insert_passing_stats fault_at_8 no_float ex_db ([pass_a] @ pass_anon # [pass_b])
       = insert_passing_stats fault_at_8 no_float ex_db ([pass_a] @ [pass_b])
   \<and> committed (snd (insert_passing_stats no_fault no_float ex_db [pass_anon])) = committed ex_db
   \<and> working (snd (insert_passing_stats no_fault no_float ex_db [pass_anon])) = working ex_db
   \<and> ops (snd (insert_passing_stats no_fault no_float ex_db [pass_anon])) = Suc (ops ex_db)
   \<and> fst (insert_passing_stats no_fault no_float ex_db [pass_anon]) = Inr 0"
proof -
  have n: "player_id pass_anon = None" by (simp add: pass_anon_def)
  have r: "fst (insert_passing_stats no_fault no_float ex_db [pass_anon]) = Inr 0"
    by code_simp
  note A = null_player_id_skipped [where r_passing = pass_anon and xs_passing = "[pass_a]"
      and ys_passing = "[pass_b]" and fault = fault_at_8 and fl = no_float and d = ex_db]
  note B = null_player_id_skipped [where r_passing = pass_anon and fault = no_fault
      and fl = no_float and d = ex_db]
  show ?thesis using n r A B ex_db_clean by simp
qed

section \<open>The compilation run\<close>

lemma process_weeks_error:
  "process_weeks fault fl src season season_type weeks w = (Inl e, w') \<Longrightarrow>
   \<exists>week \<in> set weeks. get_game_ids src season week season_type = Inl e"
proof (induction weeks arbitrary: w)
  case Nil
  then show ?case by simp
next
  case (Cons week weeks)
  show ?case
  proof (cases "get_game_ids src season week season_type")
    case (Inl e')
    with Cons.prems show ?thesis by (simp add: Let_def)
  next
    case (Inr ids)
    with Cons.prems Cons.IH show ?thesis by (auto simp: Let_def)
  qed
qed

lemma process_games_caught:
  "try_game fault fl src game_id w = (Inl e, w1) \<Longrightarrow>
   process_games fault fl src week (game_id # rest) w =
   process_games fault fl src week rest (w1\<lparr>warnings := warnings w1 @ [(game_id, week)]\<rparr>)"
  by simp

lemma try_game_storage_error:
  "py_int game_id = Some g \<Longrightarrow> get_player_stats src g = Inr stats \<Longrightarrow>
   insert_all_player_stats fault fl (store w) stats = (Inl e, d) \<Longrightarrow>
   try_game fault fl src game_id w = (Inl e, w\<lparr>requests := requests w @ [Summary g], store := d\<rparr>)"
  by (simp add: try_game_def Let_def)

lemma try_game_fetch_error:
  "py_int game_id = Some g \<Longrightarrow> get_player_stats src g = Inl e \<Longrightarrow>
   try_game fault fl src game_id w = (Inl e, w\<lparr>requests := requests w @ [Summary g]\<rparr>)"
  by (simp add: try_game_def Let_def)

lemma try_game_ok:
  assumes nf: "\<forall>n. \<not> fault n" and cl: "working (store w) = committed (store w)"
    and g: "py_int game_id = Some g" and s: "get_player_stats src g = Inr stats"
  shows "\<exists>res. try_game fault fl src game_id w =
           (Inr res, w\<lparr>requests := requests w @ [Summary g],
                        store := snd (insert_all_player_stats fault fl (store w) stats)\<rparr>)"
proof -
  obtain res d' where "insert_all_player_stats fault fl (store w) stats = (Inr res, d')"
    using insert_all_nofault [OF nf cl] by blast
  with g s show ?thesis by (simp add: try_game_def Let_def)
qed

lemma insert_all_clean:
  assumes nf: "\<forall>n. \<not> fault n" and cl: "working d = committed d"
  shows "working (snd (insert_all_player_stats fault fl d ps))
         = committed (snd (insert_all_player_stats fault fl d ps))"
  using insert_all_nofault [OF nf cl, of fl ps] by auto

lemma wipe_clean:
  assumes nf: "\<forall>n. \<not> fault n"
  shows "fst (wipe_all_stats_tables fault d) = Inr ()"
    and "working (snd (wipe_all_stats_tables fault d)) = committed (snd (wipe_all_stats_tables fault d))"
  using wipe_nofault [OF nf, of d] by auto

lemma compile_invalid:
  "season_type \<notin> {1, 2, 3} \<or> end_week < 1 \<or> (season_type = 1 \<and> end_week > 4)
     \<or> (season_type = 2 \<and> end_week > 18) \<or> (season_type = 3 \<and> end_week > 4)
   \<Longrightarrow> compile_season_stats fault fl src season end_week season_type w = (Inl ValueError, w)"
  by (auto simp: compile_season_stats_def)

lemma compile_error_sources:
  assumes "compile_season_stats fault fl src season end_week season_type w = (Inl e, w')"
  shows "(e = ValueError \<and> (season_type \<notin> {1, 2, 3} \<or> end_week < 1
             \<or> (season_type = 1 \<and> end_week > 4) \<or> (season_type = 2 \<and> end_week > 18)
             \<or> (season_type = 3 \<and> end_week > 4)))
         \<or> fst (wipe_all_stats_tables fault (store w)) = Inl e
         \<or> (\<exists>week \<in> set [1..end_week]. get_game_ids src season week season_type = Inl e)"
proof (cases "season_type \<notin> {1, 2, 3} \<or> end_week < 1
             \<or> (season_type = 1 \<and> end_week > 4) \<or> (season_type = 2 \<and> end_week > 18)
             \<or> (season_type = 3 \<and> end_week > 4)")
  case True
  from compile_invalid [OF True, of fault fl src season w] assms show ?thesis
    using True by simp
next
  case False
  obtain r d where wp: "wipe_all_stats_tables fault (store w) = (r, d)"
    by (cases "wipe_all_stats_tables fault (store w)") auto
  show ?thesis
  proof (cases r)
    case (Inl e')
    with False wp assms have "e' = e" by (auto simp: compile_season_stats_def)
    with Inl wp show ?thesis by simp
  next
    case (Inr u)
    with False wp assms
    have "process_weeks fault fl src season season_type [1..end_week] (w\<lparr>store := d\<rparr>) = (Inl e, w')"
      by (auto simp: compile_season_stats_def)
    from process_weeks_error [OF this] show ?thesis by blast
  qed
qed

lemma three_games_loop:
  assumes nf: "\<forall>n. \<not> fault n" and cl: "working (store W) = committed (store W)"
    and p1: "py_int g1 = Some i1" and p2: "py_int g2 = Some i2" and p3: "py_int g3 = Some i3"
    and s1: "get_player_stats src i1 = Inr s1" and s2: "get_player_stats src i2 = Inl e"
    and s3: "get_player_stats src i3 = Inr s3"
  shows "process_games fault fl src week [g1, g2, g3] W =
           \<lparr>store = foldl (\<lambda>d ps. snd (insert_all_player_stats fault fl d ps)) (store W) [s1, s3],
            requests = requests W @ [Summary i1, Summary i2, Summary i3],
            warnings = warnings W @ [(g2, week)]\<rparr>"
proof -
  let ?d1 = "snd (insert_all_player_stats fault fl (store W) s1)"
  let ?w2 = "W\<lparr>requests := requests W @ [Summary i1], store := ?d1\<rparr>"
  let ?w3 = "?w2\<lparr>requests := requests ?w2 @ [Summary i2]\<rparr>"
  let ?w3' = "?w3\<lparr>warnings := warnings ?w3 @ [(g2, week)]\<rparr>"
  let ?w4 = "?w3'\<lparr>requests := requests ?w3' @ [Summary i3],
                   store := snd (insert_all_player_stats fault fl ?d1 s3)\<rparr>"
  have c1: "working ?d1 = committed ?d1" by (rule insert_all_clean [OF nf cl])
  obtain r1 where t1: "try_game fault fl src g1 W = (Inr r1, ?w2)"
    using try_game_ok [OF nf cl p1 s1, of fl] by auto
  have t2: "try_game fault fl src g2 ?w2 = (Inl e, ?w3)"
    using try_game_fetch_error [OF p2 s2, of fault fl ?w2] by simp
  obtain r3 where t3: "try_game fault fl src g3 ?w3' = (Inr r3, ?w4)"
    using try_game_ok [OF nf _ p3 s3, of ?w3' fl] c1 by auto
  have "process_games fault fl src week [g1, g2, g3] W = ?w4"
    by (simp only: process_games.simps t1 t2 t3 prod.case sum.case)
  then show ?thesis by simp
qed

lemma three_games_run:
  assumes nf: "\<forall>n. \<not> fault n" and st: "season_type \<in> {1, 2, 3}"
    and ids: "get_game_ids src season 1 season_type = Inr [g1, g2, g3]"
    and p1: "py_int g1 = Some i1" and p2: "py_int g2 = Some i2" and p3: "py_int g3 = Some i3"
    and s1: "get_player_stats src i1 = Inr s1" and s2: "get_player_stats src i2 = Inl e"
    and s3: "get_player_stats src i3 = Inr s3"
  shows "compile_season_stats fault fl src season 1 season_type w =
           (Inr (),
            \<lparr>store = foldl (\<lambda>d ps. snd (insert_all_player_stats fault fl d ps))
                       (snd (wipe_all_stats_tables fault (store w))) [s1, s3],
             requests = requests w @ [Schedule season 1 season_type, Summary i1, Summary i2,
                                      Summary i3],
             warnings = warnings w @ [(g2, 1)]\<rparr>)"
proof -
  obtain d0 where wp: "wipe_all_stats_tables fault (store w) = (Inr (), d0)"
    and c0: "working d0 = committed d0"
    using wipe_nofault [OF nf, of "store w"] by blast
  let ?W = "w\<lparr>store := d0, requests := requests w @ [Schedule season 1 season_type]\<rparr>"
  have cW: "working (store ?W) = committed (store ?W)" using c0 by simp
  note L = three_games_loop [OF nf cW p1 p2 p3 s1 s2 s3, of fl 1]
  have wk: "[1..1] = [1::int]" by (simp add: upto.simps)
  have v: "season_type \<in> set [1, 2, 3]" using st by simp
  have "compile_season_stats fault fl src season 1 season_type w =
          process_weeks fault fl src season season_type [1] (w\<lparr>store := d0\<rparr>)"
    unfolding compile_season_stats_def wk using v by (simp add: wp)
  also have "\<dots> = (Inr (), process_games fault fl src 1 [g1, g2, g3] ?W)"
    by (simp add: ids Let_def del: process_games.simps)
  finally show ?thesis by (simp add: L wp del: process_games.simps)
qed

lemma three_games_tables:
  assumes nf: "\<forall>n. \<not> fault n"
  shows "working (foldl (\<lambda>d ps. snd (insert_all_player_stats fault fl d ps))
                       (snd (wipe_all_stats_tables fault (store w))) [s1, s3])
         = committed (foldl (\<lambda>d ps. snd (insert_all_player_stats fault fl d ps))
                       (snd (wipe_all_stats_tables fault (store w))) [s1, s3])"
    and "committed (foldl (\<lambda>d ps. snd (insert_all_player_stats fault fl d ps))
                       (snd (wipe_all_stats_tables fault (store w))) [s1, s3])
         = \<lparr>passing_stats = row_of player_id passing_insert_row (passing_update_row fl) Map.empty
                 (ps_passing s1 @ ps_passing s3),
               rushing_stats = row_of player_id rushing_insert_row rushing_update_row Map.empty
                 (ps_rushing s1 @ ps_rushing s3),
               receiving_stats = row_of player_id receiving_insert_row receiving_update_row Map.empty
                 (ps_receiving s1 @ ps_receiving s3),
               fumbles_stats = row_of player_id fumbles_insert_row fumbles_update_row Map.empty
                 (ps_fumbles s1 @ ps_fumbles s3),
               defensive_stats = row_of player_id defensive_insert_row defensive_update_row Map.empty
                 (ps_defensive s1 @ ps_defensive s3),
               interceptions_stats = row_of player_id interceptions_insert_row interceptions_update_row Map.empty
                 (ps_interceptions s1 @ ps_interceptions s3)\<rparr>"
proof -
  obtain d0 where wp: "wipe_all_stats_tables fault (store w) = (Inr (), d0)"
    and c0: "working d0 = committed d0"
    using wipe_nofault [OF nf, of "store w"] by blast
  from games_nofault [OF nf c0, of fl "[s1, s3]"]
  show "working (foldl (\<lambda>d ps. snd (insert_all_player_stats fault fl d ps))
                       (snd (wipe_all_stats_tables fault (store w))) [s1, s3])
         = committed (foldl (\<lambda>d ps. snd (insert_all_player_stats fault fl d ps))
                       (snd (wipe_all_stats_tables fault (store w))) [s1, s3])"
    by (simp add: wp)
  from fresh_games [OF nf, of fl "store w" "[s1, s3]"]
  show "committed (foldl (\<lambda>d ps. snd (insert_all_player_stats fault fl d ps))
                       (snd (wipe_all_stats_tables fault (store w))) [s1, s3])
         = \<lparr>passing_stats = row_of player_id passing_insert_row (passing_update_row fl) Map.empty
                 (ps_passing s1 @ ps_passing s3),
               rushing_stats = row_of player_id rushing_insert_row rushing_update_row Map.empty
                 (ps_rushing s1 @ ps_rushing s3),
               receiving_stats = row_of player_id receiving_insert_row receiving_update_row Map.empty
                 (ps_receiving s1 @ ps_receiving s3),
               fumbles_stats = row_of player_id fumbles_insert_row fumbles_update_row Map.empty
                 (ps_fumbles s1 @ ps_fumbles s3),
               defensive_stats = row_of player_id defensive_insert_row defensive_update_row Map.empty
                 (ps_defensive s1 @ ps_defensive s3),
               interceptions_stats = row_of player_id interceptions_insert_row interceptions_update_row Map.empty
                 (ps_interceptions s1 @ ps_interceptions s3)\<rparr>"
    by simp
qed

lemma run_completes:
  assumes v: "season_type \<in> {1, 2, 3}" "1 \<le> end_week"
      "season_type = 1 \<longrightarrow> end_week \<le> 4" "season_type = 2 \<longrightarrow> end_week \<le> 18"
      "season_type = 3 \<longrightarrow> end_week \<le> 4"
    and wp: "fst (wipe_all_stats_tables fault (store w)) = Inr ()"
    and ids: "\<forall>week \<in> set [1..end_week]. \<exists>ids. get_game_ids src season week season_type = Inr ids"
  shows "fst (compile_season_stats fault fl src season end_week season_type w) = Inr ()"
proof (cases "fst (compile_season_stats fault fl src season end_week season_type w)")
  case (Inl e)
  then have "compile_season_stats fault fl src season end_week season_type w
      = (Inl e, snd (compile_season_stats fault fl src season end_week season_type w))"
    by (cases "compile_season_stats fault fl src season end_week season_type w") auto
  from compile_error_sources [OF this] v wp ids show ?thesis by auto
next
  case (Inr u)
  then show ?thesis by simp
qed

lemma game_ids_parse:
  "py_int ''401'' = Some 401" "py_int ''402'' = Some 402" "py_int ''403'' = Some 403"
  by code_simp+

lemma wipe_before_fault_8: "fst (wipe_all_stats_tables fault_at_8 (store ex_world)) = Inr ()"
  by code_simp

lemma storage_fails_in_game:
  "insert_all_player_stats fault_at_8 no_float
     (snd (wipe_all_stats_tables fault_at_8 ex_db)) game_a =
   (Inl StorageError,
    snd (insert_all_player_stats fault_at_8 no_float
           (snd (wipe_all_stats_tables fault_at_8 ex_db)) game_a))"
proof -
  have "fst (insert_all_player_stats fault_at_8 no_float
            (snd (wipe_all_stats_tables fault_at_8 ex_db)) game_a) = Inl StorageError"
    by code_simp
  then show ?thesis
    by (cases "insert_all_player_stats fault_at_8 no_float
            (snd (wipe_all_stats_tables fault_at_8 ex_db)) game_a") auto
qed

lemma discovery_fails:
  "fst (compile_season_stats no_fault no_float dead_feed 2025 1 2 ex_world) = Inl FetchError"
  by code_simp

lemma merged_example_rows:
  "row_of player_id passing_insert_row (passing_update_row no_float) Map.empty
     (ps_passing game_a @ ps_passing game_b) 7 = Some \<lparr>team_id = Some 2, team_name = Some ''Bills'', player_id = Some 7,
               player_name = Some ''Al Passer'', player_headshot_url = None,
               completions_attempts = Some ''15/23'', passing_yards = Some 250,
               passing_touchdowns = Some 2, interceptions = Some 1, sacks = Some 1\<rparr>"
  "row_of player_id passing_insert_row (passing_update_row no_float) Map.empty
     (ps_passing game_a @ ps_passing game_b) 8 = None"
  "row_of player_id rushing_insert_row rushing_update_row Map.empty
     (ps_rushing game_a @ ps_rushing game_b) 7 = Some \<lparr>team_id = Some 2, team_name = Some ''Bills'', player_id = Some 7,
               player_name = Some ''Al Passer'', player_headshot_url = None,
               rushing_attempts = Some 4, rushing_yards = Some (- 4),
               rushing_touchdowns = Some 0, longest_run = Some 0\<rparr>"
  "row_of player_id rushing_insert_row rushing_update_row Map.empty
     (ps_rushing game_a @ ps_rushing game_b) 8 = None"
  "row_of player_id receiving_insert_row receiving_update_row Map.empty
     (ps_receiving game_a @ ps_receiving game_b) 7 = Some \<lparr>team_id = Some 2, team_name = Some ''Bills'', player_id = Some 7,
               player_name = Some ''Al Passer'', player_headshot_url = None,
               receptions = Some 3, receiving_yards = Some 51,
               receiving_touchdowns = Some 1, longest_reception = Some 30,
               targets = Some 2\<rparr>"
  "row_of player_id receiving_insert_row receiving_update_row Map.empty
     (ps_receiving game_a @ ps_receiving game_b) 8 = None"
  "row_of player_id fumbles_insert_row fumbles_update_row Map.empty
     (ps_fumbles game_a @ ps_fumbles game_b) 7 = Some \<lparr>team_id = Some 2, team_name = Some ''Bills'', player_id = Some 7,
               player_name = Some ''Al Passer'', player_headshot_url = None,
               fumbles = Some 3, fumbles_lost = Some 1, fumbles_recovered = Some 1\<rparr>"
  "row_of player_id fumbles_insert_row fumbles_update_row Map.empty
     (ps_fumbles game_a @ ps_fumbles game_b) 8 = None"
  "row_of player_id defensive_insert_row defensive_update_row Map.empty
     (ps_defensive game_a @ ps_defensive game_b) 7 = Some \<lparr>team_id = Some 2, team_name = Some ''Bills'', player_id = Some 7,
               player_name = Some ''Al Passer'', player_headshot_url = None,
               total_tackles = Some 9, solo_tackles = Some 7, sacks_d = Some 1,
               tackles_for_loss = Some 3, passes_defended = Some 1, qb_hits = Some 3,
               defensive_touchdowns = Some 1\<rparr>"
  "row_of player_id defensive_insert_row defensive_update_row Map.empty
     (ps_defensive game_a @ ps_defensive game_b) 8 = None"
  "row_of player_id interceptions_insert_row interceptions_update_row Map.empty
     (ps_interceptions game_a @ ps_interceptions game_b) 7 = Some \<lparr>team_id = Some 2, team_name = Some ''Bills'', player_id = Some 7,
               player_name = Some ''Al Passer'', player_headshot_url = None,
               interceptions_i = Some 3, interception_yards = Some 25,
               interception_touchdowns = Some 1\<rparr>"
  "row_of player_id interceptions_insert_row interceptions_update_row Map.empty
     (ps_interceptions game_a @ ps_interceptions game_b) 8 = None"
  by (simp_all add: row_of_def game_a_def game_b_def pass_a_def pass_b_def rush_a_def rush_b_def
        recv_a_def recv_b_def fum_a_def fum_b_def def_a_def def_b_def int_a_def int_b_def
        passing_insert_row_def passing_update_row_def rushing_insert_row_def
        rushing_update_row_def receiving_insert_row_def receiving_update_row_def
        fumbles_insert_row_def fumbles_update_row_def defensive_insert_row_def
        defensive_update_row_def interceptions_insert_row_def interceptions_update_row_def
        slash_tokens_merge int_or_zero_def or_zero_eq)

text \<open>
  Claim C7. Whatever raises inside the per-game \<open>try\<close> block is caught: the game is
  recorded in the warnings with its id and week and the loop goes on with the next game.
  A run with valid parameters whose reset and game discovery succeed returns normally,
  whatever happens to individual games. With three games in week 1 of which the second
  cannot be fetched, and no storage failure, the run returns normally, the storage is
  the one obtained by merging games 1 and 3 into the reset tables, and the only new
  warning is the one for game 2; the storage has no open transaction, and each of its six
  committed tables holds, for every player, the row obtained by merging into an absent
  row the player's records of game 1 followed by those of game 3, and no row for a player
  without records in these two games.
\<close>

theorem game_failure_is_warning:
  "(try_game fault fl src game_id w = (Inl e, w1) \<longrightarrow>
      process_games fault fl src week (game_id # rest) w =
      process_games fault fl src week rest (w1\<lparr>warnings := warnings w1 @ [(game_id, week)]\<rparr>))
   \<and> (season_type \<in> {1, 2, 3} \<and> 1 \<le> end_week \<and> (season_type = 1 \<longrightarrow> end_week \<le> 4)
        \<and> (season_type = 2 \<longrightarrow> end_week \<le> 18) \<and> (season_type = 3 \<longrightarrow> end_week \<le> 4)
        \<and> fst (wipe_all_stats_tables fault (store w)) = Inr ()
        \<and> (\<forall>wk \<in> set [1..end_week]. \<exists>ids. get_game_ids src season wk season_type = Inr ids)
      \<longrightarrow> fst (compile_season_stats fault fl src season end_week season_type w) = Inr ())
   \<and> ((\<forall>n. \<not> fault n) \<and> season_type \<in> {1, 2, 3}
        \<and> get_game_ids src season 1 season_type = Inr [g1, g2, g3]
        \<and> py_int g1 = Some i1 \<and> py_int g2 = Some i2 \<and> py_int g3 = Some i3
        \<and> get_player_stats src i1 = Inr s1 \<and> get_player_stats src i2 = Inl e2
        \<and> get_player_stats src i3 = Inr s3
      \<longrightarrow> compile_season_stats fault fl src season 1 season_type w =
           (Inr (),
            \<lparr>store = foldl (\<lambda>d ps. snd (insert_all_player_stats fault fl d ps))
                       (snd (wipe_all_stats_tables fault (store w))) [s1, s3],
             requests = requests w @ [Schedule season 1 season_type, Summary i1, Summary i2,
                                      Summary i3],
             warnings = warnings w @ [(g2, 1)]\<rparr>)
         \<and> working (store (snd (compile_season_stats fault fl src season 1 season_type w)))
             = committed (store (snd (compile_season_stats fault fl src season 1 season_type w)))
         \<and> committed (store (snd (compile_season_stats fault fl src season 1 season_type w)))
             = \<lparr>passing_stats = row_of player_id passing_insert_row (passing_update_row fl) Map.empty
                 (ps_passing s1 @ ps_passing s3),
               rushing_stats = row_of player_id rushing_insert_row rushing_update_row Map.empty
                 (ps_rushing s1 @ ps_rushing s3),
               receiving_stats = row_of player_id receiving_insert_row receiving_update_row Map.empty
                 (ps_receiving s1 @ ps_receiving s3),
               fumbles_stats = row_of player_id fumbles_insert_row fumbles_update_row Map.empty
                 (ps_fumbles s1 @ ps_fumbles s3),
               defensive_stats = row_of player_id defensive_insert_row defensive_update_row Map.empty
                 (ps_defensive s1 @ ps_defensive s3),
               interceptions_stats = row_of player_id interceptions_insert_row interceptions_update_row Map.empty
                 (ps_interceptions s1 @ ps_interceptions s3)\<rparr>)"
proof -
  have a: "try_game fault fl src game_id w = (Inl e, w1) \<longrightarrow>
      process_games fault fl src week (game_id # rest) w =
      process_games fault fl src week rest (w1\<lparr>warnings := warnings w1 @ [(game_id, week)]\<rparr>)"
    using process_games_caught by blast
  have b: "season_type \<in> {1, 2, 3} \<and> 1 \<le> end_week \<and> (season_type = 1 \<longrightarrow> end_week \<le> 4)
        \<and> (season_type = 2 \<longrightarrow> end_week \<le> 18) \<and> (season_type = 3 \<longrightarrow> end_week \<le> 4)
        \<and> fst (wipe_all_stats_tables fault (store w)) = Inr ()
        \<and> (\<forall>wk \<in> set [1..end_week]. \<exists>ids. get_game_ids src season wk season_type = Inr ids)
      \<longrightarrow> fst (compile_season_stats fault fl src season end_week season_type w) = Inr ()"
    using run_completes [of season_type end_week fault w src season fl] by blast
  have c: "(\<forall>n. \<not> fault n) \<and> season_type \<in> {1, 2, 3}
        \<and> get_game_ids src season 1 season_type = Inr [g1, g2, g3]
        \<and> py_int g1 = Some i1 \<and> py_int g2 = Some i2 \<and> py_int g3 = Some i3
        \<and> get_player_stats src i1 = Inr s1 \<and> get_player_stats src i2 = Inl e2
        \<and> get_player_stats src i3 = Inr s3
      \<longrightarrow> compile_season_stats fault fl src season 1 season_type w =
           (Inr (),
            \<lparr>store = foldl (\<lambda>d ps. snd (insert_all_player_stats fault fl d ps))
                       (snd (wipe_all_stats_tables fault (store w))) [s1, s3],
             requests = requests w @ [Schedule season 1 season_type, Summary i1, Summary i2,
                                      Summary i3],
             warnings = warnings w @ [(g2, 1)]\<rparr>)
         \<and> working (store (snd (compile_season_stats fault fl src season 1 season_type w)))
             = committed (store (snd (compile_season_stats fault fl src season 1 season_type w)))
         \<and> committed (store (snd (compile_season_stats fault fl src season 1 season_type w)))
             = \<lparr>passing_stats = row_of player_id passing_insert_row (passing_update_row fl) Map.empty
                 (ps_passing s1 @ ps_passing s3),
               rushing_stats = row_of player_id rushing_insert_row rushing_update_row Map.empty
                 (ps_rushing s1 @ ps_rushing s3),
               receiving_stats = row_of player_id receiving_insert_row receiving_update_row Map.empty
                 (ps_receiving s1 @ ps_receiving s3),
               fumbles_stats = row_of player_id fumbles_insert_row fumbles_update_row Map.empty
                 (ps_fumbles s1 @ ps_fumbles s3),
               defensive_stats = row_of player_id defensive_insert_row defensive_update_row Map.empty
                 (ps_defensive s1 @ ps_defensive s3),
               interceptions_stats = row_of player_id interceptions_insert_row interceptions_update_row Map.empty
                 (ps_interceptions s1 @ ps_interceptions s3)\<rparr>"
  proof
    assume h: "(\<forall>n. \<not> fault n) \<and> season_type \<in> {1, 2, 3}
        \<and> get_game_ids src season 1 season_type = Inr [g1, g2, g3]
        \<and> py_int g1 = Some i1 \<and> py_int g2 = Some i2 \<and> py_int g3 = Some i3
        \<and> get_player_stats src i1 = Inr s1 \<and> get_player_stats src i2 = Inl e2
        \<and> get_player_stats src i3 = Inr s3"
    then have nf: "\<forall>n. \<not> fault n" by blast
    have run: "compile_season_stats fault fl src season 1 season_type w =
           (Inr (),
            \<lparr>store = foldl (\<lambda>d ps. snd (insert_all_player_stats fault fl d ps))
                       (snd (wipe_all_stats_tables fault (store w))) [s1, s3],
             requests = requests w @ [Schedule season 1 season_type, Summary i1, Summary i2,
                                      Summary i3],
             warnings = warnings w @ [(g2, 1)]\<rparr>)"
      using three_games_run [of fault season_type src season g1 g2 g3 i1 i2 i3 s1 e2 s3 fl w] h
      by blast
    have st: "store (snd (compile_season_stats fault fl src season 1 season_type w)) =
        foldl (\<lambda>d ps. snd (insert_all_player_stats fault fl d ps))
                       (snd (wipe_all_stats_tables fault (store w))) [s1, s3]"
      by (simp only: run snd_conv world.simps)
    show "compile_season_stats fault fl src season 1 season_type w =
           (Inr (),
            \<lparr>store = foldl (\<lambda>d ps. snd (insert_all_player_stats fault fl d ps))
                       (snd (wipe_all_stats_tables fault (store w))) [s1, s3],
             requests = requests w @ [Schedule season 1 season_type, Summary i1, Summary i2,
                                      Summary i3],
             warnings = warnings w @ [(g2, 1)]\<rparr>)
         \<and> working (store (snd (compile_season_stats fault fl src season 1 season_type w)))
             = committed (store (snd (compile_season_stats fault fl src season 1 season_type w)))
         \<and> committed (store (snd (compile_season_stats fault fl src season 1 season_type w)))
             = \<lparr>passing_stats = row_of player_id passing_insert_row (passing_update_row fl) Map.empty
                 (ps_passing s1 @ ps_passing s3),
               rushing_stats = row_of player_id rushing_insert_row rushing_update_row Map.empty
                 (ps_rushing s1 @ ps_rushing s3),
               receiving_stats = row_of player_id receiving_insert_row receiving_update_row Map.empty
                 (ps_receiving s1 @ ps_receiving s3),
               fumbles_stats = row_of player_id fumbles_insert_row fumbles_update_row Map.empty
                 (ps_fumbles s1 @ ps_fumbles s3),
               defensive_stats = row_of player_id defensive_insert_row defensive_update_row Map.empty
                 (ps_defensive s1 @ ps_defensive s3),
               interceptions_stats = row_of player_id interceptions_insert_row interceptions_update_row Map.empty
                 (ps_interceptions s1 @ ps_interceptions s3)\<rparr>"
      unfolding st
      by (intro conjI, rule run, rule three_games_tables(1) [OF nf],
          rule three_games_tables(2) [OF nf])
  qed
  show ?thesis by (intro conjI, rule a, rule b, rule c)
qed

theorem game_failure_is_warning_witness:
  "try_game no_fault no_float three_game_feed ''402'' ex_world
     = (Inl FetchError, ex_world\<lparr>requests := requests ex_world @ [Summary 402]\<rparr>)
   \<and> process_games no_fault no_float three_game_feed 1 [''402''] ex_world
     = \<lparr>store = ex_db, requests = [Summary 402], warnings = [(''402'', 1)]\<rparr>
   \<and> fst (compile_season_stats fault_at_8 no_float one_game_feed 2025 2 2 ex_world) = Inr ()
   \<and> (\<forall>n. \<not> no_fault n)
   \<and> fst (compile_season_stats no_fault no_float three_game_feed 2025 1 2 ex_world) = Inr ()
   \<and> requests (snd (compile_season_stats no_fault no_float three_game_feed 2025 1 2 ex_world))
       = [Schedule 2025 1 2, Summary 401, Summary 402, Summary 403]
   \<and> warnings (snd (compile_season_stats no_fault no_float three_game_feed 2025 1 2 ex_world)) = [(''402'', 1)]
   \<and> working (store (snd (compile_season_stats no_fault no_float three_game_feed 2025 1 2 ex_world)))
       = committed (store (snd (compile_season_stats no_fault no_float three_game_feed 2025 1 2 ex_world)))
   \<and> passing_stats (committed (store (snd (compile_season_stats no_fault no_float three_game_feed 2025 1 2 ex_world)))) 7
       = Some \<lparr>team_id = Some 2, team_name = Some ''Bills'', player_id = Some 7,
               player_name = Some ''Al Passer'', player_headshot_url = None,
               completions_attempts = Some ''15/23'', passing_yards = Some 250,
               passing_touchdowns = Some 2, interceptions = Some 1, sacks = Some 1\<rparr>
   \<and> passing_stats (committed (store (snd (compile_season_stats no_fault no_float three_game_feed 2025 1 2 ex_world)))) 8 = None
   \<and> rushing_stats (committed (store (snd (compile_season_stats no_fault no_float three_game_feed 2025 1 2 ex_world)))) 7
       = Some \<lparr>team_id = Some 2, team_name = Some ''Bills'', player_id = Some 7,
               player_name = Some ''Al Passer'', player_headshot_url = None,
               rushing_attempts = Some 4, rushing_yards = Some (- 4),
               rushing_touchdowns = Some 0, longest_run = Some 0\<rparr>
   \<and> rushing_stats (committed (store (snd (compile_season_stats no_fault no_float three_game_feed 2025 1 2 ex_world)))) 8 = None
   \<and> receiving_stats (committed (store (snd (compile_season_stats no_fault no_float three_game_feed 2025 1 2 ex_world)))) 7
       = Some \<lparr>team_id = Some 2, team_name = Some ''Bills'', player_id = Some 7,
               player_name = Some ''Al Passer'', player_headshot_url = None,
               receptions = Some 3, receiving_yards = Some 51,
               receiving_touchdowns = Some 1, longest_reception = Some 30,
               targets = Some 2\<rparr>
   \<and> receiving_stats (committed (store (snd (compile_season_stats no_fault no_float three_game_feed 2025 1 2 ex_world)))) 8 = None
   \<and> fumbles_stats (committed (store (snd (compile_season_stats no_fault no_float three_game_feed 2025 1 2 ex_world)))) 7
       = Some \<lparr>team_id = Some 2, team_name = Some ''Bills'', player_id = Some 7,
               player_name = Some ''Al Passer'', player_headshot_url = None,
               fumbles = Some 3, fumbles_lost = Some 1, fumbles_recovered = Some 1\<rparr>
   \<and> fumbles_stats (committed (store (snd (compile_season_stats no_fault no_float three_game_feed 2025 1 2 ex_world)))) 8 = None
   \<and> defensive_stats (committed (store (snd (compile_season_stats no_fault no_float three_game_feed 2025 1 2 ex_world)))) 7
       = Some \<lparr>team_id = Some 2, team_name = Some ''Bills'', player_id = Some 7,
               player_name = Some ''Al Passer'', player_headshot_url = None,
               total_tackles = Some 9, solo_tackles = Some 7, sacks_d = Some 1,
               tackles_for_loss = Some 3, passes_defended = Some 1, qb_hits = Some 3,
               defensive_touchdowns = Some 1\<rparr>
   \<and> defensive_stats (committed (store (snd (compile_season_stats no_fault no_float three_game_feed 2025 1 2 ex_world)))) 8 = None
   \<and> interceptions_stats (committed (store (snd (compile_season_stats no_fault no_float three_game_feed 2025 1 2 ex_world)))) 7
       = Some \<lparr>team_id = Some 2, team_name = Some ''Bills'', player_id = Some 7,
               player_name = Some ''Al Passer'', player_headshot_url = None,
               interceptions_i = Some 3, interception_yards = Some 25,
               interception_touchdowns = Some 1\<rparr>
   \<and> interceptions_stats (committed (store (snd (compile_season_stats no_fault no_float three_game_feed 2025 1 2 ex_world)))) 8 = None"
proof -
  have nf: "\<forall>n. \<not> no_fault n" by (simp add: no_fault_def)
  have t: "try_game no_fault no_float three_game_feed ''402'' ex_world
     = (Inl FetchError, ex_world\<lparr>requests := requests ex_world @ [Summary 402]\<rparr>)"
    by (simp add: try_game_def game_ids_parse three_game_feed_def Let_def)
  have ids: "\<forall>wk \<in> set [1..2]. \<exists>ids. get_game_ids one_game_feed 2025 wk 2 = Inr ids"
    by (simp add: one_game_feed_def)
  have a: "process_games no_fault no_float three_game_feed 1 [''402''] ex_world
     = \<lparr>store = ex_db, requests = [Summary 402], warnings = [(''402'', 1)]\<rparr>"
    using game_failure_is_warning [where fault = no_fault and fl = no_float
        and src = three_game_feed and game_id = "''402''" and w = ex_world and e = FetchError
        and ?w1.0 = "ex_world\<lparr>requests := requests ex_world @ [Summary 402]\<rparr>"
        and week = 1 and rest = "[]", THEN conjunct1] t
    by (simp add: ex_world_def)
  have b: "fst (compile_season_stats fault_at_8 no_float one_game_feed 2025 2 2 ex_world) = Inr ()"
    using game_failure_is_warning [where fault = fault_at_8
        and fl = no_float and src = one_game_feed and season = 2025 and end_week = 2
        and season_type = 2 and w = ex_world, THEN conjunct2, THEN conjunct1]
      wipe_before_fault_8 ids
    by simp
  have h: "(\<forall>n. \<not> no_fault n) \<and> (2::int) \<in> {1, 2, 3}
        \<and> get_game_ids three_game_feed 2025 1 2 = Inr [''401'', ''402'', ''403'']
        \<and> py_int ''401'' = Some 401 \<and> py_int ''402'' = Some 402 \<and> py_int ''403'' = Some 403
        \<and> get_player_stats three_game_feed 401 = Inr game_a
        \<and> get_player_stats three_game_feed 402 = Inl FetchError
        \<and> get_player_stats three_game_feed 403 = Inr game_b"
    using nf game_ids_parse by (simp add: three_game_feed_def)
  note C = game_failure_is_warning [where fault = no_fault
        and fl = no_float and src = three_game_feed and season = 2025 and season_type = 2
        and w = ex_world
        and ?g1.0 = "''401''" and ?g2.0 = "''402''" and ?g3.0 = "''403''"
        and ?i1.0 = 401 and ?i2.0 = 402 and ?i3.0 = 403
        and ?s1.0 = game_a and ?s3.0 = game_b and ?e2.0 = FetchError,
        THEN conjunct2, THEN conjunct2, THEN mp, OF h]
  note run = C [THEN conjunct1]
  note cl = C [THEN conjunct2, THEN conjunct1]
  note tb = C [THEN conjunct2, THEN conjunct2]
  have c1: "fst (compile_season_stats no_fault no_float three_game_feed 2025 1 2 ex_world) = Inr ()"
    by (simp only: run fst_conv)
  have c2: "requests (snd (compile_season_stats no_fault no_float three_game_feed 2025 1 2 ex_world))
       = [Schedule 2025 1 2, Summary 401, Summary 402, Summary 403]"
    using run by (simp add: ex_world_def)
  have c3: "warnings (snd (compile_season_stats no_fault no_float three_game_feed 2025 1 2 ex_world)) = [(''402'', 1)]"
    using run by (simp add: ex_world_def)
  have r0: "passing_stats (committed (store (snd (compile_season_stats no_fault no_float three_game_feed 2025 1 2 ex_world)))) 7
       = Some \<lparr>team_id = Some 2, team_name = Some ''Bills'', player_id = Some 7,
               player_name = Some ''Al Passer'', player_headshot_url = None,
               completions_attempts = Some ''15/23'', passing_yards = Some 250,
               passing_touchdowns = Some 2, interceptions = Some 1, sacks = Some 1\<rparr>"
    by (simp add: tb merged_example_rows)
  have z0: "passing_stats (committed (store (snd (compile_season_stats no_fault no_float three_game_feed 2025 1 2 ex_world)))) 8 = None"
    by (simp add: tb merged_example_rows)
  have r1: "rushing_stats (committed (store (snd (compile_season_stats no_fault no_float three_game_feed 2025 1 2 ex_world)))) 7
       = Some \<lparr>team_id = Some 2, team_name = Some ''Bills'', player_id = Some 7,
               player_name = Some ''Al Passer'', player_headshot_url = None,
               rushing_attempts = Some 4, rushing_yards = Some (- 4),
               rushing_touchdowns = Some 0, longest_run = Some 0\<rparr>"
    by (simp add: tb merged_example_rows)
  have z1: "rushing_stats (committed (store (snd (compile_season_stats no_fault no_float three_game_feed 2025 1 2 ex_world)))) 8 = None"
    by (simp add: tb merged_example_rows)
  have r2: "receiving_stats (committed (store (snd (compile_season_stats no_fault no_float three_game_feed 2025 1 2 ex_world)))) 7
       = Some \<lparr>team_id = Some 2, team_name = Some ''Bills'', player_id = Some 7,
               player_name = Some ''Al Passer'', player_headshot_url = None,
               receptions = Some 3, receiving_yards = Some 51,
               receiving_touchdowns = Some 1, longest_reception = Some 30,
               targets = Some 2\<rparr>"
    by (simp add: tb merged_example_rows)
  have z2: "receiving_stats (committed (store (snd (compile_season_stats no_fault no_float three_game_feed 2025 1 2 ex_world)))) 8 = None"
    by (simp add: tb merged_example_rows)
  have r3: "fumbles_stats (committed (store (snd (compile_season_stats no_fault no_float three_game_feed 2025 1 2 ex_world)))) 7
       = Some \<lparr>team_id = Some 2, team_name = Some ''Bills'', player_id = Some 7,
               player_name = Some ''Al Passer'', player_headshot_url = None,
               fumbles = Some 3, fumbles_lost = Some 1, fumbles_recovered = Some 1\<rparr>"
    by (simp add: tb merged_example_rows)
  have z3: "fumbles_stats (committed (store (snd (compile_season_stats no_fault no_float three_game_feed 2025 1 2 ex_world)))) 8 = None"
    by (simp add: tb merged_example_rows)
  have r4: "defensive_stats (committed (store (snd (compile_season_stats no_fault no_float three_game_feed 2025 1 2 ex_world)))) 7
       = Some \<lparr>team_id = Some 2, team_name = Some ''Bills'', player_id = Some 7,
               player_name = Some ''Al Passer'', player_headshot_url = None,
               total_tackles = Some 9, solo_tackles = Some 7, sacks_d = Some 1,
               tackles_for_loss = Some 3, passes_defended = Some 1, qb_hits = Some 3,
               defensive_touchdowns = Some 1\<rparr>"
    by (simp add: tb merged_example_rows)
  have z4: "defensive_stats (committed (store (snd (compile_season_stats no_fault no_float three_game_feed 2025 1 2 ex_world)))) 8 = None"
    by (simp add: tb merged_example_rows)
  have r5: "interceptions_stats (committed (store (snd (compile_season_stats no_fault no_float three_game_feed 2025 1 2 ex_world)))) 7
       = Some \<lparr>team_id = Some 2, team_name = Some ''Bills'', player_id = Some 7,
               player_name = Some ''Al Passer'', player_headshot_url = None,
               interceptions_i = Some 3, interception_yards = Some 25,
               interception_touchdowns = Some 1\<rparr>"
    by (simp add: tb merged_example_rows)
  have z5: "interceptions_stats (committed (store (snd (compile_season_stats no_fault no_float three_game_feed 2025 1 2 ex_world)))) 8 = None"
    by (simp add: tb merged_example_rows)
  show ?thesis
    by (intro conjI, rule t, rule a, rule b, rule nf, rule c1, rule c2, rule c3, rule cl,
        rule r0, rule z0, rule r1, rule z1, rule r2, rule z2, rule r3, rule z3, rule r4, rule z4, rule r5, rule z5)
qed

text \<open>
  Claim C4, as amended. A storage error raised by \<open>insert_all_player_stats\<close> for a game
  is caught by the per-game handler of \<open>compile_season_stats\<close>: the game is recorded in the
  warnings and the loop goes on with the next game. An error reaches the caller of
  \<open>compile_season_stats\<close> only from the validation of the parameters, from the reset of
  the tables, or from the discovery of the games of a week.
\<close>

theorem storage_error_caught_per_game:
  "(py_int game_id = Some g \<and> get_player_stats src g = Inr stats
      \<and> insert_all_player_stats fault fl (store w) stats = (Inl e, d) \<longrightarrow>
      process_games fault fl src week (game_id # rest) w =
      process_games fault fl src week rest
        (w\<lparr>requests := requests w @ [Summary g], store := d,
           warnings := warnings w @ [(game_id, week)]\<rparr>))
   \<and> (fst (compile_season_stats fault fl src season end_week season_type w0) = Inl e0 \<longrightarrow>
        (e0 = ValueError \<and> (season_type \<notin> {1, 2, 3} \<or> end_week < 1
             \<or> (season_type = 1 \<and> end_week > 4) \<or> (season_type = 2 \<and> end_week > 18)
             \<or> (season_type = 3 \<and> end_week > 4)))
        \<or> fst (wipe_all_stats_tables fault (store w0)) = Inl e0
        \<or> (\<exists>wk \<in> set [1..end_week]. get_game_ids src season wk season_type = Inl e0))"
proof -
  have a: "py_int game_id = Some g \<and> get_player_stats src g = Inr stats
      \<and> insert_all_player_stats fault fl (store w) stats = (Inl e, d) \<longrightarrow>
      process_games fault fl src week (game_id # rest) w =
      process_games fault fl src week rest
        (w\<lparr>requests := requests w @ [Summary g], store := d,
           warnings := warnings w @ [(game_id, week)]\<rparr>)"
  proof
    assume h: "py_int game_id = Some g \<and> get_player_stats src g = Inr stats
      \<and> insert_all_player_stats fault fl (store w) stats = (Inl e, d)"
    then have "try_game fault fl src game_id w
        = (Inl e, w\<lparr>requests := requests w @ [Summary g], store := d\<rparr>)"
      using try_game_storage_error by blast
    from process_games_caught [OF this, of week rest]
    show "process_games fault fl src week (game_id # rest) w =
      process_games fault fl src week rest
        (w\<lparr>requests := requests w @ [Summary g], store := d,
           warnings := warnings w @ [(game_id, week)]\<rparr>)"
      by simp
  qed
  have b: "fst (compile_season_stats fault fl src season end_week season_type w0) = Inl e0 \<longrightarrow>
        (e0 = ValueError \<and> (season_type \<notin> {1, 2, 3} \<or> end_week < 1
             \<or> (season_type = 1 \<and> end_week > 4) \<or> (season_type = 2 \<and> end_week > 18)
             \<or> (season_type = 3 \<and> end_week > 4)))
        \<or> fst (wipe_all_stats_tables fault (store w0)) = Inl e0
        \<or> (\<exists>wk \<in> set [1..end_week]. get_game_ids src season wk season_type = Inl e0)"
  proof
    assume "fst (compile_season_stats fault fl src season end_week season_type w0) = Inl e0"
    then have "compile_season_stats fault fl src season end_week season_type w0
        = (Inl e0, snd (compile_season_stats fault fl src season end_week season_type w0))"
      by (cases "compile_season_stats fault fl src season end_week season_type w0") auto
    from compile_error_sources [OF this]
    show "(e0 = ValueError \<and> (season_type \<notin> {1, 2, 3} \<or> end_week < 1
             \<or> (season_type = 1 \<and> end_week > 4) \<or> (season_type = 2 \<and> end_week > 18)
             \<or> (season_type = 3 \<and> end_week > 4)))
        \<or> fst (wipe_all_stats_tables fault (store w0)) = Inl e0
        \<or> (\<exists>wk \<in> set [1..end_week]. get_game_ids src season wk season_type = Inl e0)" .
  qed
  show ?thesis by (intro conjI, rule a, rule b)
qed

theorem storage_error_caught_per_game_witness:
  "process_games fault_at_8 no_float one_game_feed 1 [''401'']
      \<lparr>store = snd (wipe_all_stats_tables fault_at_8 ex_db), requests = [], warnings = []\<rparr>
     = \<lparr>store = snd (insert_all_player_stats fault_at_8 no_float
                       (snd (wipe_all_stats_tables fault_at_8 ex_db)) game_a),
        requests = [Summary 401], warnings = [(''401'', 1)]\<rparr>
   \<and> fst (compile_season_stats no_fault no_float dead_feed 2025 1 2 ex_world) = Inl FetchError
   \<and> (\<exists>wk \<in> set [1..1]. get_game_ids dead_feed 2025 wk 2 = Inl FetchError)"
proof -
  have a: "process_games fault_at_8 no_float one_game_feed 1 [''401'']
      \<lparr>store = snd (wipe_all_stats_tables fault_at_8 ex_db), requests = [], warnings = []\<rparr>
     = \<lparr>store = snd (insert_all_player_stats fault_at_8 no_float
                       (snd (wipe_all_stats_tables fault_at_8 ex_db)) game_a),
        requests = [Summary 401], warnings = [(''401'', 1)]\<rparr>"
    using storage_error_caught_per_game [where fault = fault_at_8 and fl = no_float
        and src = one_game_feed and game_id = "''401''" and g = 401 and stats = game_a
        and w = "\<lparr>store = snd (wipe_all_stats_tables fault_at_8 ex_db), requests = [],
                  warnings = []\<rparr>"
        and e = StorageError
        and d = "snd (insert_all_player_stats fault_at_8 no_float
                       (snd (wipe_all_stats_tables fault_at_8 ex_db)) game_a)"
        and week = 1 and rest = "[]"]
      storage_fails_in_game game_ids_parse(1)
    by (simp add: one_game_feed_def)
  have w: "fst (wipe_all_stats_tables no_fault (store ex_world)) \<noteq> Inl FetchError"
    using wipe_clean(1) [of no_fault "store ex_world"] by (simp add: no_fault_def)
  have b: "\<exists>wk \<in> set [1..1]. get_game_ids dead_feed 2025 wk 2 = Inl FetchError"
    using storage_error_caught_per_game [where fault = no_fault and fl = no_float
        and src = dead_feed and season = 2025 and end_week = 1 and season_type = 2
        and ?w0.0 = ex_world and ?e0.0 = FetchError] discovery_fails w
    by simp
  show ?thesis by (intro conjI, rule a, rule discovery_fails, rule b)
qed

text \<open>
  Claim C4 as stated fails: statement 8, the INSERT of the first passing record of the
  game of week 1, raises, so the write batch of that game fails; the run nevertheless
  goes on to week 2 and returns normally, with the failure recorded as a warning.
\<close>

theorem storage_error_swallowed_counterexample:
  "fst (insert_all_player_stats fault_at_8 no_float
          (snd (wipe_all_stats_tables fault_at_8 ex_db)) game_a) = Inl StorageError
   \<and> store ex_world = ex_db
   \<and> fst (compile_season_stats fault_at_8 no_float one_game_feed 2025 2 2 ex_world) = Inr ()
   \<and> warnings (snd (compile_season_stats fault_at_8 no_float one_game_feed 2025 2 2 ex_world))
       = [(''401'', 1)]
   \<and> requests (snd (compile_season_stats fault_at_8 no_float one_game_feed 2025 2 2 ex_world))
       = [Schedule 2025 1 2, Summary 401, Schedule 2025 2 2, Summary 401]"
proof -
  have a: "fst (insert_all_player_stats fault_at_8 no_float
          (snd (wipe_all_stats_tables fault_at_8 ex_db)) game_a) = Inl StorageError"
    by code_simp
  have b: "fst (compile_season_stats fault_at_8 no_float one_game_feed 2025 2 2 ex_world) = Inr ()"
    by code_simp
  have c: "warnings (snd (compile_season_stats fault_at_8 no_float one_game_feed 2025 2 2 ex_world))
       = [(''401'', 1)]"
    by code_simp
  have d: "requests (snd (compile_season_stats fault_at_8 no_float one_game_feed 2025 2 2 ex_world))
       = [Schedule 2025 1 2, Summary 401, Schedule 2025 2 2, Summary 401]"
    by code_simp
  have e: "store ex_world = ex_db" by (simp add: ex_world_def)
  show ?thesis by (intro conjI, rule a, rule e, rule b, rule c, rule d)
qed

end
